theory Spec2Isabelle
  imports Main "HOL-Library.Word"
begin

unbundle bit_operations_syntax

section \<open>The SOEM library, as the repository sees it\<close>

text \<open>
  The repository is a thin master on top of the SOEM library (\<^verbatim>\<open>ethercat.h\<close>), which
  is not part of it. The library is therefore a parameter of every definition below:
  a record \<open>'n soem\<close> holding the constants the code names (\<^verbatim>\<open>EC_STATE_*\<close> and the
  timeouts) and one function per library call the code makes. The type
  \<open>'n\<close> is whatever the library and the wire keep behind the scenes (the devices, the
  frames in flight); the theorems hold for every choice.
\<close>

type_synonym uint8 = "8 word"
type_synonym uint16 = "16 word"
type_synonym uint32 = "32 word"

text \<open>The fields of \<^verbatim>\<open>ec_slavet\<close> and \<^verbatim>\<open>ec_groupt\<close> that the code reads or writes.\<close>

record ec_slavet =
  state :: uint16
  ALstatuscode :: uint16
  group :: uint8
  islost :: bool
  name :: string
  Obits :: uint16
  Ibits :: uint16
  pdelay :: int
  hasdc :: bool
  eep_pdi :: uint8

record ec_groupt =
  outputsWKC :: uint16
  inputsWKC :: uint16
  docheckstate :: bool

text \<open>
  What a library call can read and change: the global tables \<^verbatim>\<open>ec_slave[]\<close> and
  \<^verbatim>\<open>ec_group[]\<close> (indexed from 0, entry 0 of \<^verbatim>\<open>ec_slave\<close> being the record that
  stands for the whole group) and the hidden state \<open>net\<close>. The tables are total
  functions of the index: the code only indexes them with 0, a slave number up to
  \<^verbatim>\<open>ec_slavecount\<close> or the current group. The global \<^verbatim>\<open>ec_slavecount\<close> is kept beside
  them, since discovery (\<^verbatim>\<open>ec_config_init\<close>) is the only call that assigns it.
\<close>

record 'n ecx =
  ec_slave :: "nat \<Rightarrow> ec_slavet"
  ec_group :: "nat \<Rightarrow> ec_groupt"
  net :: 'n

record 'n soem =
  EC_STATE_NONE :: int
  EC_STATE_INIT :: int
  EC_STATE_PRE_OP :: int
  EC_STATE_BOOT :: int
  EC_STATE_SAFE_OP :: int
  EC_STATE_OPERATIONAL :: int
  EC_STATE_ACK :: int
  EC_STATE_ERROR :: int
  EC_TIMEOUTRET :: int
  EC_TIMEOUTSTATE :: int
  ec_config_init :: "bool \<Rightarrow> 'n ecx \<Rightarrow> 'n ecx \<times> int \<times> int"
  ec_readstate :: "'n ecx \<Rightarrow> 'n ecx"
  ec_writestate :: "nat \<Rightarrow> 'n ecx \<Rightarrow> 'n ecx"
  ec_statecheck :: "nat \<Rightarrow> int \<Rightarrow> int \<Rightarrow> 'n ecx \<Rightarrow> 'n ecx \<times> int"
  ec_send_processdata :: "'n ecx \<Rightarrow> 'n ecx"
  ec_receive_processdata :: "int \<Rightarrow> 'n ecx \<Rightarrow> 'n ecx \<times> int"
  ec_reconfig_slave :: "nat \<Rightarrow> int \<Rightarrow> 'n ecx \<Rightarrow> 'n ecx \<times> int"
  ec_recover_slave :: "nat \<Rightarrow> int \<Rightarrow> 'n ecx \<Rightarrow> 'n ecx \<times> int"
  ec_ALstatuscode2string :: "uint16 \<Rightarrow> string"

text \<open>
  \<open>ec_config_init\<close> returns the new tables, the new value of \<^verbatim>\<open>ec_slavecount\<close> and
  its own result. The result of \<^verbatim>\<open>ec_readstate\<close>, \<^verbatim>\<open>ec_writestate\<close> and
  \<^verbatim>\<open>ec_send_processdata\<close> is dropped at every call site of the repository, so the
  model does not carry it.
\<close>

text \<open>
  The numbers SOEM gives the states (\<^verbatim>\<open>ec_state\<close> in \<^verbatim>\<open>ethercattype.h\<close>). Where a
  property depends on them, it has \<open>soem_state_values L\<close> as a hypothesis.
\<close>

definition soem_state_values :: "'n soem \<Rightarrow> bool" where
  "soem_state_values L \<longleftrightarrow>
     EC_STATE_NONE L = 0 \<and> EC_STATE_INIT L = 1 \<and> EC_STATE_PRE_OP L = 2
     \<and> EC_STATE_BOOT L = 3 \<and> EC_STATE_SAFE_OP L = 4 \<and> EC_STATE_OPERATIONAL L = 8
     \<and> EC_STATE_ACK L = 16 \<and> EC_STATE_ERROR L = 16"

section \<open>The SimpleEthercat object and what it does to the world\<close>

text \<open>\<^verbatim>\<open>#define EC_TIMEOUTMON 500\<close>\<close>

definition EC_TIMEOUTMON :: int where
  "EC_TIMEOUTMON = 500"

text \<open>
  The library calls the object makes, in order, with their arguments. A state-write
  request carries the state it asks for: \<^verbatim>\<open>ec_writestate(slave)\<close> sends
  \<^verbatim>\<open>ec_slave[slave].state\<close> as it stands at the call.
\<close>

datatype call =
  ConfigInit bool
  | ReadState
  | WriteState nat uint16
  | StateCheck nat int int
  | SendProcessdata
  | ReceiveProcessdata int
  | ReconfigSlave nat int
  | RecoverSlave nat int
  | Usleep int

text \<open>
  What \<^verbatim>\<open>printf\<close> writes, one value per call, holding the format's arguments in the
  order of the format string. \<^verbatim>\<open>errorMessage\<close> is either one of the literal strings
  of the source or the text \<^verbatim>\<open>sprintf\<close> builds in \<^verbatim>\<open>setSafeOperationalState\<close>, again
  kept as its arguments (slave, state, status code, status text).
\<close>

datatype printed =
  ListSlavesLine nat string int int string int bool
  | OperationalFailureLine nat string uint16
  | ShowStatesLine nat string uint16 string
  | Newline
  | SafeOpErrorAck nat
  | SafeOpToOperational nat
  | SlaveReconfigured nat
  | SlaveLost nat
  | SlaveRecovered nat
  | SlaveFound nat
  | DebugSDCSDC
  | AllSlavesResumed

datatype message =
  Literal string
  | SafeOpFailure nat uint16 uint16 string

text \<open>
  The state a method call runs in: the library's globals, the object's members
  (\<^verbatim>\<open>_state\<close>, \<^verbatim>\<open>_expectedWKC\<close>, ... are written \<open>p_state\<close>, \<open>p_expectedWKC\<close>, ...,
  since a name cannot start with an underscore), and what an observer sees: the
  library calls made and the lines printed.
\<close>

record 'n sys =
  ecx :: "'n ecx"
  ec_slavecount :: int
  errorMessage :: message
  p_slaveCount :: int
  p_expectedWKC :: int
  p_state :: int
  p_wkc :: int
  p_currentgroup :: uint8
  p_needlf :: bool
  calls :: "call list"
  stdout :: "printed list"

definition slave_state :: "'n sys \<Rightarrow> nat \<Rightarrow> uint16" where
  "slave_state s i = state (ec_slave (ecx s) i)"

definition set_slave_state :: "nat \<Rightarrow> uint16 \<Rightarrow> 'n sys \<Rightarrow> 'n sys" where
  "set_slave_state i v s =
     s\<lparr>ecx := (ecx s)\<lparr>ec_slave := (ec_slave (ecx s))(i := (ec_slave (ecx s) i)\<lparr>state := v\<rparr>)\<rparr>\<rparr>"

definition set_islost :: "nat \<Rightarrow> bool \<Rightarrow> 'n sys \<Rightarrow> 'n sys" where
  "set_islost i v s =
     s\<lparr>ecx := (ecx s)\<lparr>ec_slave := (ec_slave (ecx s))(i := (ec_slave (ecx s) i)\<lparr>islost := v\<rparr>)\<rparr>\<rparr>"

definition set_docheckstate :: "nat \<Rightarrow> bool \<Rightarrow> 'n sys \<Rightarrow> 'n sys" where
  "set_docheckstate g v s =
     s\<lparr>ecx := (ecx s)\<lparr>ec_group := (ec_group (ecx s))(g := (ec_group (ecx s) g)\<lparr>docheckstate := v\<rparr>)\<rparr>\<rparr>"

definition print :: "printed \<Rightarrow> 'n sys \<Rightarrow> 'n sys" where
  "print l s = s\<lparr>stdout := stdout s @ [l]\<rparr>"

text \<open>The slave numbers a \<^verbatim>\<open>for (i = 1; i <= ec_slavecount; i++)\<close> loop visits.\<close>

definition slave_numbers :: "int \<Rightarrow> nat list" where
  "slave_numbers n = [1 ..< Suc (nat n)]"

subsection \<open>The library calls, each logged\<close>

definition call_readstate :: "'n soem \<Rightarrow> 'n sys \<Rightarrow> 'n sys" where
  "call_readstate L s = s\<lparr>ecx := ec_readstate L (ecx s), calls := calls s @ [ReadState]\<rparr>"

definition call_writestate :: "'n soem \<Rightarrow> nat \<Rightarrow> 'n sys \<Rightarrow> 'n sys" where
  "call_writestate L i s =
     s\<lparr>ecx := ec_writestate L i (ecx s), calls := calls s @ [WriteState i (slave_state s i)]\<rparr>"

definition call_statecheck :: "'n soem \<Rightarrow> nat \<Rightarrow> int \<Rightarrow> int \<Rightarrow> 'n sys \<Rightarrow> 'n sys \<times> int" where
  "call_statecheck L i reqstate timeout s =
     (let (x, r) = ec_statecheck L i reqstate timeout (ecx s)
      in (s\<lparr>ecx := x, calls := calls s @ [StateCheck i reqstate timeout]\<rparr>, r))"

definition call_send_processdata :: "'n soem \<Rightarrow> 'n sys \<Rightarrow> 'n sys" where
  "call_send_processdata L s =
     s\<lparr>ecx := ec_send_processdata L (ecx s), calls := calls s @ [SendProcessdata]\<rparr>"

definition call_receive_processdata :: "'n soem \<Rightarrow> int \<Rightarrow> 'n sys \<Rightarrow> 'n sys \<times> int" where
  "call_receive_processdata L timeout s =
     (let (x, wkc) = ec_receive_processdata L timeout (ecx s)
      in (s\<lparr>ecx := x, calls := calls s @ [ReceiveProcessdata timeout]\<rparr>, wkc))"

definition call_reconfig_slave :: "'n soem \<Rightarrow> nat \<Rightarrow> int \<Rightarrow> 'n sys \<Rightarrow> 'n sys \<times> int" where
  "call_reconfig_slave L i timeout s =
     (let (x, r) = ec_reconfig_slave L i timeout (ecx s)
      in (s\<lparr>ecx := x, calls := calls s @ [ReconfigSlave i timeout]\<rparr>, r))"

definition call_recover_slave :: "'n soem \<Rightarrow> nat \<Rightarrow> int \<Rightarrow> 'n sys \<Rightarrow> 'n sys \<times> int" where
  "call_recover_slave L i timeout s =
     (let (x, r) = ec_recover_slave L i timeout (ecx s)
      in (s\<lparr>ecx := x, calls := calls s @ [RecoverSlave i timeout]\<rparr>, r))"

definition call_config_init :: "'n soem \<Rightarrow> bool \<Rightarrow> 'n sys \<Rightarrow> 'n sys \<times> int" where
  "call_config_init L usetable s =
     (let (x, n, r) = ec_config_init L usetable (ecx s)
      in (s\<lparr>ecx := x, ec_slavecount := n, calls := calls s @ [ConfigInit usetable]\<rparr>, r))"

definition readStates :: "'n soem \<Rightarrow> 'n sys \<Rightarrow> 'n sys" where
  "readStates L s = call_readstate L s"

subsection \<open>updateProccess\<close>

definition updateProccess :: "'n soem \<Rightarrow> 'n sys \<Rightarrow> 'n sys \<times> bool" where
  "updateProccess L s =
     (let s1 = call_send_processdata L s;
          (s2, wkc) = call_receive_processdata L (EC_TIMEOUTRET L) s1
      in if wkc < p_expectedWKC s2 then (s2, False) else (s2, True))"

subsection \<open>setSafeOperationalState\<close>



subsection \<open>The state names of the listings\<close>

text \<open>
  The \<^verbatim>\<open>switch\<close> of \<^verbatim>\<open>_slaveStateNum2Str\<close>, label by label in the order of the
  source; C requires the labels to be distinct, so the order decides nothing.
\<close>

definition slaveStateNum2Str :: "'n soem \<Rightarrow> int \<Rightarrow> string" where
  "slaveStateNum2Str L num_state =
     (if num_state = EC_STATE_BOOT L then ''Boot''
      else if num_state = EC_STATE_INIT L then ''INIT''
      else if num_state = EC_STATE_PRE_OP L then ''PRE_OP''
      else if num_state = EC_STATE_SAFE_OP L then ''SAFE_OP''
      else if num_state = EC_STATE_OPERATIONAL L then ''OP''
      else if num_state = EC_STATE_NONE L then ''NONE''
      else if num_state = EC_STATE_ERROR L then ''ERROR/ACK''
      else ''NONE'')"

definition showStates_line :: "'n soem \<Rightarrow> nat \<Rightarrow> 'n sys \<Rightarrow> 'n sys" where
  "showStates_line L i s =
     print (ShowStatesLine i (slaveStateNum2Str L (uint (slave_state s i)))
              (ALstatuscode (ec_slave (ecx s) i))
              (ec_ALstatuscode2string L (ALstatuscode (ec_slave (ecx s) i)))) s"

definition showStates :: "'n soem \<Rightarrow> 'n sys \<Rightarrow> 'n sys" where
  "showStates L s =
     (let s1 = readStates L s
      in fold (showStates_line L) (slave_numbers (ec_slavecount s1)) s1)"

text \<open>\<^verbatim>\<open>Obits/8\<close> and \<^verbatim>\<open>Ibits/8\<close> divide non-negative \<^verbatim>\<open>int\<close>s.\<close>

definition listSlaves_line :: "'n soem \<Rightarrow> nat \<Rightarrow> 'n sys \<Rightarrow> 'n sys" where
  "listSlaves_line L cnt s =
     (let sl = ec_slave (ecx s) cnt
      in print (ListSlavesLine cnt (name sl) (uint (Obits sl) div 8) (uint (Ibits sl) div 8)
                  (slaveStateNum2Str L (uint (state sl))) (pdelay sl) (hasdc sl)) s)"

definition listSlaves :: "'n soem \<Rightarrow> 'n sys \<Rightarrow> 'n sys" where
  "listSlaves L s =
     (let s1 = readStates L s
      in fold (listSlaves_line L) (slave_numbers (ec_slavecount s1)) s1)"

subsection \<open>setOperationalState\<close>

text \<open>
  \<^verbatim>\<open>do { ... } while (chk-- && (ec_slave[0].state != EC_STATE_OPERATIONAL));\<close>
  The recursion is on \<^verbatim>\<open>chk\<close>: the body runs, then \<^verbatim>\<open>chk--\<close> is tested (false at 0,
  which ends the loop), then the state of the group's record.
\<close>

definition operational_poll_body :: "'n soem \<Rightarrow> 'n sys \<Rightarrow> 'n sys" where
  "operational_poll_body L s =
     fst (call_statecheck L 0 (EC_STATE_OPERATIONAL L) 50000 (call_writestate L 0 s))"

fun operational_poll :: "'n soem \<Rightarrow> nat \<Rightarrow> 'n sys \<Rightarrow> 'n sys" where
  "operational_poll L 0 s = operational_poll_body L s"
| "operational_poll L (Suc chk) s =
     (let s1 = operational_poll_body L s
      in if uint (slave_state s1 0) \<noteq> EC_STATE_OPERATIONAL L
         then operational_poll L chk s1 else s1)"

text \<open>
  \<open>request_operational\<close> is the method up to and including the second
  \<^verbatim>\<open>ec_readstate()\<close>; the closing \<^verbatim>\<open>for\<close> loop returns at the first slave that is
  not operational, so it is a search for that slave.
\<close>

definition request_operational :: "'n soem \<Rightarrow> 'n sys \<Rightarrow> 'n sys" where
  "request_operational L s =
     (let s1 = fst (call_statecheck L 0 (EC_STATE_OPERATIONAL L) 50000 s);
          s2 = call_readstate L s1;
          s3 = set_slave_state 0 (word_of_int (EC_STATE_OPERATIONAL L)) s2;
          s4 = call_send_processdata L s3;
          s5 = fst (call_receive_processdata L (EC_TIMEOUTRET L) s4);
          s6 = call_writestate L 0 s5;
          s7 = fst (call_statecheck L 0 (EC_STATE_OPERATIONAL L) (EC_TIMEOUTSTATE L * 4) s6);
          s8 = operational_poll L 200 s7
      in call_readstate L s8)"

definition first_not_operational :: "'n soem \<Rightarrow> 'n sys \<Rightarrow> nat option" where
  "first_not_operational L s =
     find (\<lambda>i. uint (slave_state s i) \<noteq> EC_STATE_OPERATIONAL L)
       (slave_numbers (ec_slavecount s))"

definition setOperationalState :: "'n soem \<Rightarrow> 'n sys \<Rightarrow> 'n sys \<times> bool" where
  "setOperationalState L s =
     (let s9 = request_operational L s
      in case first_not_operational L s9 of
           Some i \<Rightarrow>
             ((print (OperationalFailureLine i
                        (ec_ALstatuscode2string L (ALstatuscode (ec_slave (ecx s9) i)))
                        (slave_state s9 i)) s9)
                \<lparr>errorMessage := Literal ''Slaves state can not set to operational state.''\<rparr>,
              False)
         | None \<Rightarrow> (s9\<lparr>p_state := EC_STATE_OPERATIONAL L\<rparr>, True))"

subsection \<open>setInitState and setPreOperationalState\<close>

text \<open>
  The two methods are the same text with another state constant; \<open>request_poll\<close> is
  their \<^verbatim>\<open>do ... while\<close> loop and \<open>request_state\<close> their body up to the assignment of
  \<^verbatim>\<open>_state\<close>.
\<close>

definition request_poll_body :: "'n soem \<Rightarrow> int \<Rightarrow> 'n sys \<Rightarrow> 'n sys" where
  "request_poll_body L target s =
     fst (call_statecheck L 0 target 50000
            (fst (call_receive_processdata L (EC_TIMEOUTRET L) (call_send_processdata L s))))"

fun request_poll :: "'n soem \<Rightarrow> int \<Rightarrow> nat \<Rightarrow> 'n sys \<Rightarrow> 'n sys" where
  "request_poll L target 0 s = request_poll_body L target s"
| "request_poll L target (Suc chk) s =
     (let s1 = request_poll_body L target s
      in if uint (slave_state s1 0) \<noteq> target then request_poll L target chk s1 else s1)"

definition request_state :: "'n soem \<Rightarrow> int \<Rightarrow> 'n sys \<Rightarrow> 'n sys" where
  "request_state L target s =
     (let s1 = fst (call_statecheck L 0 target 50000 s);
          s2 = call_readstate L s1;
          s3 = set_slave_state 0 (word_of_int target) s2;
          s4 = call_send_processdata L s3;
          s5 = fst (call_receive_processdata L (EC_TIMEOUTRET L) s4);
          s6 = call_writestate L 0 s5;
          s7 = request_poll L target 200 s6
      in s7\<lparr>p_state := target\<rparr>)"


definition setPreOperationalState :: "'n soem \<Rightarrow> 'n sys \<Rightarrow> 'n sys \<times> bool" where
  "setPreOperationalState L s = (request_state L (EC_STATE_PRE_OP L) s, True)"

subsection \<open>configSlaves\<close>

definition configSlaves :: "'n soem \<Rightarrow> 'n sys \<Rightarrow> 'n sys \<times> bool" where
  "configSlaves L s =
     (let (s1, found) = call_config_init L False s
      in if found > 0
         then
           (let s2 = s1\<lparr>p_slaveCount := ec_slavecount s1\<rparr>;
                s3 = fst (setPreOperationalState L s2);
                s4 = readStates L s3
            in if list_ex (\<lambda>cnt. uint (slave_state s4 cnt) \<noteq> EC_STATE_PRE_OP L)
                    (slave_numbers (ec_slavecount s4))
               then (s4\<lparr>errorMessage :=
                          Literal ''Error SimpleEthercat: Ethercat state can not switch to Pre Operational.''\<rparr>,
                     False)
               else (s4\<lparr>p_state := EC_STATE_PRE_OP L\<rparr>, True))
         else
           (readStates L
              (s1\<lparr>errorMessage :=
                    Literal ''Error SimpleEthercat: Failed to config slaves. No slaves detected!''\<rparr>),
            False))"

subsection \<open>The monitor: one pass of the loop of _ecatcheck\<close>

text \<open>
  A pass of the loop is taken as one step: the monitor runs on a thread of its own, and
  what the control loop does between two of its statements reaches it only through what
  the library calls return. The body of the \<^verbatim>\<open>for\<close> loop over the slaves is two \<^verbatim>\<open>if\<close>
  statements in a row: the repair ladder for a slave of the current group that is not
  operational, then the recovery of a slave flagged lost.
\<close>

definition needs_repair :: "'n soem \<Rightarrow> nat \<Rightarrow> 'n sys \<Rightarrow> bool" where
  "needs_repair L slave s \<longleftrightarrow>
     group (ec_slave (ecx s) slave) = p_currentgroup s
     \<and> uint (slave_state s slave) \<noteq> EC_STATE_OPERATIONAL L"

definition repair_ladder :: "'n soem \<Rightarrow> nat \<Rightarrow> 'n sys \<Rightarrow> 'n sys" where
  "repair_ladder L slave s =
     (if needs_repair L slave s
      then
        (let s1 = set_docheckstate (unat (p_currentgroup s)) True s
         in if uint (slave_state s1 slave) = EC_STATE_SAFE_OP L + EC_STATE_ERROR L
            then call_writestate L slave
                   (set_slave_state slave (word_of_int (EC_STATE_SAFE_OP L + EC_STATE_ACK L))
                      (print (SafeOpErrorAck slave) s1))
            else if uint (slave_state s1 slave) = EC_STATE_SAFE_OP L
            then call_writestate L slave
                   (set_slave_state slave (word_of_int (EC_STATE_OPERATIONAL L))
                      (print (SafeOpToOperational slave) s1))
            else if uint (slave_state s1 slave) > EC_STATE_NONE L
            then (let (s2, r) = call_reconfig_slave L slave EC_TIMEOUTMON s1
                  in if r \<noteq> 0 then print (SlaveReconfigured slave) (set_islost slave False s2)
                     else s2)
            else if \<not> islost (ec_slave (ecx s1) slave)
            then (let s2 = fst (call_statecheck L slave (EC_STATE_OPERATIONAL L) (EC_TIMEOUTRET L) s1)
                  in if uint (slave_state s2 slave) = EC_STATE_NONE L
                     then print (SlaveLost slave) (set_islost slave True s2)
                     else s2)
            else s1)
      else s)"

definition lost_recovery :: "'n soem \<Rightarrow> nat \<Rightarrow> 'n sys \<Rightarrow> 'n sys" where
  "lost_recovery L slave s =
     (if islost (ec_slave (ecx s) slave)
      then if uint (slave_state s slave) = EC_STATE_NONE L
           then (let (s1, r) = call_recover_slave L slave EC_TIMEOUTMON s
                 in if r \<noteq> 0 then print (SlaveRecovered slave) (set_islost slave False s1)
                    else s1)
           else print (SlaveFound slave) (set_islost slave False s)
      else s)"

definition check_slave :: "'n soem \<Rightarrow> nat \<Rightarrow> 'n sys \<Rightarrow> 'n sys" where
  "check_slave L slave s = lost_recovery L slave (repair_ladder L slave s)"

definition sweep_due :: "'n soem \<Rightarrow> 'n sys \<Rightarrow> bool" where
  "sweep_due L s \<longleftrightarrow>
     p_state s = EC_STATE_OPERATIONAL L
     \<and> (p_wkc s < p_expectedWKC s
        \<or> docheckstate (ec_group (ecx s) (unat (p_currentgroup s))))"

definition sweep_start :: "'n soem \<Rightarrow> 'n sys \<Rightarrow> 'n sys" where
  "sweep_start L s =
     (let s1 = (if p_needlf s then print Newline (s\<lparr>p_needlf := False\<rparr>) else s);
          s2 = set_docheckstate (unat (p_currentgroup s1)) False s1
      in call_readstate L s2)"

definition sweep_finish :: "'n sys \<Rightarrow> 'n sys" where
  "sweep_finish s =
     (if \<not> docheckstate (ec_group (ecx s) (unat (p_currentgroup s)))
      then print AllSlavesResumed
             (set_docheckstate (unat (p_currentgroup s)) False (print DebugSDCSDC s))
      else s)"

definition sweep :: "'n soem \<Rightarrow> 'n sys \<Rightarrow> 'n sys" where
  "sweep L s =
     (let s3 = sweep_start L s;
          s4 = fold (check_slave L) (slave_numbers (ec_slavecount s3)) s3
      in sweep_finish s4)"

definition ecatcheck_pass :: "'n soem \<Rightarrow> 'n sys \<Rightarrow> 'n sys" where
  "ecatcheck_pass L s =
     (let s1 = (if sweep_due L s then sweep L s else s)
      in s1\<lparr>calls := calls s1 @ [Usleep 10000]\<rparr>)"

text \<open>
  \<^verbatim>\<open>while(1)\<close> never returns; \<open>ecatcheck L n\<close> is the state after \<open>n\<close> passes.
\<close>

fun ecatcheck :: "'n soem \<Rightarrow> nat \<Rightarrow> 'n sys \<Rightarrow> 'n sys" where
  "ecatcheck L 0 s = s"
| "ecatcheck L (Suc n) s = ecatcheck L n (ecatcheck_pass L s)"

section \<open>slaveinfo: reading the PDO mapping of a slave\<close>

text \<open>
  The mapping functions of the slaveinfo tool read the object dictionary of a slave
  (\<^verbatim>\<open>ec_SDOread\<close>, \<^verbatim>\<open>ec_readOEsingle\<close>) or its SII memory (\<^verbatim>\<open>ec_siifind\<close>,
  \<^verbatim>\<open>ec_siigetbyte\<close>, \<^verbatim>\<open>ec_siistring\<close>) and print what they find. What the slave holds is
  a parameter, \<open>info_lib\<close>: each read is a function of what is asked for, the contents not
  changing while they are walked. \<^verbatim>\<open>ec_SDOread\<close> gives the work counter and the value the
  caller's buffer holds after the call and the byte-order conversion (the code sets the
  buffer to 0 before each read), of which a caller with a shorter variable keeps the low
  bytes. \<^verbatim>\<open>ec_readOEsingle\<close> gives the work counter, \<^verbatim>\<open>OElist.Entries\<close>, and the data
  type and name of the sub-index asked for. The record also holds SOEM's constants, the
  offsets of the slave's outputs and inputs in the IOmap (the pointer differences the
  code computes), the slave's \<^verbatim>\<open>eep_pdi\<close>, and \<^verbatim>\<open>dtype2string\<close>, the tool's table of type
  names, whose text no property here depends on. \<^verbatim>\<open>EC_MAXSM\<close> is given the type the
  code stores it in (\<^verbatim>\<open>nSM = EC_MAXSM\<close>, a \<^verbatim>\<open>uint8\<close>).

  The \<^verbatim>\<open>int\<close> variables of the mapping functions (\<^verbatim>\<open>mapoffset\<close>, \<^verbatim>\<open>bitoffset\<close>,
  \<^verbatim>\<open>bsize\<close>, \<^verbatim>\<open>totalsize\<close>, \<^verbatim>\<open>abs_offset\<close>, \<^verbatim>\<open>abs_bit\<close>, \<^verbatim>\<open>outputs_bo\<close>, \<^verbatim>\<open>inputs_bo\<close>)
  are 32-bit words, read as signed numbers by \<open>sint\<close>. An addition that leaves the range
  of \<^verbatim>\<open>int\<close>, which C leaves undefined, wraps.
\<close>

type_synonym c_int = "32 word"

record info_lib =
  EC_MAXSM :: uint8
  EC_MAXEEPDO :: nat
  ECT_SII_PDO :: uint16
  ECT_SDO_SMCOMMTYPE :: uint16
  ECT_SDO_PDOASSIGN :: uint16
  ec_SDOread :: "nat \<Rightarrow> uint16 \<Rightarrow> uint8 \<Rightarrow> int \<times> uint32"
  ec_readOEsingle :: "nat \<Rightarrow> uint16 \<Rightarrow> uint8 \<Rightarrow> int \<times> uint16 \<times> uint16 \<times> string"
  ec_siifind :: "nat \<Rightarrow> uint16 \<Rightarrow> uint16"
  ec_siigetbyte :: "nat \<Rightarrow> uint16 \<Rightarrow> uint8"
  ec_siistring :: "nat \<Rightarrow> uint16 \<Rightarrow> string"
  slave_eep_pdi :: "nat \<Rightarrow> uint8"
  outputs_offset :: "nat \<Rightarrow> c_int"
  inputs_offset :: "nat \<Rightarrow> c_int"
  dtype2string :: "uint16 \<Rightarrow> uint16 \<Rightarrow> string"

text \<open>
  What the mapping functions print. A mapping row is the address, bit, object index,
  sub-index and bit length, and, when the entry is listed by name, its type and name.
\<close>

datatype mapped =
  CoEHeader
  | Workaround
  | SMoutputs uint8
  | SMinputs uint8
  | EntryRow c_int c_int uint16 uint8 uint8 "(string \<times> string) option"
  | SIIHeader
  | RXPDO uint16 uint16 string
  | TXPDO uint16 uint16 string
  | ColumnHeader

fun named_row :: "mapped \<Rightarrow> bool" where
  "named_row (EntryRow abs_offset abs_bit obj_idx obj_subidx bitlen (Some n)) = True"
| "named_row other = False"

fun entry_row :: "mapped \<Rightarrow> bool" where
  "entry_row (EntryRow abs_offset abs_bit obj_idx obj_subidx bitlen n) = True"
| "entry_row other = False"

text \<open>
  \<^verbatim>\<open>bitoffset / 8\<close> and \<^verbatim>\<open>bitoffset % 8\<close> on C's \<^verbatim>\<open>int\<close> round towards zero;
  \<open>byte_address\<close> is \<^verbatim>\<open>mapoffset + (bitoffset / 8)\<close> and \<open>bit_in_byte\<close> is
  \<^verbatim>\<open>bitoffset % 8\<close>.
\<close>

definition c_div :: "int \<Rightarrow> int \<Rightarrow> int" where
  "c_div x y = sgn x * sgn y * (\<bar>x\<bar> div \<bar>y\<bar>)"

definition c_rem :: "int \<Rightarrow> int \<Rightarrow> int" where
  "c_rem x y = x - y * c_div x y"

definition byte_address :: "c_int \<Rightarrow> c_int \<Rightarrow> c_int" where
  "byte_address mapoffset bitoffset = mapoffset + word_of_int (c_div (sint bitoffset) 8)"

definition bit_in_byte :: "c_int \<Rightarrow> c_int" where
  "bit_in_byte bitoffset = word_of_int (c_rem (sint bitoffset) 8)"

subsection \<open>si_PDOassign\<close>

record PDOassign_locals =
  bsize :: c_int
  pa_bitoffset :: c_int
  pa_out :: "mapped list"

text \<open>The body of the loop over the sub-indexes of one PDO: one mapped entry.\<close>

definition PDOassign_entry ::
  "info_lib \<Rightarrow> nat \<Rightarrow> c_int \<Rightarrow> uint16 \<Rightarrow> uint16 \<Rightarrow> PDOassign_locals \<Rightarrow> PDOassign_locals" where
  "PDOassign_entry D slave mapoffset idx subidxloop l =
     (let rdat2 = snd (ec_SDOread D slave idx (ucast subidxloop));
          bitlen = (ucast rdat2 :: uint8);
          obj_idx = (ucast (drop_bit 16 rdat2) :: uint16);
          obj_subidx = (ucast (drop_bit 8 rdat2) :: uint8);
          abs_offset = byte_address mapoffset (pa_bitoffset l);
          abs_bit = bit_in_byte (pa_bitoffset l);
          (wkc, Entries, DataType, Name) =
             (if obj_idx \<noteq> 0 \<or> obj_subidx \<noteq> 0
              then ec_readOEsingle D slave obj_idx obj_subidx
              else (0, 0, 0, ''''))
      in l\<lparr>bsize := bsize l + ucast bitlen,
           pa_bitoffset := pa_bitoffset l + ucast bitlen,
           pa_out := pa_out l @
             [EntryRow abs_offset abs_bit obj_idx obj_subidx bitlen
                (if wkc > 0 \<and> Entries \<noteq> 0
                 then Some (dtype2string D DataType (ucast bitlen), Name) else None)]\<rparr>)"

text \<open>
  The body of the loop over the assigned PDOs. \<^verbatim>\<open>subidx\<close> comes from a \<^verbatim>\<open>uint8\<close>, so
  the inner loop counts from 1 to at most 255.
\<close>

definition PDOassign_pdo ::
  "info_lib \<Rightarrow> nat \<Rightarrow> uint16 \<Rightarrow> c_int \<Rightarrow> uint16 \<Rightarrow> PDOassign_locals \<Rightarrow> PDOassign_locals" where
  "PDOassign_pdo D slave PDOassign mapoffset idxloop l =
     (let idx = (ucast (snd (ec_SDOread D slave PDOassign (ucast idxloop))) :: uint16)
      in if idx > 0
         then (let subcnt = (ucast (snd (ec_SDOread D slave idx 0)) :: uint8)
               in fold (\<lambda>k. PDOassign_entry D slave mapoffset idx (of_nat k))
                    [1 ..< Suc (unat subcnt)] l)
         else l)"

text \<open>
  \<^verbatim>\<open>for (idxloop = 1; idxloop <= nidx; idxloop++)\<close> on \<^verbatim>\<open>uint16\<close>: with \<^verbatim>\<open>nidx\<close> at
  0xFFFF the counter wraps and the loop never ends.
\<close>

partial_function (option) PDOassign_loop ::
  "info_lib \<Rightarrow> nat \<Rightarrow> uint16 \<Rightarrow> c_int \<Rightarrow> uint16 \<Rightarrow> uint16 \<Rightarrow> PDOassign_locals
     \<Rightarrow> PDOassign_locals option" where
  "PDOassign_loop D slave PDOassign mapoffset nidx idxloop l =
     (if idxloop \<le> nidx
      then PDOassign_loop D slave PDOassign mapoffset nidx (idxloop + 1)
             (PDOassign_pdo D slave PDOassign mapoffset idxloop l)
      else Some l)"

declare PDOassign_loop.simps [code]

definition si_PDOassign ::
  "info_lib \<Rightarrow> nat \<Rightarrow> uint16 \<Rightarrow> c_int \<Rightarrow> c_int \<Rightarrow> PDOassign_locals option" where
  "si_PDOassign D slave PDOassign mapoffset bitoffset =
     (let (wkc, v) = ec_SDOread D slave PDOassign 0;
          rdat = (ucast v :: uint16);
          l = \<lparr>bsize = 0, pa_bitoffset = bitoffset, pa_out = []\<rparr>
      in if wkc > 0 \<and> rdat > 0
         then PDOassign_loop D slave PDOassign mapoffset rdat 1 l
         else Some l)"

text \<open>
  No PDO-assign object of the slave reports 0xFFFF assigned PDOs, the one count at which
  the loop of \<^verbatim>\<open>si_PDOassign\<close> does not end.
\<close>

definition PDO_counts_end :: "info_lib \<Rightarrow> nat \<Rightarrow> bool" where
  "PDO_counts_end D slave \<longleftrightarrow>
     (\<forall>PDOassign. (ucast (snd (ec_SDOread D slave PDOassign 0)) :: uint16) \<noteq> 0xFFFF)"

subsection \<open>si_map_sdo\<close>

record map_sdo_locals =
  SMt_bug_add :: uint8
  outputs_bo :: c_int
  inputs_bo :: c_int
  sdo_out :: "mapped list"

text \<open>\<^verbatim>\<open>if(tSM) tSM += SMt_bug_add;\<close>\<close>

definition corrected_type :: "uint8 \<Rightarrow> uint8 \<Rightarrow> uint8" where
  "corrected_type bug tSM = (if tSM \<noteq> 0 then tSM + bug else tSM)"

text \<open>The two \<^verbatim>\<open>if\<close> statements on the corrected type, outputs first.\<close>

definition map_outputs :: "info_lib \<Rightarrow> nat \<Rightarrow> uint8 \<Rightarrow> map_sdo_locals \<Rightarrow> map_sdo_locals option" where
  "map_outputs D slave iSM l =
     (case si_PDOassign D slave (ECT_SDO_PDOASSIGN D + ucast iSM) (outputs_offset D slave)
             (outputs_bo l) of
        None \<Rightarrow> None
      | Some r \<Rightarrow> Some (l\<lparr>sdo_out := sdo_out l @ [SMoutputs iSM] @ pa_out r,
                           outputs_bo := outputs_bo l + bsize r\<rparr>))"

definition map_inputs :: "info_lib \<Rightarrow> nat \<Rightarrow> uint8 \<Rightarrow> map_sdo_locals \<Rightarrow> map_sdo_locals option" where
  "map_inputs D slave iSM l =
     (case si_PDOassign D slave (ECT_SDO_PDOASSIGN D + ucast iSM) (inputs_offset D slave)
             (inputs_bo l) of
        None \<Rightarrow> None
      | Some r \<Rightarrow> Some (l\<lparr>sdo_out := sdo_out l @ [SMinputs iSM] @ pa_out r,
                           inputs_bo := inputs_bo l + bsize r\<rparr>))"

definition map_sm :: "info_lib \<Rightarrow> nat \<Rightarrow> uint8 \<Rightarrow> uint8 \<Rightarrow> map_sdo_locals \<Rightarrow> map_sdo_locals option" where
  "map_sm D slave iSM tSM l =
     (case (if tSM = 3 then map_outputs D slave iSM l else Some l) of
        None \<Rightarrow> None
      | Some l1 \<Rightarrow> if tSM = 4 then map_inputs D slave iSM l1 else Some l1)"

text \<open>The body of the loop over the sync managers.\<close>

definition map_sdo_sm :: "info_lib \<Rightarrow> nat \<Rightarrow> uint8 \<Rightarrow> map_sdo_locals \<Rightarrow> map_sdo_locals option" where
  "map_sdo_sm D slave iSM l =
     (let (wkc, v) = ec_SDOread D slave (ECT_SDO_SMCOMMTYPE D) (iSM + 1);
          tSM = (ucast v :: uint8)
      in if wkc > 0
         then (let l1 = (if iSM = 2 \<and> tSM = 2
                         then l\<lparr>SMt_bug_add := 1, sdo_out := sdo_out l @ [Workaround]\<rparr>
                         else l)
               in map_sm D slave iSM (corrected_type (SMt_bug_add l1) tSM) l1)
         else Some l)"

fun map_sdo_loop :: "info_lib \<Rightarrow> nat \<Rightarrow> uint8 list \<Rightarrow> map_sdo_locals \<Rightarrow> map_sdo_locals option" where
  "map_sdo_loop D slave [] l = Some l"
| "map_sdo_loop D slave (iSM # rest) l =
     (case map_sdo_sm D slave iSM l of
        None \<Rightarrow> None
      | Some l1 \<Rightarrow> map_sdo_loop D slave rest l1)"

text \<open>
  \<^verbatim>\<open>nSM\<close> is above 2 before \<^verbatim>\<open>nSM--\<close> and is only lowered after it, so it is at most
  254 and \<^verbatim>\<open>for (iSM = 2 ; iSM <= nSM ; iSM++)\<close> visits 2, ..., \<^verbatim>\<open>nSM\<close> with no wrap of
  the \<^verbatim>\<open>uint8\<close> counter. The result is \<^verbatim>\<open>retVal\<close> and what was printed.
\<close>

definition sm_numbers :: "uint8 \<Rightarrow> uint8 list" where
  "sm_numbers nSM = map of_nat [2 ..< Suc (unat nSM)]"

definition si_map_sdo :: "info_lib \<Rightarrow> nat \<Rightarrow> (int \<times> mapped list) option" where
  "si_map_sdo D slave =
     (let l0 = \<lparr>SMt_bug_add = 0, outputs_bo = 0, inputs_bo = 0, sdo_out = [CoEHeader]\<rparr>;
          (wkc, v) = ec_SDOread D slave (ECT_SDO_SMCOMMTYPE D) 0;
          nSM = (ucast v :: uint8)
      in case (if wkc > 0 \<and> nSM > 2
               then (let nSM1 = nSM - 1;
                         nSM2 = (if nSM1 > EC_MAXSM D then EC_MAXSM D else nSM1)
                     in map_sdo_loop D slave (sm_numbers nSM2) l0)
               else Some l0) of
           None \<Rightarrow> None
         | Some l \<Rightarrow>
             Some (if sint (outputs_bo l) > 0 \<or> sint (inputs_bo l) > 0 then 1 else 0,
                   sdo_out l))"

subsection \<open>si_siiPDO\<close>

text \<open>
  \<^verbatim>\<open>ec_eepromPDOt\<close>: three tables of \<^verbatim>\<open>EC_MAXEEPDO\<close> entries and one of \<^verbatim>\<open>EC_MAXSM\<close>.
  A write or read at an index outside a table is undefined in C; the model keeps the
  table as it is, reads 0, and raises the flag \<open>overrun\<close>.
\<close>

record eepromPDO =
  Startpos :: uint16
  Length :: uint16
  nPDO :: uint16
  Index :: "uint16 list"
  SyncM :: "uint16 list"
  BitSize :: "uint16 list"
  SMbitsize :: "uint16 list"

definition in_table :: "uint16 list \<Rightarrow> uint16 \<Rightarrow> bool" where
  "in_table xs i \<longleftrightarrow> unat i < length xs"

definition table_get :: "uint16 list \<Rightarrow> uint16 \<Rightarrow> uint16" where
  "table_get xs i = (if in_table xs i then xs ! unat i else 0)"

definition table_set :: "uint16 list \<Rightarrow> uint16 \<Rightarrow> uint16 \<Rightarrow> uint16 list" where
  "table_set xs i v = (if in_table xs i then xs[unat i := v] else xs)"

record siiPDO_locals =
  PDO :: eepromPDO
  sii_a :: uint16
  sii_c :: uint16
  sii_bitoffset :: c_int
  totalsize :: c_int
  sii_out :: "mapped list"
  overrun :: bool

text \<open>A 16-bit value stored low byte first at address \<open>a\<close>.\<close>

definition sii_word :: "info_lib \<Rightarrow> nat \<Rightarrow> uint16 \<Rightarrow> uint16" where
  "sii_word D slave a =
     ucast (ec_siigetbyte D slave a) + push_bit 8 (ucast (ec_siigetbyte D slave (a + 1)))"

definition sii_name :: "info_lib \<Rightarrow> nat \<Rightarrow> uint8 \<Rightarrow> string" where
  "sii_name D slave obj_name = (if obj_name \<noteq> 0 then ec_siistring D slave (ucast obj_name) else '''')"

text \<open>The body of the loop over the entries of one PDO.\<close>

definition siiPDO_entry :: "info_lib \<Rightarrow> nat \<Rightarrow> c_int \<Rightarrow> siiPDO_locals \<Rightarrow> siiPDO_locals" where
  "siiPDO_entry D slave mapoffset l =
     (let a = sii_a l;
          obj_idx = sii_word D slave a;
          obj_subidx = ec_siigetbyte D slave (a + 2);
          obj_name = ec_siigetbyte D slave (a + 3);
          obj_datatype = ec_siigetbyte D slave (a + 4);
          bitlen = ec_siigetbyte D slave (a + 5);
          abs_offset = byte_address mapoffset (sii_bitoffset l);
          abs_bit = bit_in_byte (sii_bitoffset l);
          n = nPDO (PDO l)
      in l\<lparr>PDO := (PDO l)\<lparr>BitSize := table_set (BitSize (PDO l)) n
                                         (table_get (BitSize (PDO l)) n + ucast bitlen)\<rparr>,
           overrun := overrun l \<or> \<not> in_table (BitSize (PDO l)) n,
           sii_c := sii_c l + 4,
           sii_a := a + 8,
           sii_out := (if obj_idx \<noteq> 0 \<or> obj_subidx \<noteq> 0
                       then sii_out l @
                              [EntryRow abs_offset abs_bit obj_idx obj_subidx bitlen
                                 (Some (dtype2string D (ucast obj_datatype) (ucast bitlen),
                                        sii_name D slave obj_name))]
                       else sii_out l),
           sii_bitoffset := sii_bitoffset l + ucast bitlen,
           totalsize := totalsize l + ucast bitlen\<rparr>)"

text \<open>\<^verbatim>\<open>for (er = 1; er <= e; er++)\<close>, with \<^verbatim>\<open>e\<close> read from one byte.\<close>

fun siiPDO_entries :: "info_lib \<Rightarrow> nat \<Rightarrow> c_int \<Rightarrow> nat \<Rightarrow> siiPDO_locals \<Rightarrow> siiPDO_locals" where
  "siiPDO_entries D slave mapoffset 0 l = l"
| "siiPDO_entries D slave mapoffset (Suc e) l =
     siiPDO_entries D slave mapoffset e (siiPDO_entry D slave mapoffset l)"

text \<open>The body of the \<^verbatim>\<open>do ... while\<close> loop: one PDO record.\<close>

definition siiPDO_record ::
  "info_lib \<Rightarrow> nat \<Rightarrow> uint8 \<Rightarrow> c_int \<Rightarrow> siiPDO_locals \<Rightarrow> siiPDO_locals" where
  "siiPDO_record D slave t mapoffset l =
     (let n = nPDO (PDO l) + 1;
          a = sii_a l;
          e = (ucast (ec_siigetbyte D slave (a + 2)) :: uint16);
          obj_name = ec_siigetbyte D slave (a + 5);
          p1 = (PDO l)\<lparr>nPDO := n,
                        Index := table_set (Index (PDO l)) n (sii_word D slave a),
                        BitSize := table_set (BitSize (PDO l)) n 0,
                        SyncM := table_set (SyncM (PDO l)) n (ucast (ec_siigetbyte D slave (a + 3)))\<rparr>;
          l1 = l\<lparr>PDO := p1,
                  overrun := overrun l \<or> \<not> in_table (Index (PDO l)) n
                             \<or> \<not> in_table (BitSize (PDO l)) n \<or> \<not> in_table (SyncM (PDO l)) n,
                  sii_a := a + 8,
                  sii_c := sii_c l + 1 + 2\<rparr>;
          sm = table_get (SyncM p1) n;
          l2 = (if unat sm < unat (EC_MAXSM D)
                then
                  (let l3 = siiPDO_entries D slave mapoffset (unat e)
                              (l1\<lparr>sii_out := sii_out l1 @
                                     [(if t \<noteq> 0 then RXPDO else TXPDO) sm (table_get (Index p1) n)
                                        (sii_name D slave obj_name),
                                      ColumnHeader]\<rparr>)
                   in l3\<lparr>PDO := (PDO l3)\<lparr>SMbitsize :=
                                    table_set (SMbitsize (PDO l3)) sm
                                      (table_get (SMbitsize (PDO l3)) sm
                                       + table_get (BitSize (PDO l3)) n)\<rparr>,
                         overrun := overrun l3 \<or> \<not> in_table (SMbitsize (PDO l3)) sm,
                         sii_c := sii_c l3 + 1\<rparr>)
                else l1\<lparr>sii_c := sii_c l1 + 4 * e + 1, sii_a := sii_a l1 + 8 * e\<rparr>)
      in if int (unat (nPDO (PDO l2))) \<ge> int (EC_MAXEEPDO D) - 1
         then l2\<lparr>sii_c := Length (PDO l2)\<rparr> else l2)"

partial_function (option) siiPDO_walk ::
  "info_lib \<Rightarrow> nat \<Rightarrow> uint8 \<Rightarrow> c_int \<Rightarrow> siiPDO_locals \<Rightarrow> siiPDO_locals option" where
  "siiPDO_walk D slave t mapoffset l =
     (let l1 = siiPDO_record D slave t mapoffset l
      in if sii_c l1 < Length (PDO l1)
         then siiPDO_walk D slave t mapoffset l1
         else Some l1)"

declare siiPDO_walk.simps [code]

text \<open>
  The locals as the walk finds them: \<^verbatim>\<open>nPDO\<close> and \<^verbatim>\<open>Length\<close> 0, \<^verbatim>\<open>Index[1]\<close> and the
  \<^verbatim>\<open>SMbitsize\<close> table cleared. The other entries of the (uninitialised) tables are
  written before they are read; they start as 0 here.
\<close>

definition siiPDO_start :: "info_lib \<Rightarrow> c_int \<Rightarrow> siiPDO_locals" where
  "siiPDO_start D bitoffset =
     \<lparr>PDO = \<lparr>Startpos = 0, Length = 0, nPDO = 0,
              Index = replicate (EC_MAXEEPDO D) 0,
              SyncM = replicate (EC_MAXEEPDO D) 0,
              BitSize = replicate (EC_MAXEEPDO D) 0,
              SMbitsize = replicate (unat (EC_MAXSM D)) 0\<rparr>,
      sii_a = 0, sii_c = 0, sii_bitoffset = bitoffset, totalsize = 0, sii_out = [],
      overrun = \<not> 1 < EC_MAXEEPDO D\<rparr>"

text \<open>
  \<open>siiPDO_enter\<close> is the locals when the loop is entered, the section having been found
  at \<open>pos\<close>. The result of \<open>si_siiPDO\<close> is the locals at the return (\<^verbatim>\<open>totalsize\<close> is
  what the function returns) and whether \<^verbatim>\<open>ec_eeprom2pdi\<close> was called.
\<close>

definition siiPDO_enter :: "info_lib \<Rightarrow> nat \<Rightarrow> uint16 \<Rightarrow> c_int \<Rightarrow> siiPDO_locals" where
  "siiPDO_enter D slave pos bitoffset =
     (let l0 = siiPDO_start D bitoffset
      in l0\<lparr>PDO := (PDO l0)\<lparr>Startpos := pos, Length := sii_word D slave pos\<rparr>,
            sii_a := pos + 2, sii_c := 1\<rparr>)"

definition si_siiPDO ::
  "info_lib \<Rightarrow> nat \<Rightarrow> uint8 \<Rightarrow> c_int \<Rightarrow> c_int \<Rightarrow> (siiPDO_locals \<times> bool) option" where
  "si_siiPDO D slave t mapoffset bitoffset =
     (let eectl = slave_eep_pdi D slave;
          t1 = (if t > 1 then 1 else t);
          pos = ec_siifind D slave (ECT_SII_PDO D + ucast t1)
      in if pos > 0
         then (case siiPDO_walk D slave t1 mapoffset (siiPDO_enter D slave pos bitoffset) of
                 None \<Rightarrow> None
               | Some l \<Rightarrow> Some (l, eectl \<noteq> 0))
         else Some ((siiPDO_start D bitoffset)
                      \<lparr>PDO := (PDO (siiPDO_start D bitoffset))\<lparr>Startpos := pos\<rparr>\<rparr>,
                    eectl \<noteq> 0))"

text \<open>The tables have the sizes they were declared with and no access has left them.\<close>

definition tables_ok :: "info_lib \<Rightarrow> siiPDO_locals \<Rightarrow> bool" where
  "tables_ok D l \<longleftrightarrow>
     length (Index (PDO l)) = EC_MAXEEPDO D \<and> length (SyncM (PDO l)) = EC_MAXEEPDO D
     \<and> length (BitSize (PDO l)) = EC_MAXEEPDO D
     \<and> length (SMbitsize (PDO l)) = unat (EC_MAXSM D) \<and> \<not> overrun l"

definition si_map_sii :: "info_lib \<Rightarrow> nat \<Rightarrow> (int \<times> mapped list) option" where
  "si_map_sii D slave =
     (case si_siiPDO D slave 1 (outputs_offset D slave) 0 of
        None \<Rightarrow> None
      | Some (lo, ro) \<Rightarrow>
          (case si_siiPDO D slave 0 (inputs_offset D slave) 0 of
             None \<Rightarrow> None
           | Some (li, ri) \<Rightarrow>
               Some (if sint (totalsize lo) > 0 \<or> sint (totalsize li) > 0 then 1 else 0,
                     [SIIHeader] @ sii_out lo @ sii_out li)))"

subsection \<open>The PDO entries a slave declares\<close>

text \<open>
  What the two mapping functions are to print, said from the slave's side. The running
  bit offset of an entry is the offset the function was given plus the bit lengths of all
  the entries before it, in a 32-bit \<^verbatim>\<open>int\<close>.
\<close>

definition advanced :: "c_int \<Rightarrow> uint8 list \<Rightarrow> c_int" where
  "advanced bitoffset bitlens = bitoffset + sum_list (map ucast bitlens)"

definition running_offsets :: "c_int \<Rightarrow> uint8 list \<Rightarrow> c_int list" where
  "running_offsets bitoffset bitlens
     = map (\<lambda>n. advanced bitoffset (take n bitlens)) [0 ..< length bitlens]"

text \<open>
  In the dictionary, an entry of a PDO is a 32-bit mapping word: the object index in the
  high half, then the sub-index, then the bit length. The PDO-assign object lists the
  PDOs, each PDO lists its entries; an assigned PDO with index 0 has none.
  \<open>assigned_entries\<close> is the mapping words of all the entries of the PDOs assigned, in
  order. A sub-index is one byte: the \<open>i\<close>-th assigned PDO is read at the sub-index
  \<open>i mod 256\<close>, as the cast in the code has it.
\<close>

definition mapping_index :: "uint32 \<Rightarrow> uint16" where
  "mapping_index w = ucast (drop_bit 16 w)"

definition mapping_subindex :: "uint32 \<Rightarrow> uint8" where
  "mapping_subindex w = ucast (drop_bit 8 w)"

definition mapping_bitlen :: "uint32 \<Rightarrow> uint8" where
  "mapping_bitlen w = ucast w"

definition mapping_filler :: "uint32 \<Rightarrow> bool" where
  "mapping_filler w \<longleftrightarrow> mapping_index w = 0 \<and> mapping_subindex w = 0"

definition pdo_entries :: "info_lib \<Rightarrow> nat \<Rightarrow> uint16 \<Rightarrow> uint32 list" where
  "pdo_entries D slave idx =
     map (\<lambda>k. snd (ec_SDOread D slave idx (of_nat k)))
       [1 ..< Suc (unat (ucast (snd (ec_SDOread D slave idx 0)) :: uint8))]"

definition assigned_pdos :: "info_lib \<Rightarrow> nat \<Rightarrow> uint16 \<Rightarrow> uint16 list" where
  "assigned_pdos D slave PDOassign =
     (let (wkc, v) = ec_SDOread D slave PDOassign 0
      in if wkc > 0
         then map (\<lambda>i. ucast (snd (ec_SDOread D slave PDOassign (of_nat i))))
                [1 ..< Suc (unat (ucast v :: uint16))]
         else [])"

definition assigned_entries :: "info_lib \<Rightarrow> nat \<Rightarrow> uint16 \<Rightarrow> uint32 list" where
  "assigned_entries D slave PDOassign =
     concat (map (\<lambda>idx. if idx > 0 then pdo_entries D slave idx else [])
               (assigned_pdos D slave PDOassign))"

text \<open>
  The row of a dictionary entry whose running bit offset is \<open>off\<close>. The type and name
  come from the object dictionary; a filler is not looked up there.
\<close>

definition dictionary_name :: "info_lib \<Rightarrow> nat \<Rightarrow> uint32 \<Rightarrow> (string \<times> string) option" where
  "dictionary_name D slave w =
     (if mapping_filler w then None
      else (let (wkc, Entries, DataType, Name)
                  = ec_readOEsingle D slave (mapping_index w) (mapping_subindex w)
            in if wkc > 0 \<and> Entries \<noteq> 0
               then Some (dtype2string D DataType (ucast (mapping_bitlen w)), Name)
               else None))"

definition dictionary_row :: "info_lib \<Rightarrow> nat \<Rightarrow> c_int \<Rightarrow> c_int \<Rightarrow> uint32 \<Rightarrow> mapped" where
  "dictionary_row D slave mapoffset off w =
     EntryRow (byte_address mapoffset off) (bit_in_byte off) (mapping_index w)
       (mapping_subindex w) (mapping_bitlen w) (dictionary_name D slave w)"

text \<open>
  In the SII memory, the PDO section found at \<open>pos\<close> starts with its length (two bytes)
  and holds PDO records. A record at address \<open>a\<close> is 8 bytes (index, number of entries at
  \<open>a + 2\<close>, sync manager at \<open>a + 3\<close>, name at \<open>a + 5\<close>) followed by its entries, 8 bytes
  each: index, sub-index at +2, name at +3, data type at +4, bit length at +5. The
  section's length is counted in words, from 1: a record takes 4 and each entry 4.
  \<open>sii_records\<close> is the addresses of the records a reader meets that stops after \<open>fuel\<close>
  records or once the count has reached the length. A PDO is mapped when its sync manager
  is below \<^verbatim>\<open>EC_MAXSM\<close>; \<open>sii_mapped_entries\<close> is the addresses of the entries of the
  mapped PDOs, in order, of the section for direction \<open>t\<close> (1 for RxPDOs, 0 for TxPDOs),
  read with room for \<^verbatim>\<open>EC_MAXEEPDO - 1\<close> records.
\<close>

definition sii_entry_count :: "info_lib \<Rightarrow> nat \<Rightarrow> uint16 \<Rightarrow> uint16" where
  "sii_entry_count D slave a = ucast (ec_siigetbyte D slave (a + 2))"

definition sii_mapped :: "info_lib \<Rightarrow> nat \<Rightarrow> uint16 \<Rightarrow> bool" where
  "sii_mapped D slave a \<longleftrightarrow> ec_siigetbyte D slave (a + 3) < EC_MAXSM D"

fun sii_records :: "info_lib \<Rightarrow> nat \<Rightarrow> uint16 \<Rightarrow> nat \<Rightarrow> uint16 \<Rightarrow> uint16 \<Rightarrow> uint16 list" where
  "sii_records D slave len 0 a c = []"
| "sii_records D slave len (Suc fuel) a c =
     a # (let e = sii_entry_count D slave a;
              c1 = c + 4 + 4 * e
          in if fuel \<noteq> 0 \<and> c1 < len
             then sii_records D slave len fuel (a + 8 + 8 * e) c1
             else [])"

definition sii_entries_of :: "info_lib \<Rightarrow> nat \<Rightarrow> uint16 \<Rightarrow> uint16 list" where
  "sii_entries_of D slave a =
     map (\<lambda>j. a + 8 + 8 * of_nat j) [0 ..< unat (sii_entry_count D slave a)]"

definition sii_section :: "info_lib \<Rightarrow> nat \<Rightarrow> uint8 \<Rightarrow> uint16 list" where
  "sii_section D slave t =
     (let pos = ec_siifind D slave (ECT_SII_PDO D + ucast (if t > 1 then 1 else t))
      in if pos > 0
         then sii_records D slave (sii_word D slave pos) (EC_MAXEEPDO D - 1) (pos + 2) 1
         else [])"

definition sii_mapped_entries :: "info_lib \<Rightarrow> nat \<Rightarrow> uint8 \<Rightarrow> uint16 list" where
  "sii_mapped_entries D slave t =
     concat (map (sii_entries_of D slave) (filter (sii_mapped D slave) (sii_section D slave t)))"

definition sii_unmapped_entries :: "info_lib \<Rightarrow> nat \<Rightarrow> uint8 \<Rightarrow> uint16 list" where
  "sii_unmapped_entries D slave t =
     concat (map (sii_entries_of D slave)
               (filter (\<lambda>a. \<not> sii_mapped D slave a) (sii_section D slave t)))"

definition sii_bitlen :: "info_lib \<Rightarrow> nat \<Rightarrow> uint16 \<Rightarrow> uint8" where
  "sii_bitlen D slave a = ec_siigetbyte D slave (a + 5)"

definition sii_filler :: "info_lib \<Rightarrow> nat \<Rightarrow> uint16 \<Rightarrow> bool" where
  "sii_filler D slave a \<longleftrightarrow> sii_word D slave a = 0 \<and> ec_siigetbyte D slave (a + 2) = 0"

text \<open>The row of the SII entry at \<open>a\<close> whose running bit offset is \<open>off\<close>.\<close>

definition sii_row :: "info_lib \<Rightarrow> nat \<Rightarrow> c_int \<Rightarrow> c_int \<Rightarrow> uint16 \<Rightarrow> mapped" where
  "sii_row D slave mapoffset off a =
     EntryRow (byte_address mapoffset off) (bit_in_byte off) (sii_word D slave a)
       (ec_siigetbyte D slave (a + 2)) (sii_bitlen D slave a)
       (Some (dtype2string D (ucast (ec_siigetbyte D slave (a + 4)))
                (ucast (sii_bitlen D slave a)),
              sii_name D slave (ec_siigetbyte D slave (a + 3))))"

text \<open>
  The rows of a list of entries. The dictionary prints a row for every entry; from the
  SII memory only the entries that are not fillers get one. Either way each row is at
  the running offset of its entry, which counts the fillers before it.
\<close>

definition dictionary_rows :: "info_lib \<Rightarrow> nat \<Rightarrow> c_int \<Rightarrow> c_int \<Rightarrow> uint32 list \<Rightarrow> mapped list" where
  "dictionary_rows D slave mapoffset bitoffset ws =
     map (\<lambda>(off, w). dictionary_row D slave mapoffset off w)
       (zip (running_offsets bitoffset (map mapping_bitlen ws)) ws)"

definition sii_rows :: "info_lib \<Rightarrow> nat \<Rightarrow> c_int \<Rightarrow> c_int \<Rightarrow> uint16 list \<Rightarrow> mapped list" where
  "sii_rows D slave mapoffset bitoffset as =
     map (\<lambda>(off, a). sii_row D slave mapoffset off a)
       (filter (\<lambda>(off, a). \<not> sii_filler D slave a)
          (zip (running_offsets bitoffset (map (sii_bitlen D slave) as)) as))"


section \<open>A bus for the examples\<close>

text \<open>
  One concrete library to run the definitions on: it has the constants of SOEM's
  \<^verbatim>\<open>ethercattype.h\<close>, and its devices never leave the state they are in. \<open>dev_state\<close>
  is what each device reports (entry 0: what the group's record reads),
  \<open>bus_wkc\<close> the work counter every exchange returns and \<open>bus_found\<close> the number of
  slaves discovery finds. Reading the states copies \<open>dev_state\<close> into the table; a state
  write, a reconfiguration and a recovery change nothing and report no success.
\<close>

record bus =
  dev_state :: "nat \<Rightarrow> uint16"
  bus_wkc :: int
  bus_found :: int

definition read_device :: "nat \<Rightarrow> bus ecx \<Rightarrow> bus ecx" where
  "read_device i x = x\<lparr>ec_slave := (ec_slave x)(i := (ec_slave x i)\<lparr>state := dev_state (net x) i\<rparr>)\<rparr>"

definition stuck_soem :: "bus soem" where
  "stuck_soem =
     \<lparr>EC_STATE_NONE = 0, EC_STATE_INIT = 1, EC_STATE_PRE_OP = 2, EC_STATE_BOOT = 3,
      EC_STATE_SAFE_OP = 4, EC_STATE_OPERATIONAL = 8, EC_STATE_ACK = 16, EC_STATE_ERROR = 16,
      EC_TIMEOUTRET = 2000, EC_TIMEOUTSTATE = 2000000,
      ec_config_init = (\<lambda>usetable x. (x, bus_found (net x), bus_found (net x))),
      ec_readstate = (\<lambda>x. x\<lparr>ec_slave := (\<lambda>i. (ec_slave x i)\<lparr>state := dev_state (net x) i\<rparr>)\<rparr>),
      ec_writestate = (\<lambda>i x. x),
      ec_statecheck = (\<lambda>i reqstate timeout x. (read_device i x, uint (dev_state (net x) i))),
      ec_send_processdata = (\<lambda>x. x),
      ec_receive_processdata = (\<lambda>timeout x. (x, bus_wkc (net x))),
      ec_reconfig_slave = (\<lambda>i timeout x. (x, 0)),
      ec_recover_slave = (\<lambda>i timeout x. (x, 0)),
      ec_ALstatuscode2string = (\<lambda>c. if c = 0 then ''No error'' else ''Unspecified error'')\<rparr>"

definition stuck_slave :: "uint16 \<Rightarrow> ec_slavet" where
  "stuck_slave st =
     \<lparr>state = st, ALstatuscode = 0, group = 0, islost = False, name = ''dev'',
      Obits = 16, Ibits = 16, pdelay = 0, hasdc = False, eep_pdi = 0\<rparr>"

definition stuck_sys :: "(nat \<Rightarrow> uint16) \<Rightarrow> int \<Rightarrow> int \<Rightarrow> bus sys" where
  "stuck_sys dev n wkc =
     \<lparr>ecx = \<lparr>ec_slave = (\<lambda>i. stuck_slave (dev i)),
             ec_group = (\<lambda>g. \<lparr>outputsWKC = 1, inputsWKC = 1, docheckstate = False\<rparr>),
             net = \<lparr>dev_state = dev, bus_wkc = wkc, bus_found = n\<rparr>\<rparr>,
      ec_slavecount = n, errorMessage = Literal '''', p_slaveCount = n, p_expectedWKC = 3,
      p_state = 0, p_wkc = 0, p_currentgroup = 0, p_needlf = False, calls = [], stdout = []\<rparr>"

text \<open>Everything of the library's state but the slave states in the table.\<close>

definition bus_view :: "bus ecx \<Rightarrow> bus ecx" where
  "bus_view x = x\<lparr>ec_slave := (\<lambda>i. (ec_slave x i)\<lparr>state := 0\<rparr>)\<rparr>"

text \<open>
  A slave for the mapping functions. Its dictionary has the sync manager types one too
  low (0, 1, 2, 3 for SM0 to SM3), one output PDO 0x1600 with the entry 0x7000:01 of 8 bits
  and a filler of 8 bits, and one input PDO 0x1A00 with the entry 0x6000:01 of 16 bits.
  The SII memory of slave 1 is 0xFF throughout, so its PDO section declares the length
  0xFFFF. That of slave 3 holds, at address 16, a PDO section of length 9 with one PDO
  0x1A01 on sync manager 255, which is to say on none, and one entry, a filler of 8 bits.
  That of any other slave holds, at address 16, a PDO section of length 13 with one PDO
  0x1A00 on sync manager 3 and two entries: 0x6000:01 of 8 bits and a filler of 4 bits.
  The record table is a small one, of 3 entries.
\<close>

definition example_SDOread :: "nat \<Rightarrow> uint16 \<Rightarrow> uint8 \<Rightarrow> int \<times> uint32" where
  "example_SDOread slave index subindex =
     (if index = 0x1C00
      then (if subindex = 0 then (1, 5) else if subindex = 1 then (1, 0)
            else if subindex = 2 then (1, 1) else if subindex = 3 then (1, 2)
            else if subindex = 4 then (1, 3) else (0, 0))
      else if index = 0x1C12
      then (if subindex = 0 then (1, 1) else if subindex = 1 then (1, 0x1600) else (0, 0))
      else if index = 0x1600
      then (if subindex = 0 then (1, 2) else if subindex = 1 then (1, 0x70000108)
            else if subindex = 2 then (1, 0x00000008) else (0, 0))
      else if index = 0x1C13
      then (if subindex = 0 then (1, 1) else if subindex = 1 then (1, 0x1A00) else (0, 0))
      else if index = 0x1A00
      then (if subindex = 0 then (1, 1) else if subindex = 1 then (1, 0x60000110) else (0, 0))
      else (0, 0))"

definition example_siigetbyte :: "nat \<Rightarrow> uint16 \<Rightarrow> uint8" where
  "example_siigetbyte slave a =
     (if slave = 1 then 255
      else if slave = 3
      then (case map_of [(16, 9), (18, 1), (19, 0x1A), (20, 1), (21, 255), (31, 8)] a of
              Some b \<Rightarrow> b
            | None \<Rightarrow> 0)
      else (case map_of [(16, 13), (19, 0x1A), (20, 2), (21, 3), (27, 0x60), (28, 1),
                         (30, 5), (31, 8), (39, 4)] a of
              Some b \<Rightarrow> b
            | None \<Rightarrow> 0))"

definition example_info :: info_lib where
  "example_info =
     \<lparr>EC_MAXSM = 8, EC_MAXEEPDO = 3, ECT_SII_PDO = 50, ECT_SDO_SMCOMMTYPE = 0x1C00,
      ECT_SDO_PDOASSIGN = 0x1C10,
      ec_SDOread = example_SDOread,
      ec_readOEsingle = (\<lambda>slave index subindex. (1, 1, 5, ''Value'')),
      ec_siifind = (\<lambda>slave cat. 16),
      ec_siigetbyte = example_siigetbyte,
      ec_siistring = (\<lambda>slave n. ''pdo''),
      slave_eep_pdi = (\<lambda>slave. 0),
      outputs_offset = (\<lambda>slave. 0),
      inputs_offset = (\<lambda>slave. 4),
      dtype2string = (\<lambda>dtype bitlen. ''UNSIGNED8'')\<rparr>"

section \<open>What each step leaves alone\<close>

text \<open>
  A library call changes the library's tables and hidden state and is logged; it leaves
  the object's members, \<^verbatim>\<open>ec_slavecount\<close> and the printed lines as they are (discovery
  apart, which assigns \<^verbatim>\<open>ec_slavecount\<close>). An assignment to a table entry and a
  \<^verbatim>\<open>printf\<close> are as local.
\<close>

lemma call_readstate_frame [simp]:
  "errorMessage (call_readstate L s) = errorMessage s"
  "p_slaveCount (call_readstate L s) = p_slaveCount s"
  "p_expectedWKC (call_readstate L s) = p_expectedWKC s"
  "p_state (call_readstate L s) = p_state s"
  "p_wkc (call_readstate L s) = p_wkc s"
  "p_currentgroup (call_readstate L s) = p_currentgroup s"
  "p_needlf (call_readstate L s) = p_needlf s"
  "ec_slavecount (call_readstate L s) = ec_slavecount s"
  "stdout (call_readstate L s) = stdout s"
  "ecx (call_readstate L s) = ec_readstate L (ecx s)"
  "calls (call_readstate L s) = calls s @ [ReadState]"
  by (simp_all add: call_readstate_def)

lemma call_writestate_frame [simp]:
  "errorMessage (call_writestate L i s) = errorMessage s"
  "p_slaveCount (call_writestate L i s) = p_slaveCount s"
  "p_expectedWKC (call_writestate L i s) = p_expectedWKC s"
  "p_state (call_writestate L i s) = p_state s"
  "p_wkc (call_writestate L i s) = p_wkc s"
  "p_currentgroup (call_writestate L i s) = p_currentgroup s"
  "p_needlf (call_writestate L i s) = p_needlf s"
  "ec_slavecount (call_writestate L i s) = ec_slavecount s"
  "stdout (call_writestate L i s) = stdout s"
  "ecx (call_writestate L i s) = ec_writestate L i (ecx s)"
  "calls (call_writestate L i s) = calls s @ [WriteState i (slave_state s i)]"
  by (simp_all add: call_writestate_def)

lemma call_send_processdata_frame [simp]:
  "errorMessage (call_send_processdata L s) = errorMessage s"
  "p_slaveCount (call_send_processdata L s) = p_slaveCount s"
  "p_expectedWKC (call_send_processdata L s) = p_expectedWKC s"
  "p_state (call_send_processdata L s) = p_state s"
  "p_wkc (call_send_processdata L s) = p_wkc s"
  "p_currentgroup (call_send_processdata L s) = p_currentgroup s"
  "p_needlf (call_send_processdata L s) = p_needlf s"
  "ec_slavecount (call_send_processdata L s) = ec_slavecount s"
  "stdout (call_send_processdata L s) = stdout s"
  "ecx (call_send_processdata L s) = ec_send_processdata L (ecx s)"
  "calls (call_send_processdata L s) = calls s @ [SendProcessdata]"
  by (simp_all add: call_send_processdata_def)

lemma call_statecheck_frame [simp]:
  "errorMessage (fst (call_statecheck L i r t s)) = errorMessage s"
  "p_slaveCount (fst (call_statecheck L i r t s)) = p_slaveCount s"
  "p_expectedWKC (fst (call_statecheck L i r t s)) = p_expectedWKC s"
  "p_state (fst (call_statecheck L i r t s)) = p_state s"
  "p_wkc (fst (call_statecheck L i r t s)) = p_wkc s"
  "p_currentgroup (fst (call_statecheck L i r t s)) = p_currentgroup s"
  "p_needlf (fst (call_statecheck L i r t s)) = p_needlf s"
  "ec_slavecount (fst (call_statecheck L i r t s)) = ec_slavecount s"
  "stdout (fst (call_statecheck L i r t s)) = stdout s"
  "ecx (fst (call_statecheck L i r t s)) = fst (ec_statecheck L i r t (ecx s))"
  "snd (call_statecheck L i r t s) = snd (ec_statecheck L i r t (ecx s))"
  "calls (fst (call_statecheck L i r t s)) = calls s @ [StateCheck i r t]"
  by (simp_all add: call_statecheck_def split_beta)

lemma call_receive_processdata_frame [simp]:
  "errorMessage (fst (call_receive_processdata L t s)) = errorMessage s"
  "p_slaveCount (fst (call_receive_processdata L t s)) = p_slaveCount s"
  "p_expectedWKC (fst (call_receive_processdata L t s)) = p_expectedWKC s"
  "p_state (fst (call_receive_processdata L t s)) = p_state s"
  "p_wkc (fst (call_receive_processdata L t s)) = p_wkc s"
  "p_currentgroup (fst (call_receive_processdata L t s)) = p_currentgroup s"
  "p_needlf (fst (call_receive_processdata L t s)) = p_needlf s"
  "ec_slavecount (fst (call_receive_processdata L t s)) = ec_slavecount s"
  "stdout (fst (call_receive_processdata L t s)) = stdout s"
  "ecx (fst (call_receive_processdata L t s)) = fst (ec_receive_processdata L t (ecx s))"
  "snd (call_receive_processdata L t s) = snd (ec_receive_processdata L t (ecx s))"
  "calls (fst (call_receive_processdata L t s)) = calls s @ [ReceiveProcessdata t]"
  by (simp_all add: call_receive_processdata_def split_beta)

lemma call_reconfig_slave_frame [simp]:
  "errorMessage (fst (call_reconfig_slave L i t s)) = errorMessage s"
  "p_slaveCount (fst (call_reconfig_slave L i t s)) = p_slaveCount s"
  "p_expectedWKC (fst (call_reconfig_slave L i t s)) = p_expectedWKC s"
  "p_state (fst (call_reconfig_slave L i t s)) = p_state s"
  "p_wkc (fst (call_reconfig_slave L i t s)) = p_wkc s"
  "p_currentgroup (fst (call_reconfig_slave L i t s)) = p_currentgroup s"
  "p_needlf (fst (call_reconfig_slave L i t s)) = p_needlf s"
  "ec_slavecount (fst (call_reconfig_slave L i t s)) = ec_slavecount s"
  "stdout (fst (call_reconfig_slave L i t s)) = stdout s"
  "ecx (fst (call_reconfig_slave L i t s)) = fst (ec_reconfig_slave L i t (ecx s))"
  "snd (call_reconfig_slave L i t s) = snd (ec_reconfig_slave L i t (ecx s))"
  "calls (fst (call_reconfig_slave L i t s)) = calls s @ [ReconfigSlave i t]"
  by (simp_all add: call_reconfig_slave_def split_beta)

lemma call_recover_slave_frame [simp]:
  "errorMessage (fst (call_recover_slave L i t s)) = errorMessage s"
  "p_slaveCount (fst (call_recover_slave L i t s)) = p_slaveCount s"
  "p_expectedWKC (fst (call_recover_slave L i t s)) = p_expectedWKC s"
  "p_state (fst (call_recover_slave L i t s)) = p_state s"
  "p_wkc (fst (call_recover_slave L i t s)) = p_wkc s"
  "p_currentgroup (fst (call_recover_slave L i t s)) = p_currentgroup s"
  "p_needlf (fst (call_recover_slave L i t s)) = p_needlf s"
  "ec_slavecount (fst (call_recover_slave L i t s)) = ec_slavecount s"
  "stdout (fst (call_recover_slave L i t s)) = stdout s"
  "ecx (fst (call_recover_slave L i t s)) = fst (ec_recover_slave L i t (ecx s))"
  "snd (call_recover_slave L i t s) = snd (ec_recover_slave L i t (ecx s))"
  "calls (fst (call_recover_slave L i t s)) = calls s @ [RecoverSlave i t]"
  by (simp_all add: call_recover_slave_def split_beta)

lemma call_config_init_frame [simp]:
  "errorMessage (fst (call_config_init L u s)) = errorMessage s"
  "p_slaveCount (fst (call_config_init L u s)) = p_slaveCount s"
  "p_expectedWKC (fst (call_config_init L u s)) = p_expectedWKC s"
  "p_state (fst (call_config_init L u s)) = p_state s"
  "p_wkc (fst (call_config_init L u s)) = p_wkc s"
  "p_currentgroup (fst (call_config_init L u s)) = p_currentgroup s"
  "p_needlf (fst (call_config_init L u s)) = p_needlf s"
  "stdout (fst (call_config_init L u s)) = stdout s"
  "ecx (fst (call_config_init L u s)) = fst (ec_config_init L u (ecx s))"
  "ec_slavecount (fst (call_config_init L u s)) = fst (snd (ec_config_init L u (ecx s)))"
  "snd (call_config_init L u s) = snd (snd (ec_config_init L u (ecx s)))"
  "calls (fst (call_config_init L u s)) = calls s @ [ConfigInit u]"
  by (simp_all add: call_config_init_def split_beta)

lemma set_slave_state_frame [simp]:
  "errorMessage (set_slave_state i v s) = errorMessage s"
  "p_slaveCount (set_slave_state i v s) = p_slaveCount s"
  "p_expectedWKC (set_slave_state i v s) = p_expectedWKC s"
  "p_state (set_slave_state i v s) = p_state s"
  "p_wkc (set_slave_state i v s) = p_wkc s"
  "p_currentgroup (set_slave_state i v s) = p_currentgroup s"
  "p_needlf (set_slave_state i v s) = p_needlf s"
  "ec_slavecount (set_slave_state i v s) = ec_slavecount s"
  "stdout (set_slave_state i v s) = stdout s"
  "calls (set_slave_state i v s) = calls s"
  by (simp_all add: set_slave_state_def)

lemma set_islost_frame [simp]:
  "errorMessage (set_islost i v s) = errorMessage s"
  "p_slaveCount (set_islost i v s) = p_slaveCount s"
  "p_expectedWKC (set_islost i v s) = p_expectedWKC s"
  "p_state (set_islost i v s) = p_state s"
  "p_wkc (set_islost i v s) = p_wkc s"
  "p_currentgroup (set_islost i v s) = p_currentgroup s"
  "p_needlf (set_islost i v s) = p_needlf s"
  "ec_slavecount (set_islost i v s) = ec_slavecount s"
  "stdout (set_islost i v s) = stdout s"
  "calls (set_islost i v s) = calls s"
  by (simp_all add: set_islost_def)

lemma set_docheckstate_frame [simp]:
  "errorMessage (set_docheckstate g v s) = errorMessage s"
  "p_slaveCount (set_docheckstate g v s) = p_slaveCount s"
  "p_expectedWKC (set_docheckstate g v s) = p_expectedWKC s"
  "p_state (set_docheckstate g v s) = p_state s"
  "p_wkc (set_docheckstate g v s) = p_wkc s"
  "p_currentgroup (set_docheckstate g v s) = p_currentgroup s"
  "p_needlf (set_docheckstate g v s) = p_needlf s"
  "ec_slavecount (set_docheckstate g v s) = ec_slavecount s"
  "stdout (set_docheckstate g v s) = stdout s"
  "calls (set_docheckstate g v s) = calls s"
  by (simp_all add: set_docheckstate_def)

lemma print_frame [simp]:
  "errorMessage (print l s) = errorMessage s"
  "p_slaveCount (print l s) = p_slaveCount s"
  "p_expectedWKC (print l s) = p_expectedWKC s"
  "p_state (print l s) = p_state s"
  "p_wkc (print l s) = p_wkc s"
  "p_currentgroup (print l s) = p_currentgroup s"
  "p_needlf (print l s) = p_needlf s"
  "ec_slavecount (print l s) = ec_slavecount s"
  "calls (print l s) = calls s"
  "ecx (print l s) = ecx s"
  "stdout (print l s) = stdout s @ [l]"
  by (simp_all add: print_def)

lemma slave_state_simps [simp]:
  "slave_state (set_slave_state i v s) j = (if j = i then v else slave_state s j)"
  "slave_state (set_islost i b s) j = slave_state s j"
  "slave_state (set_docheckstate g b s) j = slave_state s j"
  "slave_state (print l s) j = slave_state s j"
  by (simp_all add: slave_state_def set_slave_state_def set_islost_def set_docheckstate_def
      print_def)

lemma islost_simps [simp]:
  "islost (ec_slave (ecx (set_islost i b s)) j) = (if j = i then b else islost (ec_slave (ecx s) j))"
  "islost (ec_slave (ecx (set_slave_state i v s)) j) = islost (ec_slave (ecx s) j)"
  "islost (ec_slave (ecx (set_docheckstate g b s)) j) = islost (ec_slave (ecx s) j)"
  "group (ec_slave (ecx (set_islost i b s)) j) = group (ec_slave (ecx s) j)"
  "group (ec_slave (ecx (set_slave_state i v s)) j) = group (ec_slave (ecx s) j)"
  "group (ec_slave (ecx (set_docheckstate g b s)) j) = group (ec_slave (ecx s) j)"
  "ALstatuscode (ec_slave (ecx (set_slave_state i v s)) j) = ALstatuscode (ec_slave (ecx s) j)"
  by (simp_all add: set_slave_state_def set_islost_def set_docheckstate_def)

lemma docheckstate_simps [simp]:
  "docheckstate (ec_group (ecx (set_docheckstate g b s)) h)
     = (if h = g then b else docheckstate (ec_group (ecx s) h))"
  "ec_group (ecx (set_slave_state i v s)) = ec_group (ecx s)"
  "ec_group (ecx (set_islost i b s)) = ec_group (ecx s)"
  by (simp_all add: set_slave_state_def set_islost_def set_docheckstate_def)

lemma slave_state_member_updates [simp]:
  "slave_state (s\<lparr>errorMessage := m\<rparr>) i = slave_state s i"
  "slave_state (s\<lparr>p_state := v\<rparr>) i = slave_state s i"
  "slave_state (s\<lparr>p_slaveCount := n\<rparr>) i = slave_state s i"
  "slave_state (s\<lparr>p_expectedWKC := w\<rparr>) i = slave_state s i"
  "slave_state (s\<lparr>p_needlf := b\<rparr>) i = slave_state s i"
  "slave_state (s\<lparr>calls := c\<rparr>) i = slave_state s i"
  by (simp_all add: slave_state_def)

section \<open>The example bus, computed\<close>

lemma stuck_soem_simps [simp]:
  "ec_readstate stuck_soem x = x\<lparr>ec_slave := (\<lambda>i. (ec_slave x i)\<lparr>state := dev_state (net x) i\<rparr>)\<rparr>"
  "ec_writestate stuck_soem i x = x"
  "ec_statecheck stuck_soem i r t x = (read_device i x, uint (dev_state (net x) i))"
  "ec_send_processdata stuck_soem x = x"
  "ec_receive_processdata stuck_soem t x = (x, bus_wkc (net x))"
  "ec_reconfig_slave stuck_soem i t x = (x, 0)"
  "ec_recover_slave stuck_soem i t x = (x, 0)"
  "ec_config_init stuck_soem u x = (x, bus_found (net x), bus_found (net x))"
  "ec_ALstatuscode2string stuck_soem c = (if c = 0 then ''No error'' else ''Unspecified error'')"
  "EC_STATE_NONE stuck_soem = 0" "EC_STATE_INIT stuck_soem = 1" "EC_STATE_PRE_OP stuck_soem = 2"
  "EC_STATE_BOOT stuck_soem = 3" "EC_STATE_SAFE_OP stuck_soem = 4"
  "EC_STATE_OPERATIONAL stuck_soem = 8" "EC_STATE_ACK stuck_soem = 16"
  "EC_STATE_ERROR stuck_soem = 16" "EC_TIMEOUTRET stuck_soem = 2000"
  "EC_TIMEOUTSTATE stuck_soem = 2000000"
  by (simp_all add: stuck_soem_def)

lemma bus_view_simps [simp]:
  "bus_view (read_device i x) = bus_view x"
  "bus_view (x\<lparr>ec_slave := (\<lambda>i. (ec_slave x i)\<lparr>state := dev_state (net x) i\<rparr>)\<rparr>) = bus_view x"
  "bus_view (ecx (set_slave_state i v s)) = bus_view (ecx s)"
  by (simp_all add: bus_view_def read_device_def set_slave_state_def fun_eq_iff)

lemma bus_view_net: "bus_view x = bus_view y \<Longrightarrow> net x = net y"
  by (metis (no_types) bus_view_def ecx.select_convs(3) ecx.surjective ecx.update_convs(1))

lemma bus_view_readstate:
  assumes "bus_view x = bus_view y"
  shows "ec_readstate stuck_soem x = ec_readstate stuck_soem y"
proof -
  have n: "net x = net y" using assms by (rule bus_view_net)
  have g: "ec_group x = ec_group y"
    using assms by (metis (no_types) bus_view_def ecx.select_convs(2) ecx.surjective ecx.update_convs(1))
  have m: "ecx.more x = ecx.more y"
    using assms by (metis (no_types) bus_view_def ecx.select_convs(4) ecx.surjective ecx.update_convs(1))
  have "ec_slave (bus_view x) i = ec_slave (bus_view y) i" for i
    using assms by simp
  then have z: "(ec_slave x i)\<lparr>state := 0\<rparr> = (ec_slave y i)\<lparr>state := 0\<rparr>" for i
    by (simp add: bus_view_def)
  have "(ec_slave x i)\<lparr>state := v\<rparr> = (ec_slave y i)\<lparr>state := v\<rparr>" for i v
  proof -
    have "((ec_slave x i)\<lparr>state := 0\<rparr>)\<lparr>state := v\<rparr> = ((ec_slave y i)\<lparr>state := 0\<rparr>)\<lparr>state := v\<rparr>"
      using z [of i] by simp
    then show ?thesis by simp
  qed
  with n g m show ?thesis by (simp add: fun_eq_iff ecx.equality)
qed

text \<open>The example slave, computed.\<close>

lemma example_info_simps:
  "EC_MAXSM example_info = 8" "EC_MAXEEPDO example_info = 3"
  "ECT_SDO_SMCOMMTYPE example_info = 0x1C00" "ECT_SDO_PDOASSIGN example_info = 0x1C10"
  "ec_SDOread example_info = example_SDOread"
  by (simp_all add: example_info_def)

lemma example_counts: "snd (example_SDOread slave index 0) \<in> {0, 1, 2, 5}"
  by (simp add: example_SDOread_def)

lemma example_counts_end: "PDO_counts_end example_info slave"
proof -
  have "(ucast (snd (example_SDOread slave index 0)) :: uint16) \<noteq> 0xFFFF" for index
    using example_counts [of slave index] by auto
  then show ?thesis
    by (simp add: PDO_counts_end_def example_info_simps)
qed

lemma example_map_sdo:
  "si_map_sdo example_info 1
     = Some (1, [CoEHeader, Workaround, SMoutputs 2,
                 EntryRow 0 0 0x7000 1 8 (Some (''UNSIGNED8'', ''Value'')),
                 EntryRow 1 0 0 0 8 None,
                 SMinputs 3,
                 EntryRow 4 0 0x6000 1 16 (Some (''UNSIGNED8'', ''Value''))])"
  by code_simp

lemma example_sm_reads:
  "example_SDOread slave 0x1C00 0 = (1, 5)" "example_SDOread slave 0x1C00 3 = (1, 2)"
  by (simp_all add: example_SDOread_def)

lemma example_walk:
  "map_option (\<lambda>(l, r). (unat (nPDO (PDO l)), Length (PDO l), overrun l, totalsize l, sii_out l))
     (si_siiPDO example_info 1 1 0 0) = Some (2, 0xFFFF, False, 0, [])"
  by code_simp

lemma example_siiPDO_filler:
  "map_option (\<lambda>(l, r). (totalsize l, sii_bitoffset l, sii_out l))
     (si_siiPDO example_info 2 0 4 0)
   = Some (12, 12, [TXPDO 3 0x1A00 '''', ColumnHeader,
                    EntryRow 4 0 0x6000 1 8 (Some (''UNSIGNED8'', ''''))])"
  by code_simp

section \<open>Properties of the SimpleEthercat object\<close>

text \<open>
  Claim C1. One call of \<^verbatim>\<open>updateProccess\<close> makes exactly two library calls, a send and
  then a receive with the timeout \<^verbatim>\<open>EC_TIMEOUTRET\<close>, and leaves the stored expected
  work counter alone. With \<open>wkc\<close> the work counter that receive returns, the call
  returns false exactly when \<open>wkc\<close> is strictly less than the stored expected work
  counter; a \<open>wkc\<close> equal to it gives true.
\<close>

theorem updateProccess_shortfall:
  assumes "ec_receive_processdata L (EC_TIMEOUTRET L) (ec_send_processdata L (ecx s)) = (x, wkc)"
  shows "snd (updateProccess L s) = (\<not> wkc < p_expectedWKC s)
         \<and> (wkc = p_expectedWKC s \<longrightarrow> snd (updateProccess L s))
         \<and> calls (fst (updateProccess L s))
             = calls s @ [SendProcessdata, ReceiveProcessdata (EC_TIMEOUTRET L)]
         \<and> ecx (fst (updateProccess L s)) = x
         \<and> p_expectedWKC (fst (updateProccess L s)) = p_expectedWKC s"
  using assms
  by (simp add: updateProccess_def call_send_processdata_def call_receive_processdata_def Let_def)

theorem updateProccess_shortfall_witness:
  "snd (updateProccess stuck_soem (stuck_sys (\<lambda>i. 8) 2 3))
   \<and> \<not> snd (updateProccess stuck_soem (stuck_sys (\<lambda>i. 8) 2 2))
   \<and> calls (fst (updateProccess stuck_soem (stuck_sys (\<lambda>i. 8) 2 3)))
       = [SendProcessdata, ReceiveProcessdata 2000]"
proof -
  have r3: "ec_receive_processdata stuck_soem (EC_TIMEOUTRET stuck_soem)
              (ec_send_processdata stuck_soem (ecx (stuck_sys (\<lambda>i. 8) 2 3)))
            = (ecx (stuck_sys (\<lambda>i. 8) 2 3), 3)"
    by (simp add: stuck_soem_def stuck_sys_def)
  have r2: "ec_receive_processdata stuck_soem (EC_TIMEOUTRET stuck_soem)
              (ec_send_processdata stuck_soem (ecx (stuck_sys (\<lambda>i. 8) 2 2)))
            = (ecx (stuck_sys (\<lambda>i. 8) 2 2), 2)"
    by (simp add: stuck_soem_def stuck_sys_def)
  show ?thesis
    using updateProccess_shortfall [OF r3] updateProccess_shortfall [OF r2]
    by (simp add: stuck_sys_def stuck_soem_def)
qed



text \<open>The slave numbers of the examples.\<close>

lemma slave_numbers_2: "slave_numbers 2 = [1, 2]" and slave_numbers_1: "slave_numbers 1 = [1]"
  and slave_numbers_0: "slave_numbers 0 = []"
  by (simp_all add: slave_numbers_def upt_rec)


text \<open>
  Claim C10. \<^verbatim>\<open>_slaveStateNum2Str\<close> gives \<^verbatim>\<open>"NONE"\<close> for every number that is not one
  of the seven labels of its \<^verbatim>\<open>switch\<close>. With SOEM's numbering that covers the ERROR
  flag put on any of the states INIT, PRE_OP, BOOT, SAFE_OP and OPERATIONAL (by bitwise or,
  or by addition as the monitor writes it). The lines \<^verbatim>\<open>showStates\<close> and
  \<^verbatim>\<open>listSlaves\<close> print for a slave in such a state therefore say \<^verbatim>\<open>NONE\<close>.
\<close>

theorem slaveStateNum2Str_outside_labels:
  "(v \<notin> {EC_STATE_BOOT L, EC_STATE_INIT L, EC_STATE_PRE_OP L, EC_STATE_SAFE_OP L,
           EC_STATE_OPERATIONAL L, EC_STATE_NONE L, EC_STATE_ERROR L}
      \<longrightarrow> slaveStateNum2Str L v = ''NONE'')
   \<and> (soem_state_values L \<and> b \<in> {EC_STATE_INIT L, EC_STATE_PRE_OP L, EC_STATE_BOOT L,
                                   EC_STATE_SAFE_OP L, EC_STATE_OPERATIONAL L}
      \<longrightarrow> slaveStateNum2Str L (b OR EC_STATE_ERROR L) = ''NONE''
          \<and> slaveStateNum2Str L (b + EC_STATE_ERROR L) = ''NONE'')
   \<and> (uint (slave_state s i) \<notin> {EC_STATE_BOOT L, EC_STATE_INIT L, EC_STATE_PRE_OP L,
           EC_STATE_SAFE_OP L, EC_STATE_OPERATIONAL L, EC_STATE_NONE L, EC_STATE_ERROR L}
      \<longrightarrow> stdout (showStates_line L i s)
            = stdout s @ [ShowStatesLine i ''NONE'' (ALstatuscode (ec_slave (ecx s) i))
                            (ec_ALstatuscode2string L (ALstatuscode (ec_slave (ecx s) i)))]
          \<and> stdout (listSlaves_line L i s)
            = stdout s @ [ListSlavesLine i (name (ec_slave (ecx s) i))
                            (uint (Obits (ec_slave (ecx s) i)) div 8)
                            (uint (Ibits (ec_slave (ecx s) i)) div 8) ''NONE''
                            (pdelay (ec_slave (ecx s) i)) (hasdc (ec_slave (ecx s) i))])"
proof (intro conjI impI)
  assume "v \<notin> {EC_STATE_BOOT L, EC_STATE_INIT L, EC_STATE_PRE_OP L, EC_STATE_SAFE_OP L,
           EC_STATE_OPERATIONAL L, EC_STATE_NONE L, EC_STATE_ERROR L}"
  then show "slaveStateNum2Str L v = ''NONE''"
    by (simp add: slaveStateNum2Str_def)
next
  assume a: "soem_state_values L \<and> b \<in> {EC_STATE_INIT L, EC_STATE_PRE_OP L, EC_STATE_BOOT L,
                                   EC_STATE_SAFE_OP L, EC_STATE_OPERATIONAL L}"
  then show "slaveStateNum2Str L (b OR EC_STATE_ERROR L) = ''NONE''"
    by (auto simp add: slaveStateNum2Str_def soem_state_values_def)
  from a show "slaveStateNum2Str L (b + EC_STATE_ERROR L) = ''NONE''"
    by (auto simp add: slaveStateNum2Str_def soem_state_values_def)
next
  assume a: "uint (slave_state s i) \<notin> {EC_STATE_BOOT L, EC_STATE_INIT L, EC_STATE_PRE_OP L,
           EC_STATE_SAFE_OP L, EC_STATE_OPERATIONAL L, EC_STATE_NONE L, EC_STATE_ERROR L}"
  then show "stdout (showStates_line L i s)
            = stdout s @ [ShowStatesLine i ''NONE'' (ALstatuscode (ec_slave (ecx s) i))
                            (ec_ALstatuscode2string L (ALstatuscode (ec_slave (ecx s) i)))]"
    by (simp add: showStates_line_def print_def slaveStateNum2Str_def)
  from a show "stdout (listSlaves_line L i s)
            = stdout s @ [ListSlavesLine i (name (ec_slave (ecx s) i))
                            (uint (Obits (ec_slave (ecx s) i)) div 8)
                            (uint (Ibits (ec_slave (ecx s) i)) div 8) ''NONE''
                            (pdelay (ec_slave (ecx s) i)) (hasdc (ec_slave (ecx s) i))]"
    by (simp add: listSlaves_line_def print_def slaveStateNum2Str_def slave_state_def Let_def)
qed

theorem slaveStateNum2Str_outside_labels_witness:
  "slaveStateNum2Str stuck_soem 20 = ''NONE''
   \<and> soem_state_values stuck_soem
   \<and> slaveStateNum2Str stuck_soem (EC_STATE_SAFE_OP stuck_soem OR EC_STATE_ERROR stuck_soem) = ''NONE''
   \<and> slaveStateNum2Str stuck_soem (EC_STATE_SAFE_OP stuck_soem + EC_STATE_ERROR stuck_soem) = ''NONE''
   \<and> stdout (showStates stuck_soem (stuck_sys (\<lambda>i. 20) 1 3))
       = [ShowStatesLine 1 ''NONE'' 0 ''No error'']"
proof -
  have v: "soem_state_values stuck_soem"
    by (simp add: soem_state_values_def stuck_soem_def)
  have m: "EC_STATE_SAFE_OP stuck_soem \<in> {EC_STATE_INIT stuck_soem, EC_STATE_PRE_OP stuck_soem,
      EC_STATE_BOOT stuck_soem, EC_STATE_SAFE_OP stuck_soem, EC_STATE_OPERATIONAL stuck_soem}"
    by simp
  have n: "(20::int) \<notin> {EC_STATE_BOOT stuck_soem, EC_STATE_INIT stuck_soem,
      EC_STATE_PRE_OP stuck_soem, EC_STATE_SAFE_OP stuck_soem, EC_STATE_OPERATIONAL stuck_soem,
      EC_STATE_NONE stuck_soem, EC_STATE_ERROR stuck_soem}"
    by (simp add: stuck_soem_def)
  have sh: "stdout (showStates stuck_soem (stuck_sys (\<lambda>i. 20) 1 3))
       = [ShowStatesLine 1 (slaveStateNum2Str stuck_soem 20) 0 ''No error'']"
    by (simp add: showStates_def readStates_def call_readstate_def Let_def slave_numbers_1
        showStates_line_def print_def stuck_soem_def stuck_sys_def slave_state_def stuck_slave_def
        slaveStateNum2Str_def)
  from slaveStateNum2Str_outside_labels [of 20 stuck_soem "EC_STATE_SAFE_OP stuck_soem"] v m n sh
  show ?thesis by simp
qed

text \<open>
  Claim C9. When discovery (\<^verbatim>\<open>ec_config_init(FALSE)\<close>) returns zero or less,
  \<^verbatim>\<open>configSlaves\<close> returns false, sets the error message, and leaves the stored slave
  count \<^verbatim>\<open>_slaveCount\<close> and the session state \<^verbatim>\<open>_state\<close> as they were; besides
  discovery it only re-reads the slave states.
\<close>

theorem configSlaves_no_slaves:
  assumes "ec_config_init L False (ecx s) = (x, n, r)" and "r \<le> 0"
  shows "snd (configSlaves L s) = False
         \<and> errorMessage (fst (configSlaves L s))
             = Literal ''Error SimpleEthercat: Failed to config slaves. No slaves detected!''
         \<and> p_slaveCount (fst (configSlaves L s)) = p_slaveCount s
         \<and> p_state (fst (configSlaves L s)) = p_state s
         \<and> calls (fst (configSlaves L s)) = calls s @ [ConfigInit False, ReadState]"
  using assms
  by (simp add: configSlaves_def call_config_init_def readStates_def call_readstate_def Let_def)

theorem configSlaves_no_slaves_witness:
  "\<not> snd (configSlaves stuck_soem ((stuck_sys (\<lambda>i. 0) 0 0)\<lparr>p_slaveCount := 5, p_state := 1\<rparr>))
   \<and> errorMessage (fst (configSlaves stuck_soem ((stuck_sys (\<lambda>i. 0) 0 0)\<lparr>p_slaveCount := 5, p_state := 1\<rparr>)))
       = Literal ''Error SimpleEthercat: Failed to config slaves. No slaves detected!''
   \<and> p_slaveCount (fst (configSlaves stuck_soem ((stuck_sys (\<lambda>i. 0) 0 0)\<lparr>p_slaveCount := 5, p_state := 1\<rparr>))) = 5
   \<and> p_state (fst (configSlaves stuck_soem ((stuck_sys (\<lambda>i. 0) 0 0)\<lparr>p_slaveCount := 5, p_state := 1\<rparr>))) = 1"
proof -
  let ?s = "(stuck_sys (\<lambda>i. 0) 0 0)\<lparr>p_slaveCount := 5, p_state := 1\<rparr>"
  have c: "ec_config_init stuck_soem False (ecx ?s) = (ecx ?s, 0, 0)"
    by (simp add: stuck_soem_def stuck_sys_def)
  show ?thesis
    using configSlaves_no_slaves [OF c] by (simp add: stuck_sys_def)
qed

subsection \<open>Requesting INIT and PRE_OP\<close>

text \<open>The polling loop only talks to the library.\<close>

lemma request_poll_frame [simp]:
  "errorMessage (request_poll L T chk s) = errorMessage s"
  "p_slaveCount (request_poll L T chk s) = p_slaveCount s"
  "p_expectedWKC (request_poll L T chk s) = p_expectedWKC s"
  "ec_slavecount (request_poll L T chk s) = ec_slavecount s"
  "stdout (request_poll L T chk s) = stdout s"
  by (induction chk arbitrary: s; simp add: request_poll_body_def Let_def)+








subsection \<open>Requesting OPERATIONAL\<close>

text \<open>The request only talks to the library.\<close>

lemma operational_poll_frame [simp]:
  "errorMessage (operational_poll L chk s) = errorMessage s"
  "p_slaveCount (operational_poll L chk s) = p_slaveCount s"
  "p_expectedWKC (operational_poll L chk s) = p_expectedWKC s"
  "p_state (operational_poll L chk s) = p_state s"
  "ec_slavecount (operational_poll L chk s) = ec_slavecount s"
  "stdout (operational_poll L chk s) = stdout s"
  by (induction chk arbitrary: s; simp add: operational_poll_body_def Let_def)+

lemma request_operational_frame [simp]:
  "errorMessage (request_operational L s) = errorMessage s"
  "p_slaveCount (request_operational L s) = p_slaveCount s"
  "p_expectedWKC (request_operational L s) = p_expectedWKC s"
  "p_state (request_operational L s) = p_state s"
  "ec_slavecount (request_operational L s) = ec_slavecount s"
  "stdout (request_operational L s) = stdout s"
  by (simp_all add: request_operational_def Let_def)

text \<open>On the example bus the request ends with the table holding what the devices report.\<close>

lemma stuck_operational_poll: "bus_view (ecx (operational_poll stuck_soem chk s)) = bus_view (ecx s)"
  by (induction chk arbitrary: s) (simp_all add: operational_poll_body_def Let_def)

lemma stuck_request_operational:
  "ecx (request_operational stuck_soem s) = ec_readstate stuck_soem (ecx s)"
proof -
  have "bus_view (ecx (operational_poll stuck_soem 200 t)) = bus_view (ecx s)"
    if "bus_view (ecx t) = bus_view (ecx s)" for t
    using that by (simp add: stuck_operational_poll)
  then show ?thesis
    unfolding request_operational_def Let_def
    by (simp only: call_readstate_frame) (rule bus_view_readstate, simp)
qed

text \<open>
  The request loop runs at least one and at most \<open>chk + 1\<close> rounds of state write and
  state check (201 for \<^verbatim>\<open>chk = 200\<close>); \<open>ws\<close> are the states the writes asked for.
\<close>

lemma operational_poll_calls:
  "\<exists>ws. 1 \<le> length ws \<and> length ws \<le> Suc chk
       \<and> calls (operational_poll L chk s)
           = calls s @ concat (map (\<lambda>w. [WriteState 0 w,
                                            StateCheck 0 (EC_STATE_OPERATIONAL L) 50000]) ws)"
proof (induction chk arbitrary: s)
  case 0
  have "calls (operational_poll L 0 s)
          = calls s @ concat (map (\<lambda>w. [WriteState 0 w,
                                           StateCheck 0 (EC_STATE_OPERATIONAL L) 50000])
                                [slave_state s 0])"
    by (simp add: operational_poll_body_def)
  then show ?case by (intro exI [of _ "[slave_state s 0]"]) simp
next
  case (Suc chk)
  let ?round = "\<lambda>w. [WriteState 0 w, StateCheck 0 (EC_STATE_OPERATIONAL L) 50000]"
  let ?s1 = "operational_poll_body L s"
  have c1: "calls ?s1 = calls s @ ?round (slave_state s 0)"
    by (simp add: operational_poll_body_def)
  show ?case
  proof (cases "uint (slave_state ?s1 0) \<noteq> EC_STATE_OPERATIONAL L")
    case True
    from Suc.IH [of ?s1] obtain ws where ws: "1 \<le> length ws" "length ws \<le> Suc chk"
      "calls (operational_poll L chk ?s1) = calls ?s1 @ concat (map ?round ws)"
      by blast
    have "calls (operational_poll L (Suc chk) s)
            = calls s @ concat (map ?round (slave_state s 0 # ws))"
      using True ws(3) c1 by (simp add: Let_def)
    with ws(1,2) show ?thesis by (intro exI [of _ "slave_state s 0 # ws"]) simp
  next
    case False
    then have "calls (operational_poll L (Suc chk) s)
                 = calls s @ concat (map ?round [slave_state s 0])"
      using c1 by (simp add: Let_def)
    then show ?thesis by (intro exI [of _ "[slave_state s 0]"]) simp
  qed
qed

text \<open>The library calls of the request, in order.\<close>

lemma request_operational_calls:
  "\<exists>w ws. 1 \<le> length ws \<and> length ws \<le> 201
       \<and> calls (request_operational L s)
           = calls s @ [StateCheck 0 (EC_STATE_OPERATIONAL L) 50000, ReadState, SendProcessdata,
                        ReceiveProcessdata (EC_TIMEOUTRET L), WriteState 0 w,
                        StateCheck 0 (EC_STATE_OPERATIONAL L) (EC_TIMEOUTSTATE L * 4)]
             @ concat (map (\<lambda>w. [WriteState 0 w,
                                  StateCheck 0 (EC_STATE_OPERATIONAL L) 50000]) ws)
             @ [ReadState]"
proof -
  let ?s6 = "fst (call_receive_processdata L (EC_TIMEOUTRET L)
               (call_send_processdata L
                  (set_slave_state 0 (word_of_int (EC_STATE_OPERATIONAL L))
                     (call_readstate L
                        (fst (call_statecheck L 0 (EC_STATE_OPERATIONAL L) 50000 s))))))"
  let ?s7 = "fst (call_statecheck L 0 (EC_STATE_OPERATIONAL L) (EC_TIMEOUTSTATE L * 4)
               (call_writestate L 0 ?s6))"
  obtain ws where ws: "1 \<le> length ws" "length ws \<le> Suc 200"
    "calls (operational_poll L 200 ?s7)
       = calls ?s7 @ concat (map (\<lambda>w. [WriteState 0 w,
                                         StateCheck 0 (EC_STATE_OPERATIONAL L) 50000]) ws)"
    using operational_poll_calls [of 200 L ?s7] by blast
  have "calls (request_operational L s) = calls (operational_poll L 200 ?s7) @ [ReadState]"
    by (simp add: request_operational_def Let_def)
  with ws show ?thesis
    by (intro exI [of _ "slave_state ?s6 0"] exI [of _ ws]) simp
qed

text \<open>The search of the closing loop finds the least slave number that qualifies.\<close>

lemma find_first_upt:
  assumes "a \<le> i" and "i < b" and "P i" and "\<And>j. a \<le> j \<Longrightarrow> j < i \<Longrightarrow> \<not> P j"
  shows "find P [a ..< b] = Some i"
proof -
  have "i - a < length [a ..< b]" using assms(1,2) by simp
  moreover have "[a ..< b] ! (i - a) = i" using assms(1,2) by simp
  moreover have "\<not> P ([a ..< b] ! k)" if "k < i - a" for k
  proof -
    from that assms(2) have "[a ..< b] ! k = a + k" by simp
    with that assms(4) [of "a + k"] show ?thesis by simp
  qed
  ultimately show ?thesis
    using assms(3) unfolding find_Some_iff by (intro exI [of _ "i - a"]) simp
qed

text \<open>
  Claim C3, as amended. \<^verbatim>\<open>setOperationalState\<close> makes a bounded request: the calls listed,
  with between 1 and 201 rounds of state write and state check, and a final re-read of the
  states. With \<open>s9\<close> the state after that re-read, it returns true exactly when every
  slave of 1..\<^verbatim>\<open>ec_slavecount\<close> is in OPERATIONAL, and then prints nothing, leaves the
  error message alone and stores OPERATIONAL in \<^verbatim>\<open>_state\<close>. Otherwise it returns false,
  sets the error message, leaves \<^verbatim>\<open>_state\<close> alone, and prints one diagnostic line: for the
  first slave \<open>i\<close> that is not in OPERATIONAL, with the text of its status code and its raw
  state. Later slaves that are not in OPERATIONAL are not named.
\<close>

theorem setOperationalState_first_failure:
  fixes L :: "'n soem" and s :: "'n sys"
  defines "s9 \<equiv> request_operational L s"
  shows
   "(snd (setOperationalState L s) \<longleftrightarrow>
       (\<forall>i. 1 \<le> i \<and> int i \<le> ec_slavecount s
             \<longrightarrow> uint (slave_state s9 i) = EC_STATE_OPERATIONAL L))
    \<and> (\<forall>i. 1 \<le> i \<and> int i \<le> ec_slavecount s
            \<and> uint (slave_state s9 i) \<noteq> EC_STATE_OPERATIONAL L
            \<and> (\<forall>j. 1 \<le> j \<and> j < i \<longrightarrow> uint (slave_state s9 j) = EC_STATE_OPERATIONAL L)
          \<longrightarrow> \<not> snd (setOperationalState L s)
              \<and> stdout (fst (setOperationalState L s))
                  = stdout s @ [OperationalFailureLine i
                                  (ec_ALstatuscode2string L (ALstatuscode (ec_slave (ecx s9) i)))
                                  (slave_state s9 i)]
              \<and> errorMessage (fst (setOperationalState L s))
                  = Literal ''Slaves state can not set to operational state.''
              \<and> p_state (fst (setOperationalState L s)) = p_state s)
    \<and> (snd (setOperationalState L s)
          \<longrightarrow> stdout (fst (setOperationalState L s)) = stdout s
              \<and> errorMessage (fst (setOperationalState L s)) = errorMessage s
              \<and> p_state (fst (setOperationalState L s)) = EC_STATE_OPERATIONAL L)
    \<and> (\<exists>w ws. 1 \<le> length ws \<and> length ws \<le> 201
          \<and> calls (fst (setOperationalState L s))
              = calls s @ [StateCheck 0 (EC_STATE_OPERATIONAL L) 50000, ReadState,
                           SendProcessdata, ReceiveProcessdata (EC_TIMEOUTRET L), WriteState 0 w,
                           StateCheck 0 (EC_STATE_OPERATIONAL L) (EC_TIMEOUTSTATE L * 4)]
                @ concat (map (\<lambda>w. [WriteState 0 w,
                                     StateCheck 0 (EC_STATE_OPERATIONAL L) 50000]) ws)
                @ [ReadState])"
proof -
  let ?P = "\<lambda>i. uint (slave_state s9 i) \<noteq> EC_STATE_OPERATIONAL L"
  have n: "ec_slavecount s9 = ec_slavecount s" by (simp add: s9_def)
  have mem: "i \<in> set (slave_numbers (ec_slavecount s)) \<longleftrightarrow> 1 \<le> i \<and> int i \<le> ec_slavecount s" for i
    by (auto simp add: slave_numbers_def)
  have verdict: "snd (setOperationalState L s) \<longleftrightarrow> first_not_operational L s9 = None"
    by (simp add: setOperationalState_def Let_def s9_def split: option.splits)
  have none: "first_not_operational L s9 = None
      \<longleftrightarrow> (\<forall>i. 1 \<le> i \<and> int i \<le> ec_slavecount s \<longrightarrow> \<not> ?P i)"
    unfolding first_not_operational_def n find_None_iff using mem by blast
  have first: "first_not_operational L s9 = Some i"
    if "1 \<le> i" "int i \<le> ec_slavecount s" "?P i" "\<forall>j. 1 \<le> j \<and> j < i \<longrightarrow> \<not> ?P j" for i
  proof -
    from that(1,2) have "i < Suc (nat (ec_slavecount s))" by linarith
    from find_first_upt [of 1 i "Suc (nat (ec_slavecount s))" ?P, OF that(1) this that(3)] that(4)
    show ?thesis
      unfolding first_not_operational_def n slave_numbers_def by simp
  qed
  have c: "calls (fst (setOperationalState L s)) = calls s9"
    by (simp add: setOperationalState_def Let_def s9_def split: option.splits)
  have 1: "snd (setOperationalState L s) \<longleftrightarrow>
       (\<forall>i. 1 \<le> i \<and> int i \<le> ec_slavecount s
             \<longrightarrow> uint (slave_state s9 i) = EC_STATE_OPERATIONAL L)"
    unfolding verdict none by simp
  have 2: "\<not> snd (setOperationalState L s)
              \<and> stdout (fst (setOperationalState L s))
                  = stdout s @ [OperationalFailureLine i
                                  (ec_ALstatuscode2string L (ALstatuscode (ec_slave (ecx s9) i)))
                                  (slave_state s9 i)]
              \<and> errorMessage (fst (setOperationalState L s))
                  = Literal ''Slaves state can not set to operational state.''
              \<and> p_state (fst (setOperationalState L s)) = p_state s"
    if "1 \<le> i \<and> int i \<le> ec_slavecount s
            \<and> uint (slave_state s9 i) \<noteq> EC_STATE_OPERATIONAL L
            \<and> (\<forall>j. 1 \<le> j \<and> j < i \<longrightarrow> uint (slave_state s9 j) = EC_STATE_OPERATIONAL L)" for i
  proof -
    from that have "first_not_operational L s9 = Some i"
      by (intro first) simp_all
    then show ?thesis
      by (simp add: setOperationalState_def Let_def s9_def [symmetric])
         (simp add: s9_def)
  qed
  have 3: "stdout (fst (setOperationalState L s)) = stdout s
              \<and> errorMessage (fst (setOperationalState L s)) = errorMessage s
              \<and> p_state (fst (setOperationalState L s)) = EC_STATE_OPERATIONAL L"
    if "snd (setOperationalState L s)"
  proof -
    from that verdict have "first_not_operational L s9 = None" by simp
    then show ?thesis
      by (simp add: setOperationalState_def Let_def s9_def [symmetric])
         (simp add: s9_def)
  qed
  from 1 2 3 request_operational_calls [of L s] show ?thesis
    unfolding c s9_def by blast
qed

lemma stuck_request_operational_table:
  "slave_state (request_operational stuck_soem (stuck_sys dev n w)) i = dev i"
  "ALstatuscode (ec_slave (ecx (request_operational stuck_soem (stuck_sys dev n w))) i) = 0"
  "ec_slavecount (stuck_sys dev n w) = n"
  "stdout (stuck_sys dev n w) = []"
  by (simp_all add: slave_state_def stuck_request_operational)
     (simp_all add: stuck_sys_def stuck_slave_def)

theorem setOperationalState_first_failure_witness:
  "\<not> snd (setOperationalState stuck_soem
             (stuck_sys (\<lambda>i. if i = 2 then 4 else if i = 3 then 1 else 8) 3 3))
   \<and> stdout (fst (setOperationalState stuck_soem
                     (stuck_sys (\<lambda>i. if i = 2 then 4 else if i = 3 then 1 else 8) 3 3)))
       = [OperationalFailureLine 2 ''No error'' 4]
   \<and> errorMessage (fst (setOperationalState stuck_soem
                     (stuck_sys (\<lambda>i. if i = 2 then 4 else if i = 3 then 1 else 8) 3 3)))
       = Literal ''Slaves state can not set to operational state.''"
proof -
  let ?dev = "\<lambda>i::nat. if i = 2 then 4 else if i = 3 then 1 else (8 :: uint16)"
  let ?s = "stuck_sys ?dev 3 3"
  note t = stuck_request_operational_table [of ?dev 3 3]
  have h: "1 \<le> (2::nat) \<and> int 2 \<le> ec_slavecount ?s
        \<and> uint (slave_state (request_operational stuck_soem ?s) 2)
            \<noteq> EC_STATE_OPERATIONAL stuck_soem
        \<and> (\<forall>j. 1 \<le> j \<and> j < 2
              \<longrightarrow> uint (slave_state (request_operational stuck_soem ?s) j)
                  = EC_STATE_OPERATIONAL stuck_soem)"
    unfolding t by auto
  from setOperationalState_first_failure [of stuck_soem ?s] h
  have "\<not> snd (setOperationalState stuck_soem ?s)
     \<and> stdout (fst (setOperationalState stuck_soem ?s))
         = stdout ?s @ [OperationalFailureLine 2
              (ec_ALstatuscode2string stuck_soem
                 (ALstatuscode (ec_slave (ecx (request_operational stuck_soem ?s)) 2)))
              (slave_state (request_operational stuck_soem ?s) 2)]
     \<and> errorMessage (fst (setOperationalState stuck_soem ?s))
         = Literal ''Slaves state can not set to operational state.''"
    by blast
  then show ?thesis
    unfolding t by simp
qed

text \<open>
  Claim C3 as stated fails. Two slaves stay in SAFE_OP (4). The call returns false and
  sets the error message, but the diagnostic is the single line for slave 1; slave 2,
  which is in SAFE_OP as well, is not named.
\<close>

theorem setOperationalState_names_first_only:
  "\<not> snd (setOperationalState stuck_soem (stuck_sys (\<lambda>i. 4) 2 3))
   \<and> stdout (fst (setOperationalState stuck_soem (stuck_sys (\<lambda>i. 4) 2 3)))
       = [OperationalFailureLine 1 ''No error'' 4]
   \<and> errorMessage (fst (setOperationalState stuck_soem (stuck_sys (\<lambda>i. 4) 2 3)))
       = Literal ''Slaves state can not set to operational state.''
   \<and> uint (slave_state (fst (setOperationalState stuck_soem (stuck_sys (\<lambda>i. 4) 2 3))) 1) = 4
   \<and> uint (slave_state (fst (setOperationalState stuck_soem (stuck_sys (\<lambda>i. 4) 2 3))) 2) = 4"
proof -
  let ?s = "stuck_sys (\<lambda>i. 4) 2 3"
  note t = stuck_request_operational_table [of "\<lambda>i. 4" 2 3]
  have f: "first_not_operational stuck_soem (request_operational stuck_soem ?s) = Some 1"
    by (simp add: first_not_operational_def t slave_numbers_2)
  show ?thesis
    by (simp add: setOperationalState_def Let_def f t)
qed

subsection \<open>The monitor\<close>

text \<open>
  One pass of the monitor loop, as the code has it. The pass sweeps exactly when
  \<^verbatim>\<open>_state\<close> is OPERATIONAL and either the member \<^verbatim>\<open>_wkc\<close> is below \<^verbatim>\<open>_expectedWKC\<close> or
  the group's \<^verbatim>\<open>docheckstate\<close> flag is set; otherwise it only sleeps. A sweep visits the
  slaves 1..\<^verbatim>\<open>ec_slavecount\<close> in order, each with the repair ladder and then the recovery
  of a lost slave. With \<open>st\<close> the state of the slave when it is visited, the ladder does
  nothing to a slave outside the current group or in OPERATIONAL, and otherwise makes
  exactly one library call, the first that applies of:
  \<^item> (a) \<open>st\<close> is SAFE_OP + ERROR: a state write asking for SAFE_OP + ACK, the table
    entry of the slave having been set to it;
  \<^item> (b) \<open>st\<close> is SAFE_OP: a state write asking for OPERATIONAL, likewise;
  \<^item> (c) \<open>st\<close> is above NONE: a reconfiguration of the slave, which clears the lost flag
    when it succeeds and changes nothing else of its own when it does not;
  \<^item> (d) \<open>st\<close> is NONE and the slave is not flagged lost: one state check with the timeout
    \<^verbatim>\<open>EC_TIMEOUTRET\<close>, after which the slave is flagged lost if its state still reads NONE;
  and none at all when \<open>st\<close> is NONE and the slave is flagged lost already. After the
  ladder, in or out of the group, a slave flagged lost gets a recovery attempt if its
  state is NONE (the flag is cleared when it succeeds), and has the flag cleared with no
  library call if its state is anything else. (d) is stated for SOEM's numbering, where
  NONE is 0, the least value a state can have.
\<close>

lemma monitor_sweep_ladder:
  fixes L :: "'n soem" and s :: "'n sys" and slave :: nat
  defines "st \<equiv> uint (slave_state s slave)"
    and "s1 \<equiv> set_docheckstate (unat (p_currentgroup s)) True s"
  shows
   "(sweep_due L s \<longleftrightarrow>
       p_state s = EC_STATE_OPERATIONAL L
       \<and> (p_wkc s < p_expectedWKC s \<or> docheckstate (ec_group (ecx s) (unat (p_currentgroup s)))))
    \<and> (\<not> sweep_due L s \<longrightarrow> ecatcheck_pass L s = s\<lparr>calls := calls s @ [Usleep 10000]\<rparr>)
    \<and> (sweep_due L s \<longrightarrow>
          ecatcheck_pass L s = (sweep L s)\<lparr>calls := calls (sweep L s) @ [Usleep 10000]\<rparr>)
    \<and> sweep L s = sweep_finish (fold (check_slave L) (slave_numbers (ec_slavecount s))
                                   (sweep_start L s))
    \<and> check_slave L slave s = lost_recovery L slave (repair_ladder L slave s)
    \<and> (needs_repair L slave s \<longleftrightarrow>
          group (ec_slave (ecx s) slave) = p_currentgroup s \<and> st \<noteq> EC_STATE_OPERATIONAL L)
    \<and> (\<not> needs_repair L slave s \<longrightarrow> repair_ladder L slave s = s)
    \<and> (needs_repair L slave s \<and> st = EC_STATE_SAFE_OP L + EC_STATE_ERROR L \<longrightarrow>
          calls (repair_ladder L slave s)
            = calls s @ [WriteState slave (word_of_int (EC_STATE_SAFE_OP L + EC_STATE_ACK L))]
          \<and> ecx (repair_ladder L slave s)
              = ec_writestate L slave
                  (ecx (set_slave_state slave
                          (word_of_int (EC_STATE_SAFE_OP L + EC_STATE_ACK L)) s1))
          \<and> stdout (repair_ladder L slave s) = stdout s @ [SafeOpErrorAck slave])
    \<and> (needs_repair L slave s \<and> st \<noteq> EC_STATE_SAFE_OP L + EC_STATE_ERROR L
          \<and> st = EC_STATE_SAFE_OP L \<longrightarrow>
          calls (repair_ladder L slave s)
            = calls s @ [WriteState slave (word_of_int (EC_STATE_OPERATIONAL L))]
          \<and> ecx (repair_ladder L slave s)
              = ec_writestate L slave
                  (ecx (set_slave_state slave (word_of_int (EC_STATE_OPERATIONAL L)) s1))
          \<and> stdout (repair_ladder L slave s) = stdout s @ [SafeOpToOperational slave])
    \<and> (needs_repair L slave s \<and> st \<noteq> EC_STATE_SAFE_OP L + EC_STATE_ERROR L
          \<and> st \<noteq> EC_STATE_SAFE_OP L \<and> st > EC_STATE_NONE L \<longrightarrow>
          calls (repair_ladder L slave s) = calls s @ [ReconfigSlave slave EC_TIMEOUTMON]
          \<and> (snd (ec_reconfig_slave L slave EC_TIMEOUTMON (ecx s1)) \<noteq> 0 \<longrightarrow>
                \<not> islost (ec_slave (ecx (repair_ladder L slave s)) slave))
          \<and> (snd (ec_reconfig_slave L slave EC_TIMEOUTMON (ecx s1)) = 0 \<longrightarrow>
                ecx (repair_ladder L slave s)
                  = fst (ec_reconfig_slave L slave EC_TIMEOUTMON (ecx s1))))
    \<and> (soem_state_values L \<and> needs_repair L slave s \<and> st = EC_STATE_NONE L
          \<and> \<not> islost (ec_slave (ecx s) slave) \<longrightarrow>
          calls (repair_ladder L slave s)
            = calls s @ [StateCheck slave (EC_STATE_OPERATIONAL L) (EC_TIMEOUTRET L)]
          \<and> islost (ec_slave (ecx (repair_ladder L slave s)) slave)
              = (uint (state (ec_slave (fst (ec_statecheck L slave (EC_STATE_OPERATIONAL L)
                                               (EC_TIMEOUTRET L) (ecx s1))) slave))
                   = EC_STATE_NONE L
                 \<or> islost (ec_slave (fst (ec_statecheck L slave (EC_STATE_OPERATIONAL L)
                                               (EC_TIMEOUTRET L) (ecx s1))) slave)))
    \<and> (soem_state_values L \<and> needs_repair L slave s \<and> st = EC_STATE_NONE L
          \<and> islost (ec_slave (ecx s) slave) \<longrightarrow> repair_ladder L slave s = s1)
    \<and> (\<not> islost (ec_slave (ecx s) slave) \<longrightarrow> lost_recovery L slave s = s)
    \<and> (islost (ec_slave (ecx s) slave) \<and> st = EC_STATE_NONE L \<longrightarrow>
          calls (lost_recovery L slave s) = calls s @ [RecoverSlave slave EC_TIMEOUTMON]
          \<and> (snd (ec_recover_slave L slave EC_TIMEOUTMON (ecx s)) \<noteq> 0 \<longrightarrow>
                \<not> islost (ec_slave (ecx (lost_recovery L slave s)) slave))
          \<and> (snd (ec_recover_slave L slave EC_TIMEOUTMON (ecx s)) = 0 \<longrightarrow>
                ecx (lost_recovery L slave s)
                  = fst (ec_recover_slave L slave EC_TIMEOUTMON (ecx s))))
    \<and> (islost (ec_slave (ecx s) slave) \<and> st \<noteq> EC_STATE_NONE L \<longrightarrow>
          lost_recovery L slave s = print (SlaveFound slave) (set_islost slave False s)
          \<and> calls (lost_recovery L slave s) = calls s
          \<and> \<not> islost (ec_slave (ecx (lost_recovery L slave s)) slave))"
proof -
  have gate: "sweep_due L s \<longleftrightarrow>
       p_state s = EC_STATE_OPERATIONAL L
       \<and> (p_wkc s < p_expectedWKC s \<or> docheckstate (ec_group (ecx s) (unat (p_currentgroup s))))"
    by (simp add: sweep_due_def)
  have pass: "(\<not> sweep_due L s \<longrightarrow> ecatcheck_pass L s = s\<lparr>calls := calls s @ [Usleep 10000]\<rparr>)
    \<and> (sweep_due L s \<longrightarrow>
          ecatcheck_pass L s = (sweep L s)\<lparr>calls := calls (sweep L s) @ [Usleep 10000]\<rparr>)"
    by (simp add: ecatcheck_pass_def Let_def)
  have visit: "sweep L s = sweep_finish (fold (check_slave L) (slave_numbers (ec_slavecount s))
                                   (sweep_start L s))"
    by (simp add: sweep_def sweep_start_def Let_def)
  have both: "check_slave L slave s = lost_recovery L slave (repair_ladder L slave s)"
    by (simp add: check_slave_def)
  have need: "needs_repair L slave s \<longleftrightarrow>
          group (ec_slave (ecx s) slave) = p_currentgroup s \<and> st \<noteq> EC_STATE_OPERATIONAL L"
    by (simp add: needs_repair_def st_def)
  have skip: "\<not> needs_repair L slave s \<longrightarrow> repair_ladder L slave s = s"
    by (simp add: repair_ladder_def)
  have a: "needs_repair L slave s \<and> st = EC_STATE_SAFE_OP L + EC_STATE_ERROR L \<longrightarrow>
          calls (repair_ladder L slave s)
            = calls s @ [WriteState slave (word_of_int (EC_STATE_SAFE_OP L + EC_STATE_ACK L))]
          \<and> ecx (repair_ladder L slave s)
              = ec_writestate L slave
                  (ecx (set_slave_state slave
                          (word_of_int (EC_STATE_SAFE_OP L + EC_STATE_ACK L)) s1))
          \<and> stdout (repair_ladder L slave s) = stdout s @ [SafeOpErrorAck slave]"
  proof (intro impI, elim conjE)
    assume n: "needs_repair L slave s"
      and v: "st = EC_STATE_SAFE_OP L + EC_STATE_ERROR L"
    from n v have r: "repair_ladder L slave s
        = call_writestate L slave
            (set_slave_state slave (word_of_int (EC_STATE_SAFE_OP L + EC_STATE_ACK L))
               (print (SafeOpErrorAck slave) s1))"
      by (simp add: repair_ladder_def st_def s1_def Let_def)
    have e: "ecx (set_slave_state slave v (print l s1)) = ecx (set_slave_state slave v s1)"
      for v l
      by (simp add: set_slave_state_def print_def)
    show "calls (repair_ladder L slave s)
            = calls s @ [WriteState slave (word_of_int (EC_STATE_SAFE_OP L + EC_STATE_ACK L))]
          \<and> ecx (repair_ladder L slave s)
              = ec_writestate L slave
                  (ecx (set_slave_state slave
                          (word_of_int (EC_STATE_SAFE_OP L + EC_STATE_ACK L)) s1))
          \<and> stdout (repair_ladder L slave s) = stdout s @ [SafeOpErrorAck slave]"
      unfolding r by (simp add: e s1_def) (simp add: print_def set_slave_state_def)
  qed
  have b: "needs_repair L slave s \<and> st \<noteq> EC_STATE_SAFE_OP L + EC_STATE_ERROR L
          \<and> st = EC_STATE_SAFE_OP L \<longrightarrow>
          calls (repair_ladder L slave s)
            = calls s @ [WriteState slave (word_of_int (EC_STATE_OPERATIONAL L))]
          \<and> ecx (repair_ladder L slave s)
              = ec_writestate L slave
                  (ecx (set_slave_state slave (word_of_int (EC_STATE_OPERATIONAL L)) s1))
          \<and> stdout (repair_ladder L slave s) = stdout s @ [SafeOpToOperational slave]"
  proof (intro impI, elim conjE)
    assume n: "needs_repair L slave s"
      and v: "st \<noteq> EC_STATE_SAFE_OP L + EC_STATE_ERROR L" "st = EC_STATE_SAFE_OP L"
    from n v have r: "repair_ladder L slave s
        = call_writestate L slave
            (set_slave_state slave (word_of_int (EC_STATE_OPERATIONAL L))
               (print (SafeOpToOperational slave) s1))"
      by (simp add: repair_ladder_def st_def s1_def Let_def)
    have e: "ecx (set_slave_state slave v (print l s1)) = ecx (set_slave_state slave v s1)"
      for v l
      by (simp add: set_slave_state_def print_def)
    show "calls (repair_ladder L slave s)
            = calls s @ [WriteState slave (word_of_int (EC_STATE_OPERATIONAL L))]
          \<and> ecx (repair_ladder L slave s)
              = ec_writestate L slave
                  (ecx (set_slave_state slave (word_of_int (EC_STATE_OPERATIONAL L)) s1))
          \<and> stdout (repair_ladder L slave s) = stdout s @ [SafeOpToOperational slave]"
      unfolding r by (simp add: e s1_def) (simp add: print_def set_slave_state_def)
  qed
  have c: "needs_repair L slave s \<and> st \<noteq> EC_STATE_SAFE_OP L + EC_STATE_ERROR L
          \<and> st \<noteq> EC_STATE_SAFE_OP L \<and> st > EC_STATE_NONE L \<longrightarrow>
          calls (repair_ladder L slave s) = calls s @ [ReconfigSlave slave EC_TIMEOUTMON]
          \<and> (snd (ec_reconfig_slave L slave EC_TIMEOUTMON (ecx s1)) \<noteq> 0 \<longrightarrow>
                \<not> islost (ec_slave (ecx (repair_ladder L slave s)) slave))
          \<and> (snd (ec_reconfig_slave L slave EC_TIMEOUTMON (ecx s1)) = 0 \<longrightarrow>
                ecx (repair_ladder L slave s)
                  = fst (ec_reconfig_slave L slave EC_TIMEOUTMON (ecx s1)))"
    by (simp add: repair_ladder_def st_def s1_def Let_def split_beta)
  have d: "soem_state_values L \<and> needs_repair L slave s \<and> st = EC_STATE_NONE L
          \<and> \<not> islost (ec_slave (ecx s) slave) \<longrightarrow>
          calls (repair_ladder L slave s)
            = calls s @ [StateCheck slave (EC_STATE_OPERATIONAL L) (EC_TIMEOUTRET L)]
          \<and> islost (ec_slave (ecx (repair_ladder L slave s)) slave)
              = (uint (state (ec_slave (fst (ec_statecheck L slave (EC_STATE_OPERATIONAL L)
                                               (EC_TIMEOUTRET L) (ecx s1))) slave))
                   = EC_STATE_NONE L
                 \<or> islost (ec_slave (fst (ec_statecheck L slave (EC_STATE_OPERATIONAL L)
                                               (EC_TIMEOUTRET L) (ecx s1))) slave))"
  proof (intro impI, elim conjE)
    assume v: "soem_state_values L" and n: "needs_repair L slave s" and z: "st = EC_STATE_NONE L"
      and l: "\<not> islost (ec_slave (ecx s) slave)"
    let ?s2 = "fst (call_statecheck L slave (EC_STATE_OPERATIONAL L) (EC_TIMEOUTRET L) s1)"
    from v z have st0: "uint (slave_state s slave) = 0" "EC_STATE_NONE L = 0"
      "EC_STATE_SAFE_OP L = 4" "EC_STATE_ERROR L = 16"
      by (simp_all add: soem_state_values_def st_def)
    have r: "repair_ladder L slave s
               = (if uint (slave_state ?s2 slave) = EC_STATE_NONE L
                  then print (SlaveLost slave) (set_islost slave True ?s2) else ?s2)"
      using n l st0 by (simp add: repair_ladder_def s1_def Let_def)
    have e2: "slave_state ?s2 slave
                = state (ec_slave (fst (ec_statecheck L slave (EC_STATE_OPERATIONAL L)
                                     (EC_TIMEOUTRET L) (ecx s1))) slave)"
      by (simp add: slave_state_def)
    show "calls (repair_ladder L slave s)
            = calls s @ [StateCheck slave (EC_STATE_OPERATIONAL L) (EC_TIMEOUTRET L)]
          \<and> islost (ec_slave (ecx (repair_ladder L slave s)) slave)
              = (uint (state (ec_slave (fst (ec_statecheck L slave (EC_STATE_OPERATIONAL L)
                                               (EC_TIMEOUTRET L) (ecx s1))) slave))
                   = EC_STATE_NONE L
                 \<or> islost (ec_slave (fst (ec_statecheck L slave (EC_STATE_OPERATIONAL L)
                                               (EC_TIMEOUTRET L) (ecx s1))) slave))"
      unfolding r e2 by (simp add: s1_def)
  qed
  have d': "soem_state_values L \<and> needs_repair L slave s \<and> st = EC_STATE_NONE L
          \<and> islost (ec_slave (ecx s) slave) \<longrightarrow> repair_ladder L slave s = s1"
    by (simp add: repair_ladder_def st_def s1_def Let_def soem_state_values_def)
  have nl: "\<not> islost (ec_slave (ecx s) slave) \<longrightarrow> lost_recovery L slave s = s"
    by (simp add: lost_recovery_def)
  have rec: "islost (ec_slave (ecx s) slave) \<and> st = EC_STATE_NONE L \<longrightarrow>
          calls (lost_recovery L slave s) = calls s @ [RecoverSlave slave EC_TIMEOUTMON]
          \<and> (snd (ec_recover_slave L slave EC_TIMEOUTMON (ecx s)) \<noteq> 0 \<longrightarrow>
                \<not> islost (ec_slave (ecx (lost_recovery L slave s)) slave))
          \<and> (snd (ec_recover_slave L slave EC_TIMEOUTMON (ecx s)) = 0 \<longrightarrow>
                ecx (lost_recovery L slave s)
                  = fst (ec_recover_slave L slave EC_TIMEOUTMON (ecx s)))"
    by (simp add: lost_recovery_def st_def Let_def split_beta)
  have found: "islost (ec_slave (ecx s) slave) \<and> st \<noteq> EC_STATE_NONE L \<longrightarrow>
          lost_recovery L slave s = print (SlaveFound slave) (set_islost slave False s)
          \<and> calls (lost_recovery L slave s) = calls s
          \<and> \<not> islost (ec_slave (ecx (lost_recovery L slave s)) slave)"
    by (simp add: lost_recovery_def st_def)
  from gate pass visit both need skip a b c d d' nl rec found show ?thesis
    by (intro conjI) blast+
qed

lemma monitor_sweep_ladder_example:
  "sweep_due stuck_soem ((stuck_sys (\<lambda>i. 20) 1 2)\<lparr>p_state := 8, p_wkc := 2\<rparr>)
   \<and> needs_repair stuck_soem 1 ((stuck_sys (\<lambda>i. 20) 1 2)\<lparr>p_state := 8, p_wkc := 2\<rparr>)
   \<and> calls (repair_ladder stuck_soem 1 ((stuck_sys (\<lambda>i. 20) 1 2)\<lparr>p_state := 8, p_wkc := 2\<rparr>))
       = [WriteState 1 20]
   \<and> lost_recovery stuck_soem 1 ((stuck_sys (\<lambda>i. 20) 1 2)\<lparr>p_state := 8, p_wkc := 2\<rparr>)
       = (stuck_sys (\<lambda>i. 20) 1 2)\<lparr>p_state := 8, p_wkc := 2\<rparr>
   \<and> calls (ecatcheck_pass stuck_soem ((stuck_sys (\<lambda>i. 20) 1 2)\<lparr>p_state := 8, p_wkc := 2\<rparr>))
       = [ReadState, WriteState 1 20, Usleep 10000]"
proof -
  let ?s = "(stuck_sys (\<lambda>i. 20) 1 2)\<lparr>p_state := 8, p_wkc := 2\<rparr>"
  have due: "p_state ?s = EC_STATE_OPERATIONAL stuck_soem
       \<and> (p_wkc ?s < p_expectedWKC ?s
            \<or> docheckstate (ec_group (ecx ?s) (unat (p_currentgroup ?s))))"
    by (simp add: stuck_sys_def)
  have grp: "group (ec_slave (ecx ?s) 1) = p_currentgroup ?s"
    by (simp add: stuck_sys_def stuck_slave_def)
  have st: "uint (slave_state ?s 1) = EC_STATE_SAFE_OP stuck_soem + EC_STATE_ERROR stuck_soem"
    "uint (slave_state ?s 1) \<noteq> EC_STATE_OPERATIONAL stuck_soem"
    by (simp_all add: stuck_sys_def stuck_slave_def slave_state_def)
  have nl: "\<not> islost (ec_slave (ecx ?s) 1)"
    by (simp add: stuck_sys_def stuck_slave_def)
  have pass: "calls (ecatcheck_pass stuck_soem ?s) = [ReadState, WriteState 1 20, Usleep 10000]"
    by (simp add: ecatcheck_pass_def sweep_due_def sweep_def sweep_start_def sweep_finish_def
        check_slave_def repair_ladder_def lost_recovery_def needs_repair_def Let_def
        slave_numbers_1 slave_state_def stuck_sys_def stuck_slave_def call_readstate_def
        set_docheckstate_def set_slave_state_def print_def call_writestate_def)
  have c0: "calls (stuck_sys (\<lambda>i. 20) 1 2) = []"
    by (simp add: stuck_sys_def)
  from monitor_sweep_ladder [of stuck_soem ?s 1] due grp st nl pass c0 show ?thesis
    by simp
qed

text \<open>
  The header documents the member \<^verbatim>\<open>_wkc\<close> as the work counter of the current cycle, but
  \<^verbatim>\<open>updateProccess\<close> keeps the counter of its exchange in a local and leaves the member
  as it was; so does the monitor.
\<close>

lemma wkc_member_not_assigned:
  "p_wkc (fst (updateProccess L s)) = p_wkc s"
  "p_wkc (readStates L s) = p_wkc s"
  "p_wkc (sweep_start L s) = p_wkc s"
  "p_wkc (sweep_finish s) = p_wkc s"
  "p_wkc (check_slave L slave s) = p_wkc s"
  by (simp_all add: updateProccess_def readStates_def
      sweep_start_def sweep_finish_def check_slave_def repair_ladder_def lost_recovery_def
      Let_def split_beta)

text \<open>
  Claim C4: a sweep runs only when the session is OPERATIONAL and either the last work
  counter is below the expected value or the recheck flag is set. The gate of the code
  compares \<^verbatim>\<open>_wkc\<close>, which never holds the last work counter. One slave in OPERATIONAL,
  \<^verbatim>\<open>_expectedWKC\<close> 3, the flag clear and \<^verbatim>\<open>_wkc\<close> at the 0 a static object starts with: the
  exchange returns the work counter 3 and succeeds, \<^verbatim>\<open>_wkc\<close> is still 0, and the next pass
  of the monitor sweeps all the same (it re-reads the states and reports that all slaves
  resumed). With \<^verbatim>\<open>_wkc\<close> at 3 and a slave that has dropped to SAFE_OP, the exchange
  returns 1 and fails, and the next pass does not sweep: it only sleeps.
\<close>

theorem monitor_gate_not_on_last_wkc:
  "snd (updateProccess stuck_soem ((stuck_sys (\<lambda>i. 8) 1 3)\<lparr>p_state := 8\<rparr>))
   \<and> p_expectedWKC (fst (updateProccess stuck_soem ((stuck_sys (\<lambda>i. 8) 1 3)\<lparr>p_state := 8\<rparr>))) = 3
   \<and> snd (ec_receive_processdata stuck_soem 2000
            (ec_send_processdata stuck_soem (ecx ((stuck_sys (\<lambda>i. 8) 1 3)\<lparr>p_state := 8\<rparr>)))) = 3
   \<and> \<not> docheckstate (ec_group
          (ecx (fst (updateProccess stuck_soem ((stuck_sys (\<lambda>i. 8) 1 3)\<lparr>p_state := 8\<rparr>)))) 0)
   \<and> p_wkc (fst (updateProccess stuck_soem ((stuck_sys (\<lambda>i. 8) 1 3)\<lparr>p_state := 8\<rparr>))) = 0
   \<and> sweep_due stuck_soem
        (fst (updateProccess stuck_soem ((stuck_sys (\<lambda>i. 8) 1 3)\<lparr>p_state := 8\<rparr>)))
   \<and> calls (ecatcheck_pass stuck_soem
        (fst (updateProccess stuck_soem ((stuck_sys (\<lambda>i. 8) 1 3)\<lparr>p_state := 8\<rparr>))))
       = [SendProcessdata, ReceiveProcessdata 2000, ReadState, Usleep 10000]
   \<and> stdout (ecatcheck_pass stuck_soem
        (fst (updateProccess stuck_soem ((stuck_sys (\<lambda>i. 8) 1 3)\<lparr>p_state := 8\<rparr>))))
       = [DebugSDCSDC, AllSlavesResumed]
   \<and> \<not> snd (updateProccess stuck_soem ((stuck_sys (\<lambda>i. 4) 1 1)\<lparr>p_state := 8, p_wkc := 3\<rparr>))
   \<and> snd (ec_receive_processdata stuck_soem 2000
            (ec_send_processdata stuck_soem
               (ecx ((stuck_sys (\<lambda>i. 4) 1 1)\<lparr>p_state := 8, p_wkc := 3\<rparr>)))) = 1
   \<and> p_wkc (fst (updateProccess stuck_soem
                    ((stuck_sys (\<lambda>i. 4) 1 1)\<lparr>p_state := 8, p_wkc := 3\<rparr>))) = 3
   \<and> \<not> sweep_due stuck_soem
        (fst (updateProccess stuck_soem ((stuck_sys (\<lambda>i. 4) 1 1)\<lparr>p_state := 8, p_wkc := 3\<rparr>)))
   \<and> calls (ecatcheck_pass stuck_soem
        (fst (updateProccess stuck_soem ((stuck_sys (\<lambda>i. 4) 1 1)\<lparr>p_state := 8, p_wkc := 3\<rparr>))))
       = [SendProcessdata, ReceiveProcessdata 2000, Usleep 10000]
   \<and> stdout (ecatcheck_pass stuck_soem
        (fst (updateProccess stuck_soem ((stuck_sys (\<lambda>i. 4) 1 1)\<lparr>p_state := 8, p_wkc := 3\<rparr>))))
       = []"
proof -
  let ?a = "(stuck_sys (\<lambda>i. 8) 1 3)\<lparr>p_state := 8\<rparr>"
  let ?b = "(stuck_sys (\<lambda>i. 4) 1 1)\<lparr>p_state := 8, p_wkc := 3\<rparr>"
  have ua: "updateProccess stuck_soem ?a
              = (?a\<lparr>calls := [SendProcessdata, ReceiveProcessdata 2000]\<rparr>, True)"
    by (simp add: updateProccess_def call_send_processdata_def call_receive_processdata_def
        stuck_sys_def)
  have ub: "updateProccess stuck_soem ?b
              = (?b\<lparr>calls := [SendProcessdata, ReceiveProcessdata 2000]\<rparr>, False)"
    by (simp add: updateProccess_def call_send_processdata_def call_receive_processdata_def
        stuck_sys_def)
  have a1: "p_expectedWKC (?a\<lparr>calls := [SendProcessdata, ReceiveProcessdata 2000]\<rparr>) = 3"
    "p_wkc (?a\<lparr>calls := [SendProcessdata, ReceiveProcessdata 2000]\<rparr>) = 0"
    "\<not> docheckstate (ec_group (ecx (?a\<lparr>calls := [SendProcessdata, ReceiveProcessdata 2000]\<rparr>)) 0)"
    "snd (ec_receive_processdata stuck_soem 2000 (ec_send_processdata stuck_soem (ecx ?a))) = 3"
    by (simp_all add: stuck_sys_def)
  have a2: "sweep_due stuck_soem (?a\<lparr>calls := [SendProcessdata, ReceiveProcessdata 2000]\<rparr>)"
    by (simp add: sweep_due_def stuck_sys_def)
  have a3: "calls (ecatcheck_pass stuck_soem
                     (?a\<lparr>calls := [SendProcessdata, ReceiveProcessdata 2000]\<rparr>))
              = [SendProcessdata, ReceiveProcessdata 2000, ReadState, Usleep 10000]"
    "stdout (ecatcheck_pass stuck_soem
                     (?a\<lparr>calls := [SendProcessdata, ReceiveProcessdata 2000]\<rparr>))
              = [DebugSDCSDC, AllSlavesResumed]"
    by (simp_all add: ecatcheck_pass_def sweep_due_def sweep_def sweep_start_def sweep_finish_def
        check_slave_def repair_ladder_def lost_recovery_def needs_repair_def Let_def
        slave_numbers_1 slave_state_def stuck_sys_def stuck_slave_def call_readstate_def
        set_docheckstate_def print_def)
  have b1: "p_wkc (?b\<lparr>calls := [SendProcessdata, ReceiveProcessdata 2000]\<rparr>) = 3"
    "snd (ec_receive_processdata stuck_soem 2000 (ec_send_processdata stuck_soem (ecx ?b))) = 1"
    by (simp_all add: stuck_sys_def)
  have b2: "\<not> sweep_due stuck_soem (?b\<lparr>calls := [SendProcessdata, ReceiveProcessdata 2000]\<rparr>)"
    by (simp add: sweep_due_def stuck_sys_def)
  have b3: "calls (ecatcheck_pass stuck_soem
                     (?b\<lparr>calls := [SendProcessdata, ReceiveProcessdata 2000]\<rparr>))
              = [SendProcessdata, ReceiveProcessdata 2000, Usleep 10000]"
    "stdout (ecatcheck_pass stuck_soem
                     (?b\<lparr>calls := [SendProcessdata, ReceiveProcessdata 2000]\<rparr>)) = []"
    using b2 by (simp_all add: ecatcheck_pass_def stuck_sys_def)
  show ?thesis
    unfolding ua ub fst_conv snd_conv
    using a1 a2 a3 b1 b2 b3 by (intro conjI) simp_all
qed

subsection \<open>The sync manager types of si_map_sdo\<close>

text \<open>\<^verbatim>\<open>si_PDOassign\<close> prints mapping rows and nothing else.\<close>

lemma PDOassign_entry_rows:
  "list_all entry_row (pa_out l)
     \<Longrightarrow> list_all entry_row (pa_out (PDOassign_entry D slave mo idx k l))"
  by (simp add: PDOassign_entry_def Let_def split_beta)

lemma PDOassign_pdo_rows:
  "list_all entry_row (pa_out l)
     \<Longrightarrow> list_all entry_row (pa_out (PDOassign_pdo D slave pa mo i l))"
proof -
  have "list_all entry_row (pa_out l)
          \<Longrightarrow> list_all entry_row
                (pa_out (fold (\<lambda>k. PDOassign_entry D slave mo idx (of_nat k)) ks l))" for ks idx
    by (induction ks arbitrary: l) (simp_all add: PDOassign_entry_rows)
  then show "list_all entry_row (pa_out l)
     \<Longrightarrow> list_all entry_row (pa_out (PDOassign_pdo D slave pa mo i l))"
    by (simp add: PDOassign_pdo_def Let_def)
qed

text \<open>
  The loop over the assigned PDOs ends when their count is not 0xFFFF: the counter then
  passes the count without wrapping.
\<close>

lemma PDOassign_loop_total:
  assumes "nidx \<noteq> 0xFFFF"
  shows "list_all entry_row (pa_out l) \<Longrightarrow>
     \<exists>l'. PDOassign_loop D slave pa mo nidx i l = Some l' \<and> list_all entry_row (pa_out l')"
proof (induction "Suc (unat nidx) - unat i" arbitrary: i l rule: less_induct)
  case less
  show ?case
  proof (cases "i \<le> nidx")
    case False
    then have "PDOassign_loop D slave pa mo nidx i l = Some l"
      by (subst PDOassign_loop.simps) simp
    with less.prems show ?thesis by simp
  next
    case True
    have "unat nidx \<noteq> unat (0xFFFF :: uint16)"
      using assms by (simp only: word_unat_eq_iff not_False_eq_True)
    moreover have "unat nidx < 2 ^ 16"
      using unsigned_less [of nidx] by simp
    ultimately have "unat nidx < 65535" by simp
    with True have u: "unat (i + 1) = Suc (unat i)"
      by (simp add: unat_word_ariths word_le_nat_alt)
    from True have "unat i \<le> unat nidx" by (simp add: word_le_nat_alt)
    with u have d: "Suc (unat nidx) - unat (i + 1) < Suc (unat nidx) - unat i" by simp
    from less.hyps [OF d, of "PDOassign_pdo D slave pa mo i l"] PDOassign_pdo_rows [OF less.prems]
    obtain l' where "PDOassign_loop D slave pa mo nidx (i + 1) (PDOassign_pdo D slave pa mo i l)
                       = Some l'" "list_all entry_row (pa_out l')"
      by blast
    with True show ?thesis
      by (subst PDOassign_loop.simps) simp
  qed
qed

lemma si_PDOassign_total:
  assumes "PDO_counts_end D slave"
  shows "\<exists>r. si_PDOassign D slave pa mo bo = Some r \<and> list_all entry_row (pa_out r)"
proof -
  let ?l = "\<lparr>bsize = 0, pa_bitoffset = bo, pa_out = []\<rparr>"
  let ?n = "(ucast (snd (ec_SDOread D slave pa 0)) :: uint16)"
  have n: "?n \<noteq> 0xFFFF"
    using assms by (simp add: PDO_counts_end_def)
  have "list_all entry_row (pa_out ?l)" by simp
  from PDOassign_loop_total [OF n this, of D slave pa mo 1]
  obtain l' where "PDOassign_loop D slave pa mo ?n 1 ?l = Some l'" "list_all entry_row (pa_out l')"
    by blast
  then show ?thesis
    by (cases "fst (ec_SDOread D slave pa 0) > 0 \<and> ?n > 0")
       (simp_all add: si_PDOassign_def Let_def split_beta)
qed

lemma entry_rows_are_rows:
  assumes "list_all entry_row rows"
  shows "SMoutputs j \<notin> set rows" and "SMinputs j \<notin> set rows" and "Workaround \<notin> set rows"
  using assms by (auto simp add: list_all_iff)

text \<open>
  What one pass of the loop over the sync managers adds to the output: a line for the
  outputs of \<open>i\<close> exactly when the corrected type is 3, one for its inputs exactly when it
  is 4.
\<close>

lemma map_outputs_out:
  assumes "PDO_counts_end D slave"
  shows "\<exists>l'. map_outputs D slave i l = Some l' \<and> SMt_bug_add l' = SMt_bug_add l
     \<and> (\<forall>j. SMoutputs j \<in> set (sdo_out l') \<longleftrightarrow> SMoutputs j \<in> set (sdo_out l) \<or> j = i)
     \<and> (\<forall>j. SMinputs j \<in> set (sdo_out l') \<longleftrightarrow> SMinputs j \<in> set (sdo_out l))"
proof -
  from si_PDOassign_total [OF assms, of "ECT_SDO_PDOASSIGN D + ucast i" "outputs_offset D slave"
      "outputs_bo l"]
  obtain r where r: "si_PDOassign D slave (ECT_SDO_PDOASSIGN D + ucast i) (outputs_offset D slave)
      (outputs_bo l) = Some r" "list_all entry_row (pa_out r)"
    by blast
  from entry_rows_are_rows [OF r(2)] r(1) show ?thesis
    by (auto simp add: map_outputs_def)
qed

lemma map_inputs_out:
  assumes "PDO_counts_end D slave"
  shows "\<exists>l'. map_inputs D slave i l = Some l' \<and> SMt_bug_add l' = SMt_bug_add l
     \<and> (\<forall>j. SMoutputs j \<in> set (sdo_out l') \<longleftrightarrow> SMoutputs j \<in> set (sdo_out l))
     \<and> (\<forall>j. SMinputs j \<in> set (sdo_out l') \<longleftrightarrow> SMinputs j \<in> set (sdo_out l) \<or> j = i)"
proof -
  from si_PDOassign_total [OF assms, of "ECT_SDO_PDOASSIGN D + ucast i" "inputs_offset D slave"
      "inputs_bo l"]
  obtain r where r: "si_PDOassign D slave (ECT_SDO_PDOASSIGN D + ucast i) (inputs_offset D slave)
      (inputs_bo l) = Some r" "list_all entry_row (pa_out r)"
    by blast
  from entry_rows_are_rows [OF r(2)] r(1) show ?thesis
    by (auto simp add: map_inputs_def)
qed

lemma map_sm_out:
  assumes "PDO_counts_end D slave"
  shows "\<exists>l'. map_sm D slave i t l = Some l' \<and> SMt_bug_add l' = SMt_bug_add l
     \<and> (\<forall>j. SMoutputs j \<in> set (sdo_out l')
              \<longleftrightarrow> SMoutputs j \<in> set (sdo_out l) \<or> (j = i \<and> t = 3))
     \<and> (\<forall>j. SMinputs j \<in> set (sdo_out l')
              \<longleftrightarrow> SMinputs j \<in> set (sdo_out l) \<or> (j = i \<and> t = 4))"
proof -
  consider "t = 3" | "t = 4" | "t \<noteq> 3 \<and> t \<noteq> 4" by blast
  then show ?thesis
  proof cases
    case 1
    with map_outputs_out [OF assms, of i l] show ?thesis
      by (auto simp add: map_sm_def)
  next
    case 2
    with map_inputs_out [OF assms, of i l] show ?thesis
      by (auto simp add: map_sm_def)
  next
    case 3
    then show ?thesis by (simp add: map_sm_def)
  qed
qed

lemma map_sdo_sm_out:
  fixes D slave i
  defines "r \<equiv> ec_SDOread D slave (ECT_SDO_SMCOMMTYPE D) (i + 1)"
  assumes "PDO_counts_end D slave"
  shows "\<exists>l'. map_sdo_sm D slave i l = Some l'
     \<and> SMt_bug_add l'
         = (if fst r > 0 \<and> i = 2 \<and> (ucast (snd r) :: uint8) = 2 then 1 else SMt_bug_add l)
     \<and> (\<forall>j. SMoutputs j \<in> set (sdo_out l')
              \<longleftrightarrow> SMoutputs j \<in> set (sdo_out l)
                  \<or> (j = i \<and> fst r > 0 \<and> corrected_type (SMt_bug_add l') (ucast (snd r)) = 3))
     \<and> (\<forall>j. SMinputs j \<in> set (sdo_out l')
              \<longleftrightarrow> SMinputs j \<in> set (sdo_out l)
                  \<or> (j = i \<and> fst r > 0 \<and> corrected_type (SMt_bug_add l') (ucast (snd r)) = 4))"
proof (cases "fst r > 0")
  case False
  then show ?thesis
    by (simp add: map_sdo_sm_def r_def split_beta)
next
  case True
  let ?t = "(ucast (snd r) :: uint8)"
  let ?l1 = "if i = 2 \<and> ?t = 2
             then l\<lparr>SMt_bug_add := 1, sdo_out := sdo_out l @ [Workaround]\<rparr> else l"
  have m: "map_sdo_sm D slave i l = map_sm D slave i (corrected_type (SMt_bug_add ?l1) ?t) ?l1"
    using True by (simp add: map_sdo_sm_def r_def split_beta Let_def)
  have b: "SMt_bug_add ?l1 = (if i = 2 \<and> ?t = 2 then 1 else SMt_bug_add l)"
    by simp
  have o: "SMoutputs j \<in> set (sdo_out ?l1) \<longleftrightarrow> SMoutputs j \<in> set (sdo_out l)"
    "SMinputs j \<in> set (sdo_out ?l1) \<longleftrightarrow> SMinputs j \<in> set (sdo_out l)" for j
    by simp_all
  from map_sm_out [OF assms(2), of i "corrected_type (SMt_bug_add ?l1) ?t" ?l1]
  obtain l' where l': "map_sm D slave i (corrected_type (SMt_bug_add ?l1) ?t) ?l1 = Some l'"
    "SMt_bug_add l' = SMt_bug_add ?l1"
    "\<forall>j. SMoutputs j \<in> set (sdo_out l')
          \<longleftrightarrow> SMoutputs j \<in> set (sdo_out ?l1)
              \<or> (j = i \<and> corrected_type (SMt_bug_add ?l1) ?t = 3)"
    "\<forall>j. SMinputs j \<in> set (sdo_out l')
          \<longleftrightarrow> SMinputs j \<in> set (sdo_out ?l1)
              \<or> (j = i \<and> corrected_type (SMt_bug_add ?l1) ?t = 4)"
    by blast
  show ?thesis
    unfolding m using l' True
    by (intro exI [of _ l']) (simp only: o b, simp)
qed

text \<open>
  With the correction at 1, a type is taken for 3 or 4 exactly when the type plus one is:
  the code leaves a type of 0 at 0, which is neither, as 0 + 1 is neither.
\<close>

lemma corrected_type_1: "corrected_type 1 t = 3 \<longleftrightarrow> t + 1 = 3" "corrected_type 1 t = 4 \<longleftrightarrow> t + 1 = 4"
  by (auto simp add: corrected_type_def)

text \<open>
  Once the correction is 1, or the loop starts at sync manager 2 and that one reports type
  2, every sync manager the loop reads is classified by its type plus one.
\<close>

lemma map_sdo_loop_out:
  fixes D slave
  defines "smread \<equiv> \<lambda>i. fst (ec_SDOread D slave (ECT_SDO_SMCOMMTYPE D) (i + 1)) > 0"
    and "smtype \<equiv> \<lambda>i. (ucast (snd (ec_SDOread D slave (ECT_SDO_SMCOMMTYPE D) (i + 1))) :: uint8)"
  assumes ends: "PDO_counts_end D slave"
  shows "SMt_bug_add l = 1 \<or> (xs \<noteq> [] \<and> hd xs = 2 \<and> smread 2 \<and> smtype 2 = 2) \<Longrightarrow>
     \<exists>l'. map_sdo_loop D slave xs l = Some l'
       \<and> (\<forall>j. SMoutputs j \<in> set (sdo_out l')
                \<longleftrightarrow> SMoutputs j \<in> set (sdo_out l) \<or> (j \<in> set xs \<and> smread j \<and> smtype j + 1 = 3))
       \<and> (\<forall>j. SMinputs j \<in> set (sdo_out l')
                \<longleftrightarrow> SMinputs j \<in> set (sdo_out l) \<or> (j \<in> set xs \<and> smread j \<and> smtype j + 1 = 4))"
proof (induction xs arbitrary: l)
  case Nil
  then show ?case by simp
next
  case (Cons x xs)
  from map_sdo_sm_out [OF ends, of x l]
  obtain l1 where l1: "map_sdo_sm D slave x l = Some l1"
    "SMt_bug_add l1 = (if smread x \<and> x = 2 \<and> smtype x = 2 then 1 else SMt_bug_add l)"
    "\<forall>j. SMoutputs j \<in> set (sdo_out l1)
          \<longleftrightarrow> SMoutputs j \<in> set (sdo_out l)
              \<or> (j = x \<and> smread x \<and> corrected_type (SMt_bug_add l1) (smtype x) = 3)"
    "\<forall>j. SMinputs j \<in> set (sdo_out l1)
          \<longleftrightarrow> SMinputs j \<in> set (sdo_out l)
              \<or> (j = x \<and> smread x \<and> corrected_type (SMt_bug_add l1) (smtype x) = 4)"
    unfolding smread_def smtype_def by blast
  from Cons.prems l1(2) have b1: "SMt_bug_add l1 = 1" by auto
  from Cons.IH [of l1] b1
  obtain l' where l': "map_sdo_loop D slave xs l1 = Some l'"
    "\<forall>j. SMoutputs j \<in> set (sdo_out l')
          \<longleftrightarrow> SMoutputs j \<in> set (sdo_out l1) \<or> (j \<in> set xs \<and> smread j \<and> smtype j + 1 = 3)"
    "\<forall>j. SMinputs j \<in> set (sdo_out l')
          \<longleftrightarrow> SMinputs j \<in> set (sdo_out l1) \<or> (j \<in> set xs \<and> smread j \<and> smtype j + 1 = 4)"
    by blast
  have "map_sdo_loop D slave (x # xs) l = Some l'"
    using l1(1) l'(1) by simp
  moreover have "\<forall>j. SMoutputs j \<in> set (sdo_out l')
          \<longleftrightarrow> SMoutputs j \<in> set (sdo_out l)
              \<or> (j \<in> set (x # xs) \<and> smread j \<and> smtype j + 1 = 3)"
    using l'(2) l1(3) unfolding b1 corrected_type_1 by auto
  moreover have "\<forall>j. SMinputs j \<in> set (sdo_out l')
          \<longleftrightarrow> SMinputs j \<in> set (sdo_out l)
              \<or> (j \<in> set (x # xs) \<and> smread j \<and> smtype j + 1 = 4)"
    using l'(3) l1(4) unfolding b1 corrected_type_1 by auto
  ultimately show ?case by blast
qed

text \<open>The sync managers the loop visits.\<close>

lemma sm_numbers_set:
  assumes "unat n < 255"
  shows "set (sm_numbers n) = {i. 2 \<le> i \<and> i \<le> n}"
proof (intro set_eqI iffI)
  fix i assume "i \<in> set (sm_numbers n)"
  then obtain k where k: "2 \<le> k" "k \<le> unat n" "i = of_nat k"
    by (auto simp add: sm_numbers_def)
  with assms have "unat i = k"
    by (simp add: unat_of_nat)
  with k show "i \<in> {i. 2 \<le> i \<and> i \<le> n}"
    by (simp add: word_le_nat_alt)
next
  fix i assume "i \<in> {i. 2 \<le> i \<and> i \<le> n}"
  then have "2 \<le> unat i" "unat i \<le> unat n"
    by (simp_all add: word_le_nat_alt)
  then have "unat i \<in> set [2 ..< Suc (unat n)]" by auto
  then have "(of_nat (unat i) :: uint8) \<in> of_nat ` set [2 ..< Suc (unat n)]"
    by (rule imageI)
  then show "i \<in> set (sm_numbers n)" by (simp add: sm_numbers_def)
qed

lemma sm_numbers_hd:
  assumes "2 \<le> n"
  shows "sm_numbers n \<noteq> [] \<and> hd (sm_numbers n) = 2"
proof -
  from assms have "2 \<le> unat n" by (simp add: word_le_nat_alt)
  then have "[2 ..< Suc (unat n)] = 2 # [3 ..< Suc (unat n)]"
    by (simp add: upt_rec)
  then show ?thesis by (simp add: sm_numbers_def)
qed

text \<open>
  Claim C5. Let the slave report more than two sync manager types, and type 2 for sync
  manager 2 (and no PDO-assign count of 0xFFFF, so that \<^verbatim>\<open>si_map_sdo\<close> returns). Then
  \<^verbatim>\<open>si_map_sdo\<close> returns, and of the sync managers it visits (from 2 up to the number
  reported less one, and to \<^verbatim>\<open>EC_MAXSM\<close>) those whose type was read are classified by
  their type plus one: a sync manager is mapped as outputs exactly when its type plus one
  is 3, and as inputs exactly when its type plus one is 4. Sync manager 2 itself is among
  them.
\<close>

theorem sm_type_workaround:
  fixes D slave
  defines "smread \<equiv> \<lambda>i. fst (ec_SDOread D slave (ECT_SDO_SMCOMMTYPE D) (i + 1)) > 0"
    and "smtype \<equiv> \<lambda>i. (ucast (snd (ec_SDOread D slave (ECT_SDO_SMCOMMTYPE D) (i + 1))) :: uint8)"
    and "nSM \<equiv> (ucast (snd (ec_SDOread D slave (ECT_SDO_SMCOMMTYPE D) 0)) :: uint8)"
  assumes ends: "PDO_counts_end D slave"
    and count: "fst (ec_SDOread D slave (ECT_SDO_SMCOMMTYPE D) 0) > 0" "nSM > 2"
    and sm2: "smread 2" "smtype 2 = 2"
  shows "\<exists>retVal out. si_map_sdo D slave = Some (retVal, out)
     \<and> (\<forall>i. SMoutputs i \<in> set out
              \<longleftrightarrow> 2 \<le> i \<and> i \<le> nSM - 1 \<and> i \<le> EC_MAXSM D \<and> smread i \<and> smtype i + 1 = 3)
     \<and> (\<forall>i. SMinputs i \<in> set out
              \<longleftrightarrow> 2 \<le> i \<and> i \<le> nSM - 1 \<and> i \<le> EC_MAXSM D \<and> smread i \<and> smtype i + 1 = 4)"
proof -
  let ?l0 = "\<lparr>SMt_bug_add = 0, outputs_bo = 0, inputs_bo = 0, sdo_out = [CoEHeader]\<rparr>"
  let ?n2 = "if nSM - 1 > EC_MAXSM D then EC_MAXSM D else nSM - 1"
  have n1: "unat (nSM - 1) < 255"
  proof -
    have "unat nSM < 2 ^ 8" using unsigned_less [of nSM] by simp
    moreover from count(2) have "2 < unat nSM" by (simp add: word_less_nat_alt)
    ultimately show ?thesis by (simp add: unat_sub_if_size word_size)
  qed
  have le: "?n2 \<le> nSM - 1" by (simp add: less_imp_le)
  then have n2: "unat ?n2 < 255"
    using n1 by (meson le_less_trans word_le_nat_alt)
  have range: "i \<in> set (sm_numbers ?n2) \<longleftrightarrow> 2 \<le> i \<and> i \<le> nSM - 1 \<and> i \<le> EC_MAXSM D" for i
    unfolding sm_numbers_set [OF n2] by auto
  have pre: "SMt_bug_add ?l0 = 1
             \<or> (sm_numbers ?n2 \<noteq> [] \<and> hd (sm_numbers ?n2) = 2 \<and> smread 2 \<and> smtype 2 = 2)
             \<or> sm_numbers ?n2 = []"
  proof (cases "2 \<le> ?n2")
    case True
    from sm_numbers_hd [OF this] sm2 show ?thesis by simp
  next
    case False
    then have "set (sm_numbers ?n2) = {}"
      unfolding sm_numbers_set [OF n2] by auto
    then show ?thesis by simp
  qed
  have "\<exists>l'. map_sdo_loop D slave (sm_numbers ?n2) ?l0 = Some l'
       \<and> (\<forall>j. SMoutputs j \<in> set (sdo_out l')
                \<longleftrightarrow> SMoutputs j \<in> set (sdo_out ?l0)
                    \<or> (j \<in> set (sm_numbers ?n2) \<and> smread j \<and> smtype j + 1 = 3))
       \<and> (\<forall>j. SMinputs j \<in> set (sdo_out l')
                \<longleftrightarrow> SMinputs j \<in> set (sdo_out ?l0)
                    \<or> (j \<in> set (sm_numbers ?n2) \<and> smread j \<and> smtype j + 1 = 4))"
  proof (cases "sm_numbers ?n2 = []")
    case True
    then show ?thesis by simp
  next
    case False
    with pre have "SMt_bug_add ?l0 = 1
             \<or> (sm_numbers ?n2 \<noteq> [] \<and> hd (sm_numbers ?n2) = 2 \<and> smread 2 \<and> smtype 2 = 2)"
      by blast
    from map_sdo_loop_out [OF ends this [unfolded smread_def smtype_def]]
    show ?thesis unfolding smread_def smtype_def .
  qed
  then obtain l' where l': "map_sdo_loop D slave (sm_numbers ?n2) ?l0 = Some l'"
    "\<forall>j. SMoutputs j \<in> set (sdo_out l')
          \<longleftrightarrow> (j \<in> set (sm_numbers ?n2) \<and> smread j \<and> smtype j + 1 = 3)"
    "\<forall>j. SMinputs j \<in> set (sdo_out l')
          \<longleftrightarrow> (j \<in> set (sm_numbers ?n2) \<and> smread j \<and> smtype j + 1 = 4)"
    by auto
  have "si_map_sdo D slave
          = Some (if sint (outputs_bo l') > 0 \<or> sint (inputs_bo l') > 0 then 1 else 0,
                  sdo_out l')"
    using count l'(1) by (simp add: si_map_sdo_def Let_def split_beta nSM_def [symmetric])
  with l'(2,3) show ?thesis
    unfolding range by blast
qed

theorem sm_type_workaround_witness:
  "PDO_counts_end example_info 1
   \<and> si_map_sdo example_info 1
       = Some (1, [CoEHeader, Workaround, SMoutputs 2,
                   EntryRow 0 0 0x7000 1 8 (Some (''UNSIGNED8'', ''Value'')),
                   EntryRow 1 0 0 0 8 None,
                   SMinputs 3,
                   EntryRow 4 0 0x6000 1 16 (Some (''UNSIGNED8'', ''Value''))])
   \<and> (\<exists>retVal out. si_map_sdo example_info 1 = Some (retVal, out)
        \<and> (\<forall>i. SMoutputs i \<in> set out
                 \<longleftrightarrow> 2 \<le> i \<and> i \<le> 4 \<and> i \<le> 8 \<and> fst (example_SDOread 1 0x1C00 (i + 1)) > 0
                     \<and> (ucast (snd (example_SDOread 1 0x1C00 (i + 1))) :: uint8) + 1 = 3)
        \<and> (\<forall>i. SMinputs i \<in> set out
                 \<longleftrightarrow> 2 \<le> i \<and> i \<le> 4 \<and> i \<le> 8 \<and> fst (example_SDOread 1 0x1C00 (i + 1)) > 0
                     \<and> (ucast (snd (example_SDOread 1 0x1C00 (i + 1))) :: uint8) + 1 = 4))"
proof -
  have c: "fst (ec_SDOread example_info 1 (ECT_SDO_SMCOMMTYPE example_info) 0) > 0"
    "(ucast (snd (ec_SDOread example_info 1 (ECT_SDO_SMCOMMTYPE example_info) 0)) :: uint8) > 2"
    "fst (ec_SDOread example_info 1 (ECT_SDO_SMCOMMTYPE example_info) (2 + 1)) > 0"
    "(ucast (snd (ec_SDOread example_info 1 (ECT_SDO_SMCOMMTYPE example_info) (2 + 1))) :: uint8) = 2"
    by (simp_all add: example_info_simps example_sm_reads)
  have n: "(ucast (snd (example_SDOread 1 0x1C00 0)) :: uint8) - 1 = 4"
    by (simp add: example_sm_reads)
  note t = sm_type_workaround [OF example_counts_end c, unfolded example_info_simps n]
  from t example_counts_end [of 1] example_map_sdo show ?thesis
    by blast
qed

subsection \<open>The walk of si_siiPDO over the PDO records\<close>

text \<open>The entries of a PDO leave the record counter and the sizes of the tables alone.\<close>

lemma table_set_length [simp]: "length (table_set xs i v) = length xs"
  by (simp add: table_set_def)

lemma siiPDO_entry_keeps:
  "nPDO (PDO (siiPDO_entry D slave mo l)) = nPDO (PDO l)"
  "Length (PDO (siiPDO_entry D slave mo l)) = Length (PDO l)"
  "length (Index (PDO (siiPDO_entry D slave mo l))) = length (Index (PDO l))"
  "length (SyncM (PDO (siiPDO_entry D slave mo l))) = length (SyncM (PDO l))"
  "length (BitSize (PDO (siiPDO_entry D slave mo l))) = length (BitSize (PDO l))"
  "length (SMbitsize (PDO (siiPDO_entry D slave mo l))) = length (SMbitsize (PDO l))"
  "overrun (siiPDO_entry D slave mo l)
     = (overrun l \<or> \<not> in_table (BitSize (PDO l)) (nPDO (PDO l)))"
  by (simp_all add: siiPDO_entry_def Let_def)

lemma siiPDO_entries_keeps:
  "nPDO (PDO (siiPDO_entries D slave mo e l)) = nPDO (PDO l)
   \<and> Length (PDO (siiPDO_entries D slave mo e l)) = Length (PDO l)
   \<and> length (Index (PDO (siiPDO_entries D slave mo e l))) = length (Index (PDO l))
   \<and> length (SyncM (PDO (siiPDO_entries D slave mo e l))) = length (SyncM (PDO l))
   \<and> length (BitSize (PDO (siiPDO_entries D slave mo e l))) = length (BitSize (PDO l))
   \<and> length (SMbitsize (PDO (siiPDO_entries D slave mo e l))) = length (SMbitsize (PDO l))
   \<and> (in_table (BitSize (PDO l)) (nPDO (PDO l)) \<and> \<not> overrun l
        \<longrightarrow> \<not> overrun (siiPDO_entries D slave mo e l))"
  by (induction e arbitrary: l) (simp_all add: siiPDO_entry_keeps in_table_def)

text \<open>
  One PDO record, when the table has room for it: the counter goes up by one, no access
  leaves a table, and when the counter has reached \<^verbatim>\<open>EC_MAXEEPDO - 1\<close> the cursor \<^verbatim>\<open>c\<close>
  is put at the declared length.
\<close>

lemma siiPDO_record_step:
  assumes ok: "tables_ok D l" and room: "unat (nPDO (PDO l)) + 1 < EC_MAXEEPDO D"
    and small: "EC_MAXEEPDO D \<le> 65536"
  shows "tables_ok D (siiPDO_record D slave t mo l)"
    and "unat (nPDO (PDO (siiPDO_record D slave t mo l))) = unat (nPDO (PDO l)) + 1"
    and "Length (PDO (siiPDO_record D slave t mo l)) = Length (PDO l)"
    and "unat (nPDO (PDO l)) + 2 \<ge> EC_MAXEEPDO D
           \<Longrightarrow> sii_c (siiPDO_record D slave t mo l) = Length (PDO l)"
proof -
  let ?n = "nPDO (PDO l) + 1"
  have un: "unat ?n = unat (nPDO (PDO l)) + 1"
    using room small by (simp add: unat_word_ariths)
  have inb: "in_table (Index (PDO l)) ?n" "in_table (BitSize (PDO l)) ?n"
    "in_table (SyncM (PDO l)) ?n"
    using ok room un by (simp_all add: in_table_def tables_ok_def)
  note ek = siiPDO_entries_keeps
  show "tables_ok D (siiPDO_record D slave t mo l)"
    using ok inb
    by (simp add: siiPDO_record_def Let_def tables_ok_def ek in_table_def table_get_def)
  show "unat (nPDO (PDO (siiPDO_record D slave t mo l))) = unat (nPDO (PDO l)) + 1"
    using un by (simp add: siiPDO_record_def Let_def ek)
  show "Length (PDO (siiPDO_record D slave t mo l)) = Length (PDO l)"
    by (simp add: siiPDO_record_def Let_def ek)
  show "sii_c (siiPDO_record D slave t mo l) = Length (PDO l)"
    if "unat (nPDO (PDO l)) + 2 \<ge> EC_MAXEEPDO D"
  proof -
    have "uint ?n = int (unat ?n)" by simp
    with that un have "int (EC_MAXEEPDO D) - 1 \<le> uint ?n" by linarith
    then show ?thesis
      by (simp add: siiPDO_record_def Let_def ek)
  qed
qed


text \<open>
  The walk returns, after \<open>k\<close> records, with the record counter still inside the table.
\<close>

lemma siiPDO_walk_bounded:
  assumes small: "EC_MAXEEPDO D \<le> 65536"
  shows "tables_ok D l \<Longrightarrow> unat (nPDO (PDO l)) + 1 < EC_MAXEEPDO D \<Longrightarrow>
     \<exists>k. 1 \<le> k \<and> unat (nPDO (PDO l)) + k < EC_MAXEEPDO D
       \<and> siiPDO_walk D slave t mo l = Some ((siiPDO_record D slave t mo ^^ k) l)
       \<and> tables_ok D ((siiPDO_record D slave t mo ^^ k) l)
       \<and> unat (nPDO (PDO ((siiPDO_record D slave t mo ^^ k) l))) = unat (nPDO (PDO l)) + k"
proof (induction "EC_MAXEEPDO D - unat (nPDO (PDO l))" arbitrary: l rule: less_induct)
  case less
  let ?l1 = "siiPDO_record D slave t mo l"
  note step = siiPDO_record_step [OF less.prems small, of slave t mo]
  have ok1: "tables_ok D ?l1" by (rule step(1))
  have n1: "unat (nPDO (PDO ?l1)) = unat (nPDO (PDO l)) + 1" by (rule step(2))
  have len1: "Length (PDO ?l1) = Length (PDO l)" by (rule step(3))
  show ?case
  proof (cases "sii_c ?l1 < Length (PDO ?l1)")
    case False
    then have "siiPDO_walk D slave t mo l = Some ?l1"
      by (subst siiPDO_walk.simps) (simp add: Let_def)
    with ok1 n1 less.prems show ?thesis
      by (intro exI [of _ 1]) simp
  next
    case True
    have room1: "unat (nPDO (PDO ?l1)) + 1 < EC_MAXEEPDO D"
    proof (rule ccontr)
      assume "\<not> unat (nPDO (PDO ?l1)) + 1 < EC_MAXEEPDO D"
      with n1 have "unat (nPDO (PDO l)) + 2 \<ge> EC_MAXEEPDO D" by simp
      from step(4) [OF this] len1 True show False by simp
    qed
    have less1: "EC_MAXEEPDO D - unat (nPDO (PDO ?l1)) < EC_MAXEEPDO D - unat (nPDO (PDO l))"
      using n1 less.prems(2) by simp
    from less.hyps [OF less1 ok1 room1] obtain k where k: "1 \<le> k"
      "unat (nPDO (PDO ?l1)) + k < EC_MAXEEPDO D"
      "siiPDO_walk D slave t mo ?l1 = Some ((siiPDO_record D slave t mo ^^ k) ?l1)"
      "tables_ok D ((siiPDO_record D slave t mo ^^ k) ?l1)"
      "unat (nPDO (PDO ((siiPDO_record D slave t mo ^^ k) ?l1))) = unat (nPDO (PDO ?l1)) + k"
      by blast
    have w: "siiPDO_walk D slave t mo l = siiPDO_walk D slave t mo ?l1"
      using True by (subst siiPDO_walk.simps) (simp add: Let_def)
    have f: "(siiPDO_record D slave t mo ^^ Suc k) l = (siiPDO_record D slave t mo ^^ k) ?l1"
      by (simp add: funpow_swap1)
    from k n1 show ?thesis
      unfolding w by (intro exI [of _ "Suc k"]) (simp only: f, simp)
  qed
qed

lemma siiPDO_enter_ok:
  assumes "2 \<le> EC_MAXEEPDO D"
  shows "tables_ok D (siiPDO_enter D slave pos bitoffset)"
    and "nPDO (PDO (siiPDO_enter D slave pos bitoffset)) = 0"
  using assms by (simp_all add: siiPDO_enter_def siiPDO_start_def tables_ok_def Let_def)

text \<open>
  Claim C6. For a record table of \<^verbatim>\<open>EC_MAXEEPDO\<close> entries (at least 2, and at most 65536
  so that the 16-bit record counter can reach \<^verbatim>\<open>EC_MAXEEPDO - 1\<close>), whatever the SII
  memory of the slave holds and whatever length its PDO section declares,
  \<^verbatim>\<open>si_siiPDO\<close> returns; it has then processed \<open>k\<close> PDO records (its result is the state
  at the entry of the loop with the loop body applied \<open>k\<close> times, and \<^verbatim>\<open>nPDO\<close> is \<open>k\<close>)
  with \<open>k\<close> at most \<^verbatim>\<open>EC_MAXEEPDO - 1\<close>, and no access has left a table.
\<close>

theorem si_siiPDO_record_bound:
  assumes "2 \<le> EC_MAXEEPDO D" and "EC_MAXEEPDO D \<le> 65536"
  shows "\<exists>l r k. si_siiPDO D slave t mapoffset bitoffset = Some (l, r)
           \<and> k \<le> EC_MAXEEPDO D - 1
           \<and> unat (nPDO (PDO l)) = k
           \<and> tables_ok D l
           \<and> (ec_siifind D slave (ECT_SII_PDO D + ucast (if t > 1 then 1 else t)) = 0 \<longrightarrow> k = 0)
           \<and> (ec_siifind D slave (ECT_SII_PDO D + ucast (if t > 1 then 1 else t)) > 0 \<longrightarrow>
                1 \<le> k
                \<and> l = (siiPDO_record D slave (if t > 1 then 1 else t) mapoffset ^^ k)
                        (siiPDO_enter D slave
                           (ec_siifind D slave (ECT_SII_PDO D + ucast (if t > 1 then 1 else t)))
                           bitoffset))"
proof -
  let ?t1 = "if t > 1 then 1 else t"
  let ?pos = "ec_siifind D slave (ECT_SII_PDO D + ucast ?t1)"
  let ?e = "siiPDO_enter D slave ?pos bitoffset"
  show ?thesis
  proof (cases "?pos > 0")
    case True
    have ok: "tables_ok D ?e" and z: "nPDO (PDO ?e) = 0"
      using assms(1) by (rule siiPDO_enter_ok)+
    from z assms(1) have room: "unat (nPDO (PDO ?e)) + 1 < EC_MAXEEPDO D" by simp
    from siiPDO_walk_bounded [OF assms(2) ok room, of slave ?t1 mapoffset] z
    obtain k where k: "1 \<le> k" "k < EC_MAXEEPDO D"
      "siiPDO_walk D slave ?t1 mapoffset ?e = Some ((siiPDO_record D slave ?t1 mapoffset ^^ k) ?e)"
      "tables_ok D ((siiPDO_record D slave ?t1 mapoffset ^^ k) ?e)"
      "unat (nPDO (PDO ((siiPDO_record D slave ?t1 mapoffset ^^ k) ?e))) = k"
      by auto
    have "si_siiPDO D slave t mapoffset bitoffset
            = Some ((siiPDO_record D slave ?t1 mapoffset ^^ k) ?e, slave_eep_pdi D slave \<noteq> 0)"
      using True k(3) by (simp add: si_siiPDO_def Let_def)
    with k True show ?thesis
      by (intro exI [of _ "(siiPDO_record D slave ?t1 mapoffset ^^ k) ?e"]
                exI [of _ "slave_eep_pdi D slave \<noteq> 0"] exI [of _ k]) auto
  next
    case False
    then have p0: "?pos = 0" by (simp add: word_greater_zero_iff)
    let ?l = "(siiPDO_start D bitoffset)\<lparr>PDO := (PDO (siiPDO_start D bitoffset))\<lparr>Startpos := ?pos\<rparr>\<rparr>"
    have "si_siiPDO D slave t mapoffset bitoffset = Some (?l, slave_eep_pdi D slave \<noteq> 0)"
      using False by (simp add: si_siiPDO_def Let_def)
    moreover have "tables_ok D ?l" "unat (nPDO (PDO ?l)) = 0"
      using assms(1) by (simp_all add: siiPDO_start_def tables_ok_def)
    ultimately show ?thesis
      using p0 by (intro exI [of _ ?l] exI [of _ "slave_eep_pdi D slave \<noteq> 0"] exI [of _ 0]) simp
  qed
qed

theorem si_siiPDO_record_bound_witness:
  "\<exists>l r. si_siiPDO example_info 1 1 0 0 = Some (l, r)
     \<and> Length (PDO l) = 0xFFFF \<and> unat (nPDO (PDO l)) = 2
     \<and> unat (nPDO (PDO l)) \<le> EC_MAXEEPDO example_info - 1 \<and> tables_ok example_info l"
proof -
  have a: "2 \<le> EC_MAXEEPDO example_info" and b: "EC_MAXEEPDO example_info \<le> 65536"
    by (simp_all add: example_info_def)
  from si_siiPDO_record_bound [OF a b, of 1 1 0 0]
  obtain l r k where k: "si_siiPDO example_info 1 1 0 0 = Some (l, r)"
    "k \<le> EC_MAXEEPDO example_info - 1" "unat (nPDO (PDO l)) = k" "tables_ok example_info l"
    by blast
  from example_walk k(1) have "unat (nPDO (PDO l)) = 2" "Length (PDO l) = 0xFFFF"
    by simp_all
  with k show ?thesis by simp
qed

subsection \<open>Filler entries\<close>

text \<open>Running offsets, entry by entry.\<close>

lemma advanced_Nil [simp]: "advanced off [] = off"
  by (simp add: advanced_def)

lemma advanced_Cons [simp]: "advanced off (b # bs) = advanced (off + ucast b) bs"
  by (simp add: advanced_def add.assoc)

lemma advanced_append: "advanced off (xs @ ys) = advanced (advanced off xs) ys"
  by (induction xs arbitrary: off) simp_all

lemma advanced_snoc: "advanced off (xs @ [b]) = advanced off xs + ucast b"
  by (simp add: advanced_append)

lemma running_offsets_Nil [simp]: "running_offsets off [] = []"
  by (simp add: running_offsets_def)

lemma running_offsets_Cons [simp]:
  "running_offsets off (b # bs) = off # running_offsets (off + ucast b) bs"
proof -
  have "[0 ..< length (b # bs)] = 0 # map Suc [0 ..< length bs]"
    by (simp only: list.size map_Suc_upt upt_conv_Cons [OF zero_less_Suc] add_Suc_right add_0_right)
  then show ?thesis
    by (simp add: running_offsets_def comp_def)
qed

lemma running_offsets_length [simp]: "length (running_offsets off bs) = length bs"
  by (simp add: running_offsets_def)

lemma running_offsets_nth:
  "n < length bs \<Longrightarrow> running_offsets off bs ! n = advanced off (take n bs)"
  by (simp add: running_offsets_def)

lemma running_offsets_append:
  "running_offsets off (xs @ ys) = running_offsets off xs @ running_offsets (advanced off xs) ys"
  by (induction xs arbitrary: off) simp_all

lemma advanced_take_Suc:
  "n < length bs \<Longrightarrow> advanced off (take (Suc n) bs) = advanced off (take n bs) + ucast (bs ! n)"
  by (simp add: take_Suc_conv_app_nth advanced_snoc)

lemma sint_ucast_byte: "sint (ucast (b :: uint8) :: c_int) = uint b"
proof -
  have hi: "uint b < 2 ^ 8" using uint_lt2p [of b] by simp
  have lo: "0 \<le> uint b" by simp
  have p: "(0 :: int) \<le> 2 ^ 31" "(2 :: int) ^ 8 \<le> 2 ^ 31" by simp_all
  from lo p(1) have "- (2 ^ 31) \<le> uint b" by linarith
  moreover from hi p(2) have "uint b < 2 ^ 31" by linarith
  ultimately show ?thesis
    by (simp add: signed_ucast_eq signed_take_bit_int_eq_self)
qed

lemma sint_add_byte:
  fixes x :: c_int and b :: uint8
  assumes "sint x + uint b < 2 ^ 31"
  shows "sint (x + ucast b) = sint x + uint b"
proof -
  have "- (2 ^ 31) \<le> sint x" using sint_ge [of x] by simp
  moreover have "0 \<le> uint b" by simp
  ultimately have "- (2 ^ 31) \<le> sint x + uint b" by linarith
  with assms show ?thesis
    by (simp add: sint_word_ariths sint_ucast_byte signed_take_bit_int_eq_self)
qed

lemma ucast_of_nat_down: "(ucast (of_nat k :: uint16) :: uint8) = of_nat k"
proof -
  have "unat (ucast (of_nat k :: uint16) :: uint8) = unat (of_nat k :: uint8)"
    by (simp add: unsigned_ucast_eq unsigned_of_nat take_bit_of_nat min_def take_bit_eq_mod
        mod_mod_cancel)
  then show ?thesis by (simp only: word_unat_eq_iff)
qed

text \<open>The rows of a list of dictionary entries, entry by entry.\<close>

lemma dictionary_rows_Nil [simp]: "dictionary_rows D slave mo off [] = []"
  by (simp add: dictionary_rows_def)

lemma dictionary_rows_Cons [simp]:
  "dictionary_rows D slave mo off (w # ws)
     = dictionary_row D slave mo off w
       # dictionary_rows D slave mo (off + ucast (mapping_bitlen w)) ws"
  by (simp add: dictionary_rows_def)

lemma dictionary_rows_append:
  "dictionary_rows D slave mo off (xs @ ys)
     = dictionary_rows D slave mo off xs
       @ dictionary_rows D slave mo (advanced off (map mapping_bitlen xs)) ys"
  by (induction xs arbitrary: off) simp_all

lemma dictionary_rows_length [simp]: "length (dictionary_rows D slave mo off ws) = length ws"
  by (simp add: dictionary_rows_def)

lemma dictionary_rows_nth:
  "n < length ws \<Longrightarrow>
     dictionary_rows D slave mo off ws ! n
       = dictionary_row D slave mo (advanced off (take n (map mapping_bitlen ws))) (ws ! n)"
  by (simp add: dictionary_rows_def running_offsets_nth)

text \<open>
  One pass of the inner loop of \<^verbatim>\<open>si_PDOassign\<close> prints the row of the entry it reads
  and adds the bit length of the entry to the size and to the bit offset.
\<close>

lemma PDOassign_entry_row:
  "bsize (PDOassign_entry D slave mo idx k l)
     = bsize l + ucast (mapping_bitlen (snd (ec_SDOread D slave idx (ucast k))))"
  "pa_bitoffset (PDOassign_entry D slave mo idx k l)
     = pa_bitoffset l + ucast (mapping_bitlen (snd (ec_SDOread D slave idx (ucast k))))"
  "pa_out (PDOassign_entry D slave mo idx k l)
     = pa_out l @ [dictionary_row D slave mo (pa_bitoffset l)
                     (snd (ec_SDOread D slave idx (ucast k)))]"
  by (simp_all add: PDOassign_entry_def dictionary_row_def dictionary_name_def
      mapping_index_def mapping_subindex_def mapping_bitlen_def mapping_filler_def
      Let_def split_beta)

lemma PDOassign_entries_rows:
  "bsize (fold (\<lambda>k. PDOassign_entry D slave mo idx (of_nat k)) ks l)
     = advanced (bsize l)
         (map mapping_bitlen (map (\<lambda>k. snd (ec_SDOread D slave idx (of_nat k))) ks))
   \<and> pa_bitoffset (fold (\<lambda>k. PDOassign_entry D slave mo idx (of_nat k)) ks l)
     = advanced (pa_bitoffset l)
         (map mapping_bitlen (map (\<lambda>k. snd (ec_SDOread D slave idx (of_nat k))) ks))
   \<and> pa_out (fold (\<lambda>k. PDOassign_entry D slave mo idx (of_nat k)) ks l)
     = pa_out l @ dictionary_rows D slave mo (pa_bitoffset l)
                    (map (\<lambda>k. snd (ec_SDOread D slave idx (of_nat k))) ks)"
  by (induction ks arbitrary: l) (simp_all add: PDOassign_entry_row ucast_of_nat_down)

text \<open>One pass of the outer loop: the entries of one assigned PDO.\<close>

lemma PDOassign_pdo_rows_of:
  fixes D slave pa i
  defines "ws \<equiv> (if (ucast (snd (ec_SDOread D slave pa (ucast i))) :: uint16) > 0
                  then pdo_entries D slave (ucast (snd (ec_SDOread D slave pa (ucast i))))
                  else [])"
  shows "bsize (PDOassign_pdo D slave pa mo i l) = advanced (bsize l) (map mapping_bitlen ws)
   \<and> pa_bitoffset (PDOassign_pdo D slave pa mo i l)
       = advanced (pa_bitoffset l) (map mapping_bitlen ws)
   \<and> pa_out (PDOassign_pdo D slave pa mo i l)
       = pa_out l @ dictionary_rows D slave mo (pa_bitoffset l) ws"
  unfolding ws_def PDOassign_pdo_def Let_def pdo_entries_def
  using PDOassign_entries_rows [of D slave mo
      "ucast (snd (ec_SDOread D slave pa (ucast i)))"
      "[1 ..< Suc (unat (ucast (snd (ec_SDOread D slave
           (ucast (snd (ec_SDOread D slave pa (ucast i)))) 0)) :: uint8))]" l]
  by simp

lemma PDOassign_pdos_rows:
  "bsize (fold (PDOassign_pdo D slave pa mo) (map of_nat is) l)
     = advanced (bsize l) (map mapping_bitlen
         (concat (map (\<lambda>idx. if idx > 0 then pdo_entries D slave idx else [])
            (map (\<lambda>i. ucast (snd (ec_SDOread D slave pa (of_nat i)))) is))))
   \<and> pa_bitoffset (fold (PDOassign_pdo D slave pa mo) (map of_nat is) l)
     = advanced (pa_bitoffset l) (map mapping_bitlen
         (concat (map (\<lambda>idx. if idx > 0 then pdo_entries D slave idx else [])
            (map (\<lambda>i. ucast (snd (ec_SDOread D slave pa (of_nat i)))) is))))
   \<and> pa_out (fold (PDOassign_pdo D slave pa mo) (map of_nat is) l)
     = pa_out l @ dictionary_rows D slave mo (pa_bitoffset l)
         (concat (map (\<lambda>idx. if idx > 0 then pdo_entries D slave idx else [])
            (map (\<lambda>i. ucast (snd (ec_SDOread D slave pa (of_nat i)))) is)))"
proof (induction "is" arbitrary: l)
  case Nil
  show ?case by simp
next
  case (Cons i "is")
  note one = PDOassign_pdo_rows_of [of D slave pa mo "of_nat i" l, unfolded ucast_of_nat_down]
  from Cons [of "PDOassign_pdo D slave pa mo (of_nat i) l"] one show ?case
    by (simp add: advanced_append dictionary_rows_append)
qed

text \<open>
  The loop over the assigned PDOs, when their count is not 0xFFFF, is a pass for each of
  1, ..., count.
\<close>

lemma PDOassign_loop_fold:
  assumes "nidx \<noteq> 0xFFFF"
  shows "PDOassign_loop D slave pa mo nidx i l
           = Some (fold (PDOassign_pdo D slave pa mo)
                     (map of_nat [unat i ..< Suc (unat nidx)]) l)"
proof (induction "Suc (unat nidx) - unat i" arbitrary: i l rule: less_induct)
  case less
  show ?case
  proof (cases "i \<le> nidx")
    case False
    then have "unat nidx < unat i" by (simp add: word_le_nat_alt)
    then have "[unat i ..< Suc (unat nidx)] = []" by simp
    moreover from False have "PDOassign_loop D slave pa mo nidx i l = Some l"
      by (subst PDOassign_loop.simps) simp
    ultimately show ?thesis by simp
  next
    case True
    have "unat nidx \<noteq> unat (0xFFFF :: uint16)"
      using assms by (simp only: word_unat_eq_iff not_False_eq_True)
    moreover have "unat nidx < 2 ^ 16"
      using unsigned_less [of nidx] by simp
    ultimately have "unat nidx < 65535" by simp
    with True have u: "unat (i + 1) = Suc (unat i)"
      by (simp add: unat_word_ariths word_le_nat_alt)
    from True have le: "unat i \<le> unat nidx" by (simp add: word_le_nat_alt)
    with u have d: "Suc (unat nidx) - unat (i + 1) < Suc (unat nidx) - unat i" by simp
    from le have "[unat i ..< Suc (unat nidx)] = unat i # [Suc (unat i) ..< Suc (unat nidx)]"
      by (simp add: upt_conv_Cons)
    then have f: "fold (PDOassign_pdo D slave pa mo) (map of_nat [unat i ..< Suc (unat nidx)]) l
        = fold (PDOassign_pdo D slave pa mo) (map of_nat [unat (i + 1) ..< Suc (unat nidx)])
            (PDOassign_pdo D slave pa mo i l)"
      by (simp add: u)
    have "PDOassign_loop D slave pa mo nidx i l
            = PDOassign_loop D slave pa mo nidx (i + 1) (PDOassign_pdo D slave pa mo i l)"
      using True by (subst PDOassign_loop.simps) simp
    also have "\<dots> = Some (fold (PDOassign_pdo D slave pa mo)
                          (map of_nat [unat (i + 1) ..< Suc (unat nidx)])
                          (PDOassign_pdo D slave pa mo i l))"
      by (rule less.hyps [OF d])
    finally show ?thesis by (simp only: f)
  qed
qed

text \<open>
  \<^verbatim>\<open>si_PDOassign\<close> as a whole: it prints the rows of the assigned entries, each at its
  running offset, and returns the sum of their bit lengths.
\<close>

lemma si_PDOassign_rows:
  assumes "(ucast (snd (ec_SDOread D slave pa 0)) :: uint16) \<noteq> 0xFFFF"
  shows "\<exists>r. si_PDOassign D slave pa mo bo = Some r
           \<and> bsize r = advanced 0 (map mapping_bitlen (assigned_entries D slave pa))
           \<and> pa_bitoffset r = advanced bo (map mapping_bitlen (assigned_entries D slave pa))
           \<and> pa_out r = dictionary_rows D slave mo bo (assigned_entries D slave pa)"
proof -
  let ?n = "(ucast (snd (ec_SDOread D slave pa 0)) :: uint16)"
  let ?l = "\<lparr>bsize = 0, pa_bitoffset = bo, pa_out = []\<rparr>"
  show ?thesis
  proof (cases "fst (ec_SDOread D slave pa 0) > 0 \<and> ?n > 0")
    case True
    let ?r = "fold (PDOassign_pdo D slave pa mo) (map of_nat [1 ..< Suc (unat ?n)]) ?l"
    have "si_PDOassign D slave pa mo bo = PDOassign_loop D slave pa mo ?n 1 ?l"
      using True by (simp add: si_PDOassign_def Let_def split_beta)
    also have "\<dots> = Some ?r"
      using PDOassign_loop_fold [OF assms, of D slave pa mo 1 ?l] by simp
    finally have r: "si_PDOassign D slave pa mo bo = Some ?r" .
    have e: "assigned_entries D slave pa
               = concat (map (\<lambda>idx. if idx > 0 then pdo_entries D slave idx else [])
                   (map (\<lambda>i. ucast (snd (ec_SDOread D slave pa (of_nat i))))
                      [1 ..< Suc (unat ?n)]))"
      using True by (simp add: assigned_entries_def assigned_pdos_def split_beta)
    from PDOassign_pdos_rows [of D slave pa mo "[1 ..< Suc (unat ?n)]" ?l] r show ?thesis
      unfolding e by simp
  next
    case False
    then have r: "si_PDOassign D slave pa mo bo = Some ?l"
      by (auto simp add: si_PDOassign_def Let_def split_beta)
    from False have "\<not> fst (ec_SDOread D slave pa 0) > 0 \<or> unat ?n = 0"
      by (simp add: word_greater_zero_iff unat_eq_0)
    then have "assigned_entries D slave pa = []"
      by (auto simp add: assigned_entries_def assigned_pdos_def split_beta)
    with r show ?thesis by simp
  qed
qed

text \<open>The rows of a list of SII entries, entry by entry.\<close>

lemma sii_rows_Nil [simp]: "sii_rows D slave mo off [] = []"
  by (simp add: sii_rows_def)

lemma sii_rows_Cons [simp]:
  "sii_rows D slave mo off (a # as)
     = (if sii_filler D slave a then [] else [sii_row D slave mo off a])
       @ sii_rows D slave mo (off + ucast (sii_bitlen D slave a)) as"
  by (simp add: sii_rows_def)

lemma sii_rows_append:
  "sii_rows D slave mo off (xs @ ys)
     = sii_rows D slave mo off xs
       @ sii_rows D slave mo (advanced off (map (sii_bitlen D slave) xs)) ys"
  by (induction xs arbitrary: off) simp_all

lemma sii_rows_entry_rows [simp]:
  "filter entry_row (sii_rows D slave mo off as) = sii_rows D slave mo off as"
  by (induction as arbitrary: off) (simp_all add: sii_row_def)

text \<open>
  One pass of the loop over the entries of a mapped PDO: a row unless the entry is a
  filler, and the bit length added to the bit offset and the size in both cases.
\<close>

lemma siiPDO_entry_row:
  "sii_a (siiPDO_entry D slave mo l) = sii_a l + 8"
  "sii_c (siiPDO_entry D slave mo l) = sii_c l + 4"
  "totalsize (siiPDO_entry D slave mo l) = totalsize l + ucast (sii_bitlen D slave (sii_a l))"
  "sii_bitoffset (siiPDO_entry D slave mo l)
     = sii_bitoffset l + ucast (sii_bitlen D slave (sii_a l))"
  "sii_out (siiPDO_entry D slave mo l)
     = sii_out l @ (if sii_filler D slave (sii_a l) then []
                    else [sii_row D slave mo (sii_bitoffset l) (sii_a l)])"
  by (simp_all add: siiPDO_entry_def sii_row_def sii_filler_def sii_bitlen_def Let_def)

lemma entry_addresses_Suc:
  fixes a :: uint16
  shows "map (\<lambda>j. a + 8 * of_nat j) [0 ..< Suc e]
           = a # map (\<lambda>j. (a + 8) + 8 * of_nat j) [0 ..< e]"
proof -
  have "[0 ..< Suc e] = 0 # map Suc [0 ..< e]"
    by (simp only: map_Suc_upt upt_conv_Cons [OF zero_less_Suc])
  then show ?thesis
    by (simp add: comp_def algebra_simps)
qed

lemma siiPDO_entries_rows_all:
  "sii_a (siiPDO_entries D slave mo e l) = sii_a l + 8 * of_nat e
   \<and> sii_c (siiPDO_entries D slave mo e l) = sii_c l + 4 * of_nat e
   \<and> totalsize (siiPDO_entries D slave mo e l)
       = advanced (totalsize l)
           (map (sii_bitlen D slave) (map (\<lambda>j. sii_a l + 8 * of_nat j) [0 ..< e]))
   \<and> sii_bitoffset (siiPDO_entries D slave mo e l)
       = advanced (sii_bitoffset l)
           (map (sii_bitlen D slave) (map (\<lambda>j. sii_a l + 8 * of_nat j) [0 ..< e]))
   \<and> sii_out (siiPDO_entries D slave mo e l)
       = sii_out l @ sii_rows D slave mo (sii_bitoffset l)
                       (map (\<lambda>j. sii_a l + 8 * of_nat j) [0 ..< e])"
proof (induction e arbitrary: l)
  case 0
  show ?case by simp
next
  case (Suc e)
  note step = siiPDO_entry_row [of D slave mo l]
  from Suc [of "siiPDO_entry D slave mo l"] show ?case
    unfolding siiPDO_entries.simps entry_addresses_Suc step
    by (simp add: algebra_simps)
qed

lemma siiPDO_entries_rows:
  "sii_a (siiPDO_entries D slave mo e l) = sii_a l + 8 * of_nat e"
  "sii_c (siiPDO_entries D slave mo e l) = sii_c l + 4 * of_nat e"
  "totalsize (siiPDO_entries D slave mo e l)
     = advanced (totalsize l)
         (map (sii_bitlen D slave) (map (\<lambda>j. sii_a l + 8 * of_nat j) [0 ..< e]))"
  "sii_bitoffset (siiPDO_entries D slave mo e l)
     = advanced (sii_bitoffset l)
         (map (sii_bitlen D slave) (map (\<lambda>j. sii_a l + 8 * of_nat j) [0 ..< e]))"
  "sii_out (siiPDO_entries D slave mo e l)
     = sii_out l @ sii_rows D slave mo (sii_bitoffset l)
                     (map (\<lambda>j. sii_a l + 8 * of_nat j) [0 ..< e])"
  using siiPDO_entries_rows_all [of D slave mo e l] by blast+

text \<open>
  One PDO record, when the table has room for it. The cursors pass the record and its
  entries whether the PDO is mapped or not; only the entries of a mapped PDO print rows
  and move the bit offset and the size.
\<close>

lemma unat_ucast_byte: "unat (ucast (b :: uint8) :: uint16) = unat b"
proof -
  have "unat b < 2 ^ 8" using unsigned_less [of b] by simp
  then have "unat b < 2 ^ 16" by simp
  then show ?thesis
    by (simp add: unsigned_ucast_eq take_bit_nat_eq_self)
qed

lemma sii_mapped_unat:
  "unat (ucast (ec_siigetbyte D slave (a + 3)) :: uint16) < unat (EC_MAXSM D)
     \<longleftrightarrow> sii_mapped D slave a"
  by (simp add: unat_ucast_byte sii_mapped_def word_less_nat_alt)

lemma sii_entries_of_alt:
  "sii_entries_of D slave a
     = map (\<lambda>j. (a + 8) + 8 * of_nat j) [0 ..< unat (sii_entry_count D slave a)]"
  by (simp add: sii_entries_of_def)

lemma siiPDO_record_rows:
  fixes D slave l
  defines "a \<equiv> sii_a l"
  defines "es \<equiv> (if sii_mapped D slave a then sii_entries_of D slave a else [])"
  assumes ok: "tables_ok D l" and room: "unat (nPDO (PDO l)) + 1 < EC_MAXEEPDO D"
    and small: "EC_MAXEEPDO D \<le> 65536"
  shows "sii_a (siiPDO_record D slave t mo l) = a + 8 + 8 * sii_entry_count D slave a"
    and "sii_c (siiPDO_record D slave t mo l)
           = (if EC_MAXEEPDO D \<le> unat (nPDO (PDO l)) + 2 then Length (PDO l)
              else sii_c l + 4 + 4 * sii_entry_count D slave a)"
    and "totalsize (siiPDO_record D slave t mo l)
           = advanced (totalsize l) (map (sii_bitlen D slave) es)"
    and "sii_bitoffset (siiPDO_record D slave t mo l)
           = advanced (sii_bitoffset l) (map (sii_bitlen D slave) es)"
    and "filter entry_row (sii_out (siiPDO_record D slave t mo l))
           = filter entry_row (sii_out l) @ sii_rows D slave mo (sii_bitoffset l) es"
proof -
  let ?n = "nPDO (PDO l) + 1"
  let ?e = "sii_entry_count D slave a"
  have un: "unat ?n = unat (nPDO (PDO l)) + 1"
    using room small by (simp add: unat_word_ariths)
  have inb: "in_table (SyncM (PDO l)) ?n"
    using ok room un by (simp add: in_table_def tables_ok_def)
  have sm: "table_get (table_set (SyncM (PDO l)) ?n v) ?n = v" for v
    using inb by (simp add: table_get_def table_set_def in_table_def)
  have cap: "int (EC_MAXEEPDO D) - 1 \<le> uint ?n \<longleftrightarrow> EC_MAXEEPDO D \<le> unat (nPDO (PDO l)) + 2"
  proof -
    have "uint ?n = int (unat ?n)" by simp
    with un show ?thesis by linarith
  qed
  have ee: "of_nat (unat ?e) = ?e" by simp
  note ek = siiPDO_entries_keeps [THEN conjunct1]
  note er = siiPDO_entries_rows
  show "sii_a (siiPDO_record D slave t mo l) = a + 8 + 8 * sii_entry_count D slave a"
    by (simp add: siiPDO_record_def Let_def ek er sm sii_mapped_unat a_def [symmetric]
        sii_entry_count_def [symmetric] ee)
  show "sii_c (siiPDO_record D slave t mo l)
           = (if EC_MAXEEPDO D \<le> unat (nPDO (PDO l)) + 2 then Length (PDO l)
              else sii_c l + 4 + 4 * sii_entry_count D slave a)"
    using cap
    by (simp add: siiPDO_record_def Let_def ek er sm sii_mapped_unat a_def [symmetric]
        sii_entry_count_def [symmetric] ee siiPDO_entries_keeps)
  show "totalsize (siiPDO_record D slave t mo l)
           = advanced (totalsize l) (map (sii_bitlen D slave) es)"
    by (simp add: siiPDO_record_def Let_def ek er sm sii_mapped_unat a_def [symmetric]
        sii_entry_count_def [symmetric] es_def sii_entries_of_alt)
  show "sii_bitoffset (siiPDO_record D slave t mo l)
           = advanced (sii_bitoffset l) (map (sii_bitlen D slave) es)"
    by (simp add: siiPDO_record_def Let_def ek er sm sii_mapped_unat a_def [symmetric]
        sii_entry_count_def [symmetric] es_def sii_entries_of_alt)
  show "filter entry_row (sii_out (siiPDO_record D slave t mo l))
           = filter entry_row (sii_out l) @ sii_rows D slave mo (sii_bitoffset l) es"
    by (simp add: siiPDO_record_def Let_def ek er sm sii_mapped_unat a_def [symmetric]
        sii_entry_count_def [symmetric] es_def sii_entries_of_alt)
qed

text \<open>
  The walk over the records: it returns, having printed the rows of the entries of the
  mapped PDOs among the records it met, and having moved the bit offset and the size by
  their bit lengths.
\<close>

lemma siiPDO_walk_rows:
  assumes small: "EC_MAXEEPDO D \<le> 65536"
  shows "tables_ok D l \<Longrightarrow> unat (nPDO (PDO l)) + 1 < EC_MAXEEPDO D \<Longrightarrow>
     \<exists>l'. siiPDO_walk D slave t mo l = Some l'
       \<and> totalsize l'
           = advanced (totalsize l) (map (sii_bitlen D slave)
               (concat (map (sii_entries_of D slave) (filter (sii_mapped D slave)
                  (sii_records D slave (Length (PDO l))
                     (EC_MAXEEPDO D - 1 - unat (nPDO (PDO l))) (sii_a l) (sii_c l))))))
       \<and> sii_bitoffset l'
           = advanced (sii_bitoffset l) (map (sii_bitlen D slave)
               (concat (map (sii_entries_of D slave) (filter (sii_mapped D slave)
                  (sii_records D slave (Length (PDO l))
                     (EC_MAXEEPDO D - 1 - unat (nPDO (PDO l))) (sii_a l) (sii_c l))))))
       \<and> filter entry_row (sii_out l')
           = filter entry_row (sii_out l)
             @ sii_rows D slave mo (sii_bitoffset l)
                 (concat (map (sii_entries_of D slave) (filter (sii_mapped D slave)
                    (sii_records D slave (Length (PDO l))
                       (EC_MAXEEPDO D - 1 - unat (nPDO (PDO l))) (sii_a l) (sii_c l)))))"
proof (induction "EC_MAXEEPDO D - unat (nPDO (PDO l))" arbitrary: l rule: less_induct)
  case less
  let ?l1 = "siiPDO_record D slave t mo l"
  let ?a = "sii_a l"
  let ?e = "sii_entry_count D slave ?a"
  let ?c1 = "sii_c l + 4 + 4 * ?e"
  let ?k = "EC_MAXEEPDO D - 2 - unat (nPDO (PDO l))"
  let ?es0 = "if sii_mapped D slave ?a then sii_entries_of D slave ?a else []"
  let ?E = "\<lambda>as. concat (map (sii_entries_of D slave) (filter (sii_mapped D slave) as))"
  note step = siiPDO_record_step [OF less.prems small, of slave t mo]
  note rows = siiPDO_record_rows [OF less.prems small, of slave t mo]
  have ok1: "tables_ok D ?l1" by (rule step(1))
  have n1: "unat (nPDO (PDO ?l1)) = unat (nPDO (PDO l)) + 1" by (rule step(2))
  have len1: "Length (PDO ?l1) = Length (PDO l)" by (rule step(3))
  have fuel: "EC_MAXEEPDO D - 1 - unat (nPDO (PDO l)) = Suc ?k"
    using less.prems(2) by simp
  have recs: "sii_records D slave (Length (PDO l)) (Suc ?k) ?a (sii_c l)
                = ?a # (if ?k \<noteq> 0 \<and> ?c1 < Length (PDO l)
                        then sii_records D slave (Length (PDO l)) ?k (?a + 8 + 8 * ?e) ?c1
                        else [])"
    by (simp add: Let_def)
  show ?case
  proof (cases "sii_c ?l1 < Length (PDO ?l1)")
    case False
    have w: "siiPDO_walk D slave t mo l = Some ?l1"
      using False by (subst siiPDO_walk.simps) (simp add: Let_def)
    have stop: "\<not> (?k \<noteq> 0 \<and> ?c1 < Length (PDO l))"
    proof
      assume c: "?k \<noteq> 0 \<and> ?c1 < Length (PDO l)"
      then have "\<not> EC_MAXEEPDO D \<le> unat (nPDO (PDO l)) + 2" by simp
      with rows(2) have "sii_c ?l1 = ?c1" by simp
      with c len1 False show False by simp
    qed
    have tail: "(if ?k \<noteq> 0 \<and> ?c1 < Length (PDO l)
                 then sii_records D slave (Length (PDO l)) ?k (?a + 8 + 8 * ?e) ?c1
                 else []) = []"
      using stop by (rule if_not_P)
    have E: "?E (sii_records D slave (Length (PDO l)) (Suc ?k) ?a (sii_c l)) = ?es0"
      unfolding recs tail by simp
    show ?thesis
      unfolding fuel E w using rows(3,4,5) by simp
  next
    case True
    have nocap: "\<not> EC_MAXEEPDO D \<le> unat (nPDO (PDO l)) + 2"
    proof
      assume "EC_MAXEEPDO D \<le> unat (nPDO (PDO l)) + 2"
      with rows(2) have "sii_c ?l1 = Length (PDO l)" by simp
      with True len1 show False by simp
    qed
    with rows(2) have c1: "sii_c ?l1 = ?c1" by simp
    from nocap have k0: "?k \<noteq> 0" by simp
    from True c1 len1 have lt: "?c1 < Length (PDO l)" by simp
    have room1: "unat (nPDO (PDO ?l1)) + 1 < EC_MAXEEPDO D"
      using nocap n1 by simp
    have less1: "EC_MAXEEPDO D - unat (nPDO (PDO ?l1)) < EC_MAXEEPDO D - unat (nPDO (PDO l))"
      using n1 less.prems(2) by simp
    have k1: "EC_MAXEEPDO D - 1 - unat (nPDO (PDO ?l1)) = ?k"
      using n1 by simp
    let ?rest = "sii_records D slave (Length (PDO l)) ?k (?a + 8 + 8 * ?e) ?c1"
    from less.hyps [OF less1 ok1 room1] obtain l' where l':
      "siiPDO_walk D slave t mo ?l1 = Some l'"
      "totalsize l' = advanced (totalsize ?l1) (map (sii_bitlen D slave) (?E ?rest))"
      "sii_bitoffset l' = advanced (sii_bitoffset ?l1) (map (sii_bitlen D slave) (?E ?rest))"
      "filter entry_row (sii_out l')
         = filter entry_row (sii_out ?l1) @ sii_rows D slave mo (sii_bitoffset ?l1) (?E ?rest)"
      unfolding k1 len1 rows(1) c1 by blast
    have w: "siiPDO_walk D slave t mo l = siiPDO_walk D slave t mo ?l1"
      using True by (subst siiPDO_walk.simps) (simp add: Let_def)
    from k0 lt have "?k \<noteq> 0 \<and> ?c1 < Length (PDO l)" by (rule conjI)
    then have tail: "(if ?k \<noteq> 0 \<and> ?c1 < Length (PDO l) then ?rest else []) = ?rest"
      by (rule if_P)
    have E: "?E (sii_records D slave (Length (PDO l)) (Suc ?k) ?a (sii_c l)) = ?es0 @ ?E ?rest"
      unfolding recs tail by simp
    show ?thesis
      unfolding fuel E w using l' rows(3,4,5)
      by (simp add: advanced_append sii_rows_append)
  qed
qed

text \<open>
  \<^verbatim>\<open>si_siiPDO\<close> as a whole, for a record table of 2 to 65536 entries.
\<close>

lemma si_siiPDO_rows:
  assumes "2 \<le> EC_MAXEEPDO D" and "EC_MAXEEPDO D \<le> 65536"
  shows "\<exists>l r. si_siiPDO D slave t mo bo = Some (l, r)
           \<and> totalsize l
               = advanced 0 (map (sii_bitlen D slave) (sii_mapped_entries D slave t))
           \<and> sii_bitoffset l
               = advanced bo (map (sii_bitlen D slave) (sii_mapped_entries D slave t))
           \<and> filter entry_row (sii_out l)
               = sii_rows D slave mo bo (sii_mapped_entries D slave t)"
proof -
  let ?t1 = "if t > 1 then 1 else t"
  let ?pos = "ec_siifind D slave (ECT_SII_PDO D + ucast ?t1)"
  let ?e = "siiPDO_enter D slave ?pos bo"
  show ?thesis
  proof (cases "?pos > 0")
    case True
    have ok: "tables_ok D ?e" and z: "nPDO (PDO ?e) = 0"
      using assms(1) by (rule siiPDO_enter_ok)+
    from z assms(1) have room: "unat (nPDO (PDO ?e)) + 1 < EC_MAXEEPDO D" by simp
    have e: "sii_a ?e = ?pos + 2" "sii_c ?e = 1" "Length (PDO ?e) = sii_word D slave ?pos"
      "totalsize ?e = 0" "sii_bitoffset ?e = bo" "sii_out ?e = []"
      by (simp_all add: siiPDO_enter_def siiPDO_start_def Let_def)
    have s: "sii_mapped_entries D slave t
               = concat (map (sii_entries_of D slave) (filter (sii_mapped D slave)
                   (sii_records D slave (sii_word D slave ?pos) (EC_MAXEEPDO D - 1)
                      (?pos + 2) 1)))"
      using True by (simp add: sii_mapped_entries_def sii_section_def Let_def)
    from siiPDO_walk_rows [OF assms(2) ok room, of slave ?t1 mo]
    obtain l' where l': "siiPDO_walk D slave ?t1 mo ?e = Some l'"
      "totalsize l' = advanced 0 (map (sii_bitlen D slave) (sii_mapped_entries D slave t))"
      "sii_bitoffset l' = advanced bo (map (sii_bitlen D slave) (sii_mapped_entries D slave t))"
      "filter entry_row (sii_out l') = sii_rows D slave mo bo (sii_mapped_entries D slave t)"
      unfolding z e s by auto
    have "si_siiPDO D slave t mo bo = Some (l', slave_eep_pdi D slave \<noteq> 0)"
      using True l'(1) by (simp add: si_siiPDO_def Let_def)
    with l'(2,3,4) show ?thesis by blast
  next
    case False
    let ?l = "(siiPDO_start D bo)\<lparr>PDO := (PDO (siiPDO_start D bo))\<lparr>Startpos := ?pos\<rparr>\<rparr>"
    have r: "si_siiPDO D slave t mo bo = Some (?l, slave_eep_pdi D slave \<noteq> 0)"
      using False by (simp add: si_siiPDO_def Let_def)
    have s: "sii_mapped_entries D slave t = []"
      using False by (simp add: sii_mapped_entries_def sii_section_def Let_def)
    have "totalsize ?l = 0" "sii_bitoffset ?l = bo" "sii_out ?l = []"
      by (simp_all add: siiPDO_start_def)
    with r show ?thesis unfolding s by simp
  qed
qed

text \<open>A filler gets no row from the SII memory and no name from the dictionary.\<close>

lemma sii_rows_not_fillers:
  "EntryRow ao ab i sb bl nm \<in> set (sii_rows D slave mo off as) \<Longrightarrow> i \<noteq> 0 \<or> sb \<noteq> 0"
  by (induction as arbitrary: off) (auto simp add: sii_row_def sii_filler_def split: if_splits)

lemma dictionary_row_filler:
  "mapping_filler w \<Longrightarrow> \<not> named_row (dictionary_row D slave mo off w)"
  by (simp add: dictionary_row_def dictionary_name_def)

lemma dictionary_rows_named:
  "EntryRow ao ab i sb bl (Some nm) \<in> set (dictionary_rows D slave mo off ws)
     \<Longrightarrow> i \<noteq> 0 \<or> sb \<noteq> 0"
  by (induction ws arbitrary: off)
     (auto simp add: dictionary_row_def dictionary_name_def mapping_filler_def split: if_splits)

text \<open>The step from one running offset to the next.\<close>

lemma advanced_step:
  fixes f :: "'a \<Rightarrow> uint8"
  assumes "n < length xs"
  shows "advanced off (take (Suc n) (map f xs))
           = advanced off (take n (map f xs)) + ucast (f (xs ! n))
         \<and> (sint (advanced off (take n (map f xs))) + uint (f (xs ! n)) < 2 ^ 31
              \<longrightarrow> sint (advanced off (take (Suc n) (map f xs)))
                  = sint (advanced off (take n (map f xs))) + uint (f (xs ! n)))"
proof -
  from assms have "advanced off (take (Suc n) (map f xs))
                    = advanced off (take n (map f xs)) + ucast (f (xs ! n))"
    using advanced_take_Suc [of n "map f xs" off] by simp
  then show ?thesis by (simp add: sint_add_byte)
qed

text \<open>The entries of the example slaves, computed.\<close>

lemma example_assigned:
  "assigned_entries example_info 2 0x1C12 = [0x70000108, 0x00000008]"
  by code_simp

lemma example_mapped:
  "sii_mapped_entries example_info 2 0 = [26, 34]"
  by code_simp

text \<open>
  Claim C7, as amended. A PDO entry whose object index and sub-index are both 0 is a
  filler. \<open>ws\<close> is the entries of the PDOs assigned in the dictionary, \<open>as\<close> the entries,
  in the SII memory, of the PDOs on a sync manager below \<^verbatim>\<open>EC_MAXSM\<close> among the records
  read; \<open>bs\<close> and \<open>cs\<close> are their bit lengths. The running offset of the entry \<open>n\<close> is the
  bit offset the function was given plus the bit lengths of the entries before it, the
  fillers among them; it goes from each entry to the next by the bit length of the entry,
  as a 32-bit \<^verbatim>\<open>int\<close>, and by that very number where the sum fits in an \<^verbatim>\<open>int\<close>.

  \<^verbatim>\<open>si_PDOassign\<close> (the count of assigned PDOs not being 0xFFFF) returns, having printed
  one row per entry, at the running offset of the entry, and the row of a filler has no
  type and name; no named row is for 0x0000:0x00. The bit offset it ends with and the size
  it returns have advanced by the bit lengths of all the entries. \<^verbatim>\<open>si_siiPDO\<close> (for a
  record table of 2 to 65536 entries) returns, having printed a row for each entry of \<open>as\<close>
  that is not a filler, at the running offset of the entry, and no row for a filler; the
  bit offset and the size have advanced by the bit lengths of all of \<open>as\<close>. The entries of
  a PDO on a sync manager from \<^verbatim>\<open>EC_MAXSM\<close> up are not in \<open>as\<close>: they print no row and
  move neither the bit offset nor the size.
\<close>

theorem filler_entry_advances_offset:
  fixes D :: info_lib and slave :: nat and PDOassign :: uint16 and t :: uint8
    and mapoffset bitoffset :: c_int
  defines "ws \<equiv> assigned_entries D slave PDOassign"
    and "as \<equiv> sii_mapped_entries D slave t"
  defines "bs \<equiv> map mapping_bitlen ws"
    and "cs \<equiv> map (sii_bitlen D slave) as"
  assumes "(ucast (snd (ec_SDOread D slave PDOassign 0)) :: uint16) \<noteq> 0xFFFF"
    and "2 \<le> EC_MAXEEPDO D" and "EC_MAXEEPDO D \<le> 65536"
  shows
   "(\<exists>r. si_PDOassign D slave PDOassign mapoffset bitoffset = Some r
        \<and> length (pa_out r) = length ws
        \<and> (\<forall>n < length ws.
              pa_out r ! n
                = dictionary_row D slave mapoffset (advanced bitoffset (take n bs)) (ws ! n)
              \<and> (mapping_filler (ws ! n) \<longrightarrow> \<not> named_row (pa_out r ! n))
              \<and> advanced bitoffset (take (Suc n) bs)
                  = advanced bitoffset (take n bs) + ucast (mapping_bitlen (ws ! n))
              \<and> (sint (advanced bitoffset (take n bs)) + uint (mapping_bitlen (ws ! n)) < 2 ^ 31
                   \<longrightarrow> sint (advanced bitoffset (take (Suc n) bs))
                       = sint (advanced bitoffset (take n bs)) + uint (mapping_bitlen (ws ! n))))
        \<and> (\<forall>ao ab i sb bl nm.
              EntryRow ao ab i sb bl (Some nm) \<in> set (pa_out r) \<longrightarrow> i \<noteq> 0 \<or> sb \<noteq> 0)
        \<and> pa_bitoffset r = advanced bitoffset bs
        \<and> bsize r = advanced 0 bs)
    \<and> (\<exists>l e. si_siiPDO D slave t mapoffset bitoffset = Some (l, e)
        \<and> filter entry_row (sii_out l) = sii_rows D slave mapoffset bitoffset as
        \<and> (\<forall>ao ab i sb bl nm.
              EntryRow ao ab i sb bl nm \<in> set (sii_out l) \<longrightarrow> i \<noteq> 0 \<or> sb \<noteq> 0)
        \<and> (\<forall>n < length as.
              advanced bitoffset (take (Suc n) cs)
                = advanced bitoffset (take n cs) + ucast (sii_bitlen D slave (as ! n))
              \<and> (sint (advanced bitoffset (take n cs)) + uint (sii_bitlen D slave (as ! n)) < 2 ^ 31
                   \<longrightarrow> sint (advanced bitoffset (take (Suc n) cs))
                       = sint (advanced bitoffset (take n cs))
                         + uint (sii_bitlen D slave (as ! n))))
        \<and> sii_bitoffset l = advanced bitoffset cs
        \<and> totalsize l = advanced 0 cs)"
proof -
  from si_PDOassign_rows [OF assms(5), of mapoffset bitoffset]
  obtain r where r: "si_PDOassign D slave PDOassign mapoffset bitoffset = Some r"
    "bsize r = advanced 0 bs" "pa_bitoffset r = advanced bitoffset bs"
    "pa_out r = dictionary_rows D slave mapoffset bitoffset ws"
    unfolding ws_def bs_def by blast
  have d1: "length (pa_out r) = length ws"
    unfolding r(4) by simp
  have d2: "pa_out r ! n
              = dictionary_row D slave mapoffset (advanced bitoffset (take n bs)) (ws ! n)"
    if "n < length ws" for n
    unfolding r(4) bs_def using that by (rule dictionary_rows_nth)
  have d3: "\<not> named_row (pa_out r ! n)" if "n < length ws" "mapping_filler (ws ! n)" for n
    unfolding d2 [OF that(1)] using that(2) by (rule dictionary_row_filler)
  have d4: "i \<noteq> 0 \<or> sb \<noteq> 0" if "EntryRow ao ab i sb bl (Some nm) \<in> set (pa_out r)"
    for ao ab i sb bl nm
    using that unfolding r(4) by (rule dictionary_rows_named)
  have dict: "\<exists>r. si_PDOassign D slave PDOassign mapoffset bitoffset = Some r
        \<and> length (pa_out r) = length ws
        \<and> (\<forall>n < length ws.
              pa_out r ! n
                = dictionary_row D slave mapoffset (advanced bitoffset (take n bs)) (ws ! n)
              \<and> (mapping_filler (ws ! n) \<longrightarrow> \<not> named_row (pa_out r ! n))
              \<and> advanced bitoffset (take (Suc n) bs)
                  = advanced bitoffset (take n bs) + ucast (mapping_bitlen (ws ! n))
              \<and> (sint (advanced bitoffset (take n bs)) + uint (mapping_bitlen (ws ! n)) < 2 ^ 31
                   \<longrightarrow> sint (advanced bitoffset (take (Suc n) bs))
                       = sint (advanced bitoffset (take n bs)) + uint (mapping_bitlen (ws ! n))))
        \<and> (\<forall>ao ab i sb bl nm.
              EntryRow ao ab i sb bl (Some nm) \<in> set (pa_out r) \<longrightarrow> i \<noteq> 0 \<or> sb \<noteq> 0)
        \<and> pa_bitoffset r = advanced bitoffset bs
        \<and> bsize r = advanced 0 bs"
    using r(1,2,3) d1 d2 d3 d4 advanced_step [where xs = ws and f = mapping_bitlen and off = bitoffset, folded bs_def]
    by (intro exI [of _ r] conjI allI impI) blast+
  from si_siiPDO_rows [OF assms(6,7), of slave t mapoffset bitoffset]
  obtain l e where l: "si_siiPDO D slave t mapoffset bitoffset = Some (l, e)"
    "totalsize l = advanced 0 cs" "sii_bitoffset l = advanced bitoffset cs"
    "filter entry_row (sii_out l) = sii_rows D slave mapoffset bitoffset as"
    unfolding as_def cs_def by blast
  have s1: "i \<noteq> 0 \<or> sb \<noteq> 0" if "EntryRow ao ab i sb bl nm \<in> set (sii_out l)"
    for ao ab i sb bl nm
  proof -
    from that have "EntryRow ao ab i sb bl nm \<in> set (filter entry_row (sii_out l))" by simp
    then show ?thesis unfolding l(4) by (rule sii_rows_not_fillers)
  qed
  have sii: "\<exists>l e. si_siiPDO D slave t mapoffset bitoffset = Some (l, e)
        \<and> filter entry_row (sii_out l) = sii_rows D slave mapoffset bitoffset as
        \<and> (\<forall>ao ab i sb bl nm.
              EntryRow ao ab i sb bl nm \<in> set (sii_out l) \<longrightarrow> i \<noteq> 0 \<or> sb \<noteq> 0)
        \<and> (\<forall>n < length as.
              advanced bitoffset (take (Suc n) cs)
                = advanced bitoffset (take n cs) + ucast (sii_bitlen D slave (as ! n))
              \<and> (sint (advanced bitoffset (take n cs)) + uint (sii_bitlen D slave (as ! n)) < 2 ^ 31
                   \<longrightarrow> sint (advanced bitoffset (take (Suc n) cs))
                       = sint (advanced bitoffset (take n cs))
                         + uint (sii_bitlen D slave (as ! n))))
        \<and> sii_bitoffset l = advanced bitoffset cs
        \<and> totalsize l = advanced 0 cs"
    using l s1 advanced_step [where xs = as and f = "sii_bitlen D slave" and off = bitoffset, folded cs_def]
    by (intro exI [of _ l] exI [of _ e] conjI allI impI) blast+
  from dict sii show ?thesis by (rule conjI)
qed

lemma example_rows:
  "dictionary_row example_info 2 4
     (advanced 0 (take 1 (map mapping_bitlen [0x70000108, 0x00000008])))
     ([0x70000108, 0x00000008] ! 1)
   = EntryRow 5 0 0 0 8 None"
  "mapping_filler ([0x70000108, 0x00000008] ! 1)"
  "advanced 0 (map mapping_bitlen [0x70000108, 0x00000008]) = 16"
  "sii_rows example_info 2 4 0 [26, 34]
     = [EntryRow 4 0 0x6000 1 8 (Some (''UNSIGNED8'', ''''))]"
  "advanced 0 (map (sii_bitlen example_info 2) [26, 34]) = 12"
  by code_simp+

theorem filler_entry_advances_offset_witness:
  "(\<exists>r. si_PDOassign example_info 2 0x1C12 4 0 = Some r
        \<and> pa_out r ! 1 = EntryRow 5 0 0 0 8 None
        \<and> \<not> named_row (pa_out r ! 1)
        \<and> pa_bitoffset r = 16 \<and> bsize r = 16)
   \<and> (\<exists>l e. si_siiPDO example_info 2 0 4 0 = Some (l, e)
        \<and> filter entry_row (sii_out l)
            = [EntryRow 4 0 0x6000 1 8 (Some (''UNSIGNED8'', ''''))]
        \<and> sii_bitoffset l = 12 \<and> totalsize l = 12)"
proof -
  have h: "(ucast (snd (ec_SDOread example_info 2 0x1C12 0)) :: uint16) \<noteq> 0xFFFF"
    "2 \<le> EC_MAXEEPDO example_info" "EC_MAXEEPDO example_info \<le> 65536"
    by (simp_all add: example_info_def example_SDOread_def)
  note run = filler_entry_advances_offset [where D = example_info and slave = 2
      and PDOassign = "0x1C12" and t = 0 and mapoffset = 4 and bitoffset = 0,
      OF h, unfolded example_assigned example_mapped]
  from run obtain r where r: "si_PDOassign example_info 2 0x1C12 4 0 = Some r"
    "\<forall>n < length [0x70000108, 0x00000008 :: uint32].
        pa_out r ! n
          = dictionary_row example_info 2 4
              (advanced 0 (take n (map mapping_bitlen [0x70000108, 0x00000008])))
              ([0x70000108, 0x00000008] ! n)
        \<and> (mapping_filler ([0x70000108, 0x00000008] ! n) \<longrightarrow> \<not> named_row (pa_out r ! n))"
    "pa_bitoffset r = advanced 0 (map mapping_bitlen [0x70000108, 0x00000008])"
    "bsize r = advanced 0 (map mapping_bitlen [0x70000108, 0x00000008])"
    by (elim conjE exE) (rule that, assumption, fast, assumption+)
  from run obtain l e where l: "si_siiPDO example_info 2 0 4 0 = Some (l, e)"
    "filter entry_row (sii_out l) = sii_rows example_info 2 4 0 [26, 34]"
    "sii_bitoffset l = advanced 0 (map (sii_bitlen example_info 2) [26, 34])"
    "totalsize l = advanced 0 (map (sii_bitlen example_info 2) [26, 34])"
    by (elim conjE exE) (rule that, assumption+)
  have "(1 :: nat) < length [0x70000108, 0x00000008 :: uint32]" by simp
  with r(2) have "pa_out r ! 1
          = dictionary_row example_info 2 4
              (advanced 0 (take 1 (map mapping_bitlen [0x70000108, 0x00000008])))
              ([0x70000108, 0x00000008] ! 1)
        \<and> (mapping_filler ([0x70000108, 0x00000008] ! 1) \<longrightarrow> \<not> named_row (pa_out r ! 1))"
    by blast
  then have "pa_out r ! 1 = EntryRow 5 0 0 0 8 None" "\<not> named_row (pa_out r ! 1)"
    unfolding example_rows by simp_all
  with r(1,3,4) l show ?thesis
    unfolding example_rows by blast
qed

text \<open>
  Claim C7 as stated fails. The SII memory of slave 3 has one TxPDO, on sync manager 255,
  with one entry, at address 26: a filler of 8 bits. \<^verbatim>\<open>si_siiPDO\<close>, called with the bit
  offset 5, prints nothing, leaves the bit offset at 5 and returns the size 0: the bit
  length of this filler has not moved the offset.
\<close>

theorem filler_of_unmapped_pdo_skipped:
  "sii_section example_info 3 0 = [18]
   \<and> sii_entries_of example_info 3 18 = [26]
   \<and> \<not> sii_mapped example_info 3 18
   \<and> sii_filler example_info 3 26
   \<and> sii_bitlen example_info 3 26 = 8
   \<and> map_option (\<lambda>(l, r). (sii_out l, sii_bitoffset l, totalsize l))
        (si_siiPDO example_info 3 0 4 5)
      = Some ([], 5, 0)"
  by code_simp


end
